theory Spec2Isabelle
  imports Complex_Main
begin

section \<open>The image library: buffers, point cloud containers, errors\<close>

text \<open>
  The program works on objects of the Matrox/Zebra imaging library (MIL), which it names
  by identifiers of type \<^verbatim>\<open>MIL_ID\<close>; \<^verbatim>\<open>M_NULL\<close> is the null identifier. The library is
  not part of the repository. Its calls are modelled here from the library's reference
  manual, as state transformers on an explicit store of library objects.

  A pixel value is the real number it denotes. A buffer has a data type (8 or 16 bit
  unsigned, 32 bit float), a width and a height. A buffer allocated with
  \<^verbatim>\<open>MbufAlloc1d\<close>/\<^verbatim>\<open>MbufAlloc2d\<close> owns its pixels (row after row); a child buffer
  (\<^verbatim>\<open>MbufChild2d\<close>) owns nothing and is a window onto the pixels of the allocated
  buffer it descends from, so that writing through a child changes its ancestor.
\<close>

type_synonym MIL_ID = nat

definition M_NULL :: MIL_ID where
  "M_NULL = 0"

datatype MilType = U8 | U16 | F32

record MilBuffer =
  BufType :: MilType
  SizeX :: nat
  SizeY :: nat
  Root :: MIL_ID
  OffX :: nat
  OffY :: nat
  Pixels :: "real list"

type_synonym Point3d = "real \<times> real \<times> real"

record MilState =
  Buffers :: "MIL_ID \<Rightarrow> MilBuffer option"
  Containers :: "MIL_ID \<Rightarrow> (nat \<times> Point3d list) list option"
  NextId :: MIL_ID
  MilError :: bool

text \<open>
  A library call with an invalid argument reports an error and does nothing else; the
  program goes on. The store records that an error was reported.
\<close>

definition SetError :: "MilState \<Rightarrow> MilState" where
  "SetError s = s\<lparr>MilError := True\<rparr>"

text \<open>
  Floating point arithmetic, and the depth map extraction of the 3D module, are taken as
  parameters: \<open>fmul\<close> and \<open>fadd\<close> are the library's multiplication and addition of a pixel
  by a constant under \<^verbatim>\<open>M_FLOAT_PROC\<close>, \<open>dmul\<close> and \<open>dadd\<close> the arithmetic of the C++ type
  \<^verbatim>\<open>MIL_DOUBLE\<close>, \<open>tofloat\<close> the cast \<^verbatim>\<open>(MIL_FLOAT)\<close>, and \<open>Extract\<close> gives the depth map pixel
  at an index from all the points of a container.
\<close>

record External =
  fmul :: "real \<Rightarrow> real \<Rightarrow> real"
  fadd :: "real \<Rightarrow> real \<Rightarrow> real"
  dmul :: "real \<Rightarrow> real \<Rightarrow> real"
  dadd :: "real \<Rightarrow> real \<Rightarrow> real"
  tofloat :: "real \<Rightarrow> real"
  Extract :: "Point3d list \<Rightarrow> nat \<Rightarrow> real"

text \<open>Exact arithmetic, as an instance.\<close>

definition ExactArith :: External where
  "ExactArith = \<lparr>fmul = (*), fadd = (+), dmul = (*), dadd = (+), tofloat = (\<lambda>r. r),
                  Extract = (\<lambda>ps k. 0)\<rparr>"

subsection \<open>Allocation\<close>

text \<open>\<^verbatim>\<open>MbufAlloc2d(MilSystem, SizeX, SizeY, Type, Attribute, &Id)\<close>: a new buffer under a
  fresh identifier. The library leaves the pixels uninitialised; the model fills them with 0.\<close>

definition MbufAlloc2d :: "nat \<Rightarrow> nat \<Rightarrow> MilType \<Rightarrow> MilState \<Rightarrow> MIL_ID \<times> MilState" where
  "MbufAlloc2d sx sy ty s =
     (if sx = 0 \<or> sy = 0 then (M_NULL, SetError s)
      else (let i = NextId s in
        (i, s\<lparr>Buffers := (Buffers s)(i \<mapsto>
                 \<lparr>BufType = ty, SizeX = sx, SizeY = sy, Root = i, OffX = 0, OffY = 0,
                  Pixels = replicate (sx * sy) 0\<rparr>),
               NextId := Suc i\<rparr>)))"

text \<open>\<^verbatim>\<open>MbufAlloc1d(MilSystem, SizeX, Type, Attribute, &Id)\<close>: a buffer of one row.\<close>

definition MbufAlloc1d :: "nat \<Rightarrow> MilType \<Rightarrow> MilState \<Rightarrow> MIL_ID \<times> MilState" where
  "MbufAlloc1d sx ty s = MbufAlloc2d sx 1 ty s"

text \<open>\<^verbatim>\<open>MbufChild2d(Parent, OffX, OffY, SizeX, SizeY, M_NULL)\<close>: a window of the parent.\<close>

definition MbufChild2d :: "MIL_ID \<Rightarrow> nat \<Rightarrow> nat \<Rightarrow> nat \<Rightarrow> nat \<Rightarrow> MilState \<Rightarrow> MIL_ID \<times> MilState" where
  "MbufChild2d parent ox oy sx sy s =
     (case Buffers s parent of
        None \<Rightarrow> (M_NULL, SetError s)
      | Some pb \<Rightarrow>
          if sx = 0 \<or> sy = 0 \<or> SizeX pb < ox + sx \<or> SizeY pb < oy + sy then (M_NULL, SetError s)
          else (let i = NextId s in
            (i, s\<lparr>Buffers := (Buffers s)(i \<mapsto>
                     \<lparr>BufType = BufType pb, SizeX = sx, SizeY = sy, Root = Root pb,
                      OffX = OffX pb + ox, OffY = OffY pb + oy, Pixels = []\<rparr>),
                   NextId := Suc i\<rparr>)))"

text \<open>\<^verbatim>\<open>MbufFree(Id)\<close>.\<close>

definition MbufFree :: "MIL_ID \<Rightarrow> MilState \<Rightarrow> MilState" where
  "MbufFree i s =
     (case Buffers s i of
        None \<Rightarrow> SetError s
      | Some b \<Rightarrow> s\<lparr>Buffers := (Buffers s)(i := None)\<rparr>)"

text \<open>\<^verbatim>\<open>M3dmapAllocResult(MilSystem, M_POINT_CLOUD_CONTAINER, M_DEFAULT, &Id)\<close>: a new,
  empty point cloud container.\<close>

definition M3dmapAllocResult :: "MilState \<Rightarrow> MIL_ID \<times> MilState" where
  "M3dmapAllocResult s =
     (let i = NextId s in
        (i, s\<lparr>Containers := (Containers s)(i \<mapsto> []), NextId := Suc i\<rparr>))"

subsection \<open>Reading and writing pixels\<close>

text \<open>The place, among the pixels of the owning buffer of width \<open>W\<close>, of pixel \<open>k\<close> of a
  buffer (its pixels counted row after row).\<close>

definition PixelIndex :: "MilBuffer \<Rightarrow> nat \<Rightarrow> nat \<Rightarrow> nat" where
  "PixelIndex b W k = (OffX b + k mod SizeX b) + (OffY b + k div SizeX b) * W"

definition InWindow :: "MilBuffer \<Rightarrow> nat \<Rightarrow> nat \<Rightarrow> bool" where
  "InWindow b x y = (OffX b \<le> x \<and> x < OffX b + SizeX b \<and> OffY b \<le> y \<and> y < OffY b + SizeY b)"

text \<open>The pixels of a buffer, row after row, as \<^verbatim>\<open>MbufGet\<close> delivers them.\<close>

definition MbufData :: "MilState \<Rightarrow> MIL_ID \<Rightarrow> real list option" where
  "MbufData s i =
     (case Buffers s i of
        None \<Rightarrow> None
      | Some b \<Rightarrow>
          (case Buffers s (Root b) of
             None \<Rightarrow> None
           | Some rb \<Rightarrow>
               Some (map (\<lambda>k. Pixels rb ! PixelIndex b (SizeX rb) k) [0..<SizeX b * SizeY b])))"

text \<open>Writing pixel \<open>k\<close> of a buffer, for every \<open>k\<close>, with the value \<open>f k\<close>.\<close>

definition WritePixels :: "MIL_ID \<Rightarrow> (nat \<Rightarrow> real) \<Rightarrow> MilState \<Rightarrow> MilState" where
  "WritePixels i f s =
     (case Buffers s i of
        None \<Rightarrow> SetError s
      | Some b \<Rightarrow>
          (case Buffers s (Root b) of
             None \<Rightarrow> SetError s
           | Some rb \<Rightarrow>
               s\<lparr>Buffers := (Buffers s)(Root b \<mapsto>
                    rb\<lparr>Pixels :=
                         map (\<lambda>p. if InWindow b (p mod SizeX rb) (p div SizeX rb)
                                   then f ((p mod SizeX rb - OffX b) + (p div SizeX rb - OffY b) * SizeX b)
                                   else Pixels rb ! p)
                             [0..<length (Pixels rb)]\<rparr>)\<rparr>))"

text \<open>The value a buffer of a type keeps of a result: an integer buffer keeps the integer
  part, wrapped to its width (no saturation is asked for anywhere in the program).\<close>

definition StoreCast :: "MilType \<Rightarrow> real \<Rightarrow> real" where
  "StoreCast ty r =
     (case ty of
        U8 \<Rightarrow> real_of_int (\<lfloor>r\<rfloor> mod 256)
      | U16 \<Rightarrow> real_of_int (\<lfloor>r\<rfloor> mod 65536)
      | F32 \<Rightarrow> r)"

text \<open>\<^verbatim>\<open>MbufInquire(Id, M_MAX, &Value)\<close>: the greatest value the buffer's type represents
  (for a 32 bit float, \<^verbatim>\<open>FLT_MAX\<close>).\<close>

definition TypeMax :: "MilType \<Rightarrow> real" where
  "TypeMax ty = (case ty of U8 \<Rightarrow> 255 | U16 \<Rightarrow> 65535 | F32 \<Rightarrow> (2 ^ 24 - 1) * 2 ^ 104)"

definition MbufInquire_M_MAX :: "MIL_ID \<Rightarrow> MilState \<Rightarrow> real \<times> MilState" where
  "MbufInquire_M_MAX i s =
     (case Buffers s i of
        None \<Rightarrow> (0, SetError s)
      | Some b \<Rightarrow> (TypeMax (BufType b), s))"

subsection \<open>Image arithmetic\<close>

text \<open>
  \<^verbatim>\<open>MimArith(Src1, Src2, Dst, Operation)\<close>, for the four operations the program uses. An
  operand is an image or a constant. Source and destination have the same size in every
  call of the program; the model reports an error otherwise. A comparison yields the
  greatest value of the destination's type where it holds and 0 where it does not.
\<close>

datatype Operand = Img MIL_ID | Const real

datatype ArithOp =
    M_NOT_EQUAL_CONST
  | M_MULT_CONST_FLOAT_PROC
  | M_ADD_CONST_FLOAT_PROC
  | M_CONST_SUB

definition PixelOp :: "External \<Rightarrow> ArithOp \<Rightarrow> MilType \<Rightarrow> real \<Rightarrow> real \<Rightarrow> real" where
  "PixelOp ext opr dty c v =
     (case opr of
        M_NOT_EQUAL_CONST \<Rightarrow> (if v \<noteq> c then TypeMax dty else 0)
      | M_MULT_CONST_FLOAT_PROC \<Rightarrow> StoreCast dty (fmul ext v c)
      | M_ADD_CONST_FLOAT_PROC \<Rightarrow> StoreCast dty (fadd ext v c)
      | M_CONST_SUB \<Rightarrow> (if dty = F32 then fadd ext c (- v) else StoreCast dty (c - v)))"

definition ArithConst :: "External \<Rightarrow> ArithOp \<Rightarrow> MIL_ID \<Rightarrow> real \<Rightarrow> MIL_ID \<Rightarrow> MilState \<Rightarrow> MilState" where
  "ArithConst ext opr src c dst s =
     (case (Buffers s src, Buffers s dst, MbufData s src) of
        (Some sb, Some db, Some ps) \<Rightarrow>
          if SizeX sb = SizeX db \<and> SizeY sb = SizeY db
          then WritePixels dst (\<lambda>k. PixelOp ext opr (BufType db) c (ps ! k)) s
          else SetError s
      | _ \<Rightarrow> SetError s)"

fun MimArith :: "External \<Rightarrow> Operand \<Rightarrow> Operand \<Rightarrow> MIL_ID \<Rightarrow> ArithOp \<Rightarrow> MilState \<Rightarrow> MilState" where
  "MimArith ext (Img src) (Const c) dst M_NOT_EQUAL_CONST s = ArithConst ext M_NOT_EQUAL_CONST src c dst s"
| "MimArith ext (Img src) (Const c) dst M_MULT_CONST_FLOAT_PROC s = ArithConst ext M_MULT_CONST_FLOAT_PROC src c dst s"
| "MimArith ext (Img src) (Const c) dst M_ADD_CONST_FLOAT_PROC s = ArithConst ext M_ADD_CONST_FLOAT_PROC src c dst s"
| "MimArith ext (Const c) (Img src) dst M_CONST_SUB s = ArithConst ext M_CONST_SUB src c dst s"
| "MimArith ext a b dst opr s = SetError s"

text \<open>\<^verbatim>\<open>MbufClearCond(Buf, Red, Green, Blue, Cond, M_EQUAL, CondLow)\<close> on a one-band
  buffer: the pixels where the condition buffer equals \<open>CondLow\<close> are set to \<open>Red\<close>.\<close>

definition MbufClearCond_M_EQUAL :: "MIL_ID \<Rightarrow> real \<Rightarrow> MIL_ID \<Rightarrow> real \<Rightarrow> MilState \<Rightarrow> MilState" where
  "MbufClearCond_M_EQUAL buf val cond low s =
     (case (Buffers s buf, Buffers s cond, MbufData s buf, MbufData s cond) of
        (Some b, Some cb, Some ps, Some cs) \<Rightarrow>
          if SizeX b = SizeX cb \<and> SizeY b = SizeY cb
          then WritePixels buf (\<lambda>k. if cs ! k = low then StoreCast (BufType b) val else ps ! k) s
          else SetError s
      | _ \<Rightarrow> SetError s)"

text \<open>
  \<^verbatim>\<open>MbufGet(Src, (void*)MbufInquire(Dst, M_HOST_ADDRESS, M_NULL))\<close>: the pixels of the
  source, row after row and without gaps, are copied to the memory of the destination,
  from its start. The destination is a buffer that owns its pixels. Copying pixels of
  another type, or more pixels than the destination holds, is outside the model: it
  reports an error.
\<close>

definition MbufGet_HostAddress :: "MIL_ID \<Rightarrow> MIL_ID \<Rightarrow> MilState \<Rightarrow> MilState" where
  "MbufGet_HostAddress src dst s =
     (case (Buffers s src, Buffers s dst, MbufData s src) of
        (Some sb, Some db, Some ps) \<Rightarrow>
          if Root db = dst \<and> BufType sb = BufType db \<and> length ps \<le> length (Pixels db)
          then s\<lparr>Buffers := (Buffers s)(dst \<mapsto> db\<lparr>Pixels := ps @ drop (length ps) (Pixels db)\<rparr>)\<rparr>
          else SetError s
      | _ \<Rightarrow> SetError s)"

subsection \<open>Point clouds\<close>

text \<open>Modelled from the spec: \<^verbatim>\<open>M3dmapPut\<close> is a function of the imaging library, which is not
  among the sources; they hold its call in \<^verbatim>\<open>CProfileDepthMapProcess::Process\<close> only. The
  specification (section 4.9) says of this call that it appends all samples (X, precomputed
  Y, Z) as one labeled batch into the point cloud container, append-only: the points of prior
  frames remain. So a container holds batches of points, each with its label, in the order
  in which they were put, and
  \<^verbatim>\<open>M3dmapPut(Container, M_POINT_CLOUD_LABEL(l), M_POSITION, M_FLOAT + 32, n, X, Y, Z, M_NULL, M_DEFAULT)\<close>
  adds the \<open>n\<close> points of the three arrays, as one batch with the label \<open>l\<close>, after the batches
  that the container holds. A put into an object that is no container, or from an array of
  fewer than \<open>n\<close> values, reports an error.
\<close>

definition M3dmapPut_M_POSITION ::
  "MIL_ID \<Rightarrow> nat \<Rightarrow> nat \<Rightarrow> real list option \<Rightarrow> real list \<Rightarrow> real list option \<Rightarrow> MilState \<Rightarrow> MilState" where
  "M3dmapPut_M_POSITION c l n px py pz s =
     (case (Containers s c, px, pz) of
        (Some cs, Some xs, Some zs) \<Rightarrow>
          if n \<le> length xs \<and> n \<le> length py \<and> n \<le> length zs
          then s\<lparr>Containers := (Containers s)(c \<mapsto>
                   cs @ [(l, zip (take n xs) (zip (take n py) (take n zs)))])\<rparr>
          else SetError s
      | _ \<Rightarrow> SetError s)"

text \<open>All the points a container holds.\<close>

definition ContainerPoints :: "MilState \<Rightarrow> MIL_ID \<Rightarrow> Point3d list" where
  "ContainerPoints s c = (case Containers s c of None \<Rightarrow> [] | Some cs \<Rightarrow> concat (map snd cs))"

text \<open>\<^verbatim>\<open>M3dmapExtract(Container, DepthMap, M_NULL, M_CORRECTED_DEPTH_MAP, M_ALL, M_DEFAULT)\<close>:
  the depth map is computed anew from all the points of the container.\<close>

definition M3dmapExtract :: "External \<Rightarrow> MIL_ID \<Rightarrow> MIL_ID \<Rightarrow> MilState \<Rightarrow> MilState" where
  "M3dmapExtract ext c depthmap s =
     (case (Containers s c, Buffers s depthmap) of
        (Some cs, Some b) \<Rightarrow>
          WritePixels depthmap (\<lambda>k. StoreCast (BufType b) (Extract ext (concat (map snd cs)) k)) s
      | _ \<Rightarrow> SetError s)"

section \<open>DataConversion.h\<close>

text \<open>\<^verbatim>\<open>struct SPData\<close>: the profile data in the form of three images.\<close>

record SPData =
  MilX :: MIL_ID
  MilZ :: MIL_ID
  MilValidMask :: MIL_ID

text \<open>The constructor \<^verbatim>\<open>SPData()\<close>.\<close>

definition SPData_new :: SPData where
  "SPData_new = \<lparr>MilX = M_NULL, MilZ = M_NULL, MilValidMask = M_NULL\<rparr>"

definition ReleaseData :: "SPData \<Rightarrow> MilState \<Rightarrow> MilState" where
  "ReleaseData d s =
     (let s1 = (if MilX d \<noteq> M_NULL then MbufFree (MilX d) s else s)
      in (if MilZ d \<noteq> M_NULL then MbufFree (MilZ d) s1 else s1))"

definition ReleaseMask :: "SPData \<Rightarrow> MilState \<Rightarrow> MilState" where
  "ReleaseMask d s = (if MilValidMask d \<noteq> M_NULL then MbufFree (MilValidMask d) s else s)"

text \<open>\<^verbatim>\<open>struct SPCal\<close>: a calibration that could be associated to some profile data.\<close>

record SPCal =
  WorldX :: real
  WorldZ :: real
  GrayLevelSX :: real
  GrayLevelSZ :: real

text \<open>
  The classes derived from \<^verbatim>\<open>CDataConversion\<close>. Each object holds \<^verbatim>\<open>m_pPrevConv\<close>, the
  conversion that it owns and that is performed before it (\<open>None\<close> for a null pointer),
  and then its own members: \<^verbatim>\<open>m_MilValidMask\<close> and \<^verbatim>\<open>m_InvalidValue\<close> for
  \<^verbatim>\<open>CDataConversionAddMask\<close>, \<^verbatim>\<open>m_ConvertedData\<close> (and \<^verbatim>\<open>m_PCal\<close>) for the classes
  derived from \<^verbatim>\<open>CDataConversionData\<close>.
\<close>

datatype CDataConversion =
    CDataConversionAddMask "CDataConversion option" MIL_ID real
  | CDataConversionToWorld "CDataConversion option" SPData SPCal
  | CDataConversionToFlat "CDataConversion option" SPData
  | CDataConversionFlipXVal "CDataConversion option"
  | CDataConversionFlipZVal "CDataConversion option"
  | CDataConversionApplyInvalid "CDataConversion option"

fun m_pPrevConv :: "CDataConversion \<Rightarrow> CDataConversion option" where
  "m_pPrevConv (CDataConversionAddMask p m v) = p"
| "m_pPrevConv (CDataConversionToWorld p d c) = p"
| "m_pPrevConv (CDataConversionToFlat p d) = p"
| "m_pPrevConv (CDataConversionFlipXVal p) = p"
| "m_pPrevConv (CDataConversionFlipZVal p) = p"
| "m_pPrevConv (CDataConversionApplyInvalid p) = p"

text \<open>The same stage, built on another predecessor.\<close>

fun SetPrev :: "CDataConversion option \<Rightarrow> CDataConversion \<Rightarrow> CDataConversion" where
  "SetPrev q (CDataConversionAddMask p m v) = CDataConversionAddMask q m v"
| "SetPrev q (CDataConversionToWorld p d c) = CDataConversionToWorld q d c"
| "SetPrev q (CDataConversionToFlat p d) = CDataConversionToFlat q d"
| "SetPrev q (CDataConversionFlipXVal p) = CDataConversionFlipXVal q"
| "SetPrev q (CDataConversionFlipZVal p) = CDataConversionFlipZVal q"
| "SetPrev q (CDataConversionApplyInvalid p) = CDataConversionApplyInvalid q"

subsection \<open>Constructors\<close>

definition CDataConversionAddMask_new ::
  "CDataConversion option \<Rightarrow> nat \<Rightarrow> nat \<Rightarrow> real \<Rightarrow> MilState \<Rightarrow> CDataConversion \<times> MilState" where
  "CDataConversionAddMask_new pPrevConv ProfileSize NbProfiles InvalidValue s =
     (let (m, s1) = MbufAlloc2d ProfileSize NbProfiles U8 s
      in (CDataConversionAddMask pPrevConv m InvalidValue, s1))"

definition CDataConversionToWorld_new ::
  "CDataConversion option \<Rightarrow> nat \<Rightarrow> nat \<Rightarrow> SPCal \<Rightarrow> MilState \<Rightarrow> CDataConversion \<times> MilState" where
  "CDataConversionToWorld_new pPrevConv ProfileSize NbProfiles PCal s =
     (let (x, s1) = MbufAlloc2d ProfileSize NbProfiles F32 s;
          (z, s2) = MbufAlloc2d ProfileSize NbProfiles F32 s1
      in (CDataConversionToWorld pPrevConv (SPData_new\<lparr>MilX := x, MilZ := z\<rparr>) PCal, s2))"

definition CDataConversionToFlat_new ::
  "CDataConversion option \<Rightarrow> nat \<Rightarrow> nat \<Rightarrow> MilType \<Rightarrow> MilState \<Rightarrow> CDataConversion \<times> MilState" where
  "CDataConversionToFlat_new pPrevConv ProfileSize NbProfiles Type s =
     (let (x, s1) = MbufAlloc1d (ProfileSize * NbProfiles) Type s;
          (z, s2) = MbufAlloc1d (ProfileSize * NbProfiles) Type s1;
          (m, s3) = MbufAlloc1d (ProfileSize * NbProfiles) U8 s2
      in (CDataConversionToFlat pPrevConv (SPData_new\<lparr>MilX := x, MilZ := z, MilValidMask := m\<rparr>), s3))"

subsection \<open>Convert\<close>

text \<open>\<^verbatim>\<open>CDataConversionApplyInvalid::ApplyInvalidMask\<close>. (The source also inquires the
  type of the image into a variable that it does not use.)\<close>

definition ApplyInvalidMask :: "MIL_ID \<Rightarrow> MIL_ID \<Rightarrow> MilState \<Rightarrow> MilState" where
  "ApplyInvalidMask MilImage MilMask s =
     (let (InvalidValue, s1) = MbufInquire_M_MAX MilImage s
      in MbufClearCond_M_EQUAL MilImage InvalidValue MilMask 0 s1)"

text \<open>\<^verbatim>\<open>ConvertOp\<close>, the virtual function of the classes derived from
  \<^verbatim>\<open>CDataConversionOp\<close>; the other classes have none.\<close>

fun ConvertOp :: "External \<Rightarrow> CDataConversion \<Rightarrow> SPData \<Rightarrow> MilState \<Rightarrow> MilState" where
  "ConvertOp ext (CDataConversionFlipXVal p) Data s =
     MimArith ext (Const 65535) (Img (MilX Data)) (MilX Data) M_CONST_SUB s"
| "ConvertOp ext (CDataConversionFlipZVal p) Data s =
     MimArith ext (Const 65535) (Img (MilZ Data)) (MilZ Data) M_CONST_SUB s"
| "ConvertOp ext (CDataConversionApplyInvalid p) Data s =
     ApplyInvalidMask (MilZ Data) (MilValidMask Data)
       (ApplyInvalidMask (MilX Data) (MilValidMask Data) s)"
| "ConvertOp ext c Data s = s"

text \<open>
  \<^verbatim>\<open>Convert\<close> and \<^verbatim>\<open>ConvertPrev\<close>. A call returns the converted data, the object after
  the call (\<^verbatim>\<open>CDataConversionToWorld::Convert\<close> assigns to a member) and the store. The
  three last equations of \<open>Convert\<close> are \<^verbatim>\<open>CDataConversionOp::Convert\<close>.
\<close>

fun Convert :: "External \<Rightarrow> CDataConversion \<Rightarrow> SPData \<Rightarrow> MilState \<Rightarrow> SPData \<times> CDataConversion \<times> MilState"
and ConvertPrev :: "External \<Rightarrow> CDataConversion option \<Rightarrow> SPData \<Rightarrow> MilState \<Rightarrow> SPData \<times> CDataConversion option \<times> MilState"
where
  "ConvertPrev ext None Data s = (Data, None, s)"
| "ConvertPrev ext (Some p) Data s =
     (case Convert ext p Data s of (d, p', s') \<Rightarrow> (d, Some p', s'))"
| "Convert ext (CDataConversionAddMask prev m_MilValidMask m_InvalidValue) Data s =
     (case ConvertPrev ext prev Data s of (ConvertedData, prev', s1) \<Rightarrow>
        (let s2 = MimArith ext (Img (MilZ ConvertedData)) (Const m_InvalidValue) m_MilValidMask
                    M_NOT_EQUAL_CONST s1
         in (ConvertedData\<lparr>MilValidMask := m_MilValidMask\<rparr>,
             CDataConversionAddMask prev' m_MilValidMask m_InvalidValue, s2)))"
| "Convert ext (CDataConversionToWorld prev m_ConvertedData m_PCal) Data s =
     (case ConvertPrev ext prev Data s of (ConvertedData, prev', s1) \<Rightarrow>
        (let s2 = MimArith ext (Img (MilX ConvertedData)) (Const (GrayLevelSX m_PCal))
                    (MilX m_ConvertedData) M_MULT_CONST_FLOAT_PROC s1;
             s3 = MimArith ext (Img (MilX m_ConvertedData)) (Const (WorldX m_PCal))
                    (MilX m_ConvertedData) M_ADD_CONST_FLOAT_PROC s2;
             s4 = MimArith ext (Img (MilZ ConvertedData)) (Const (GrayLevelSZ m_PCal))
                    (MilZ m_ConvertedData) M_MULT_CONST_FLOAT_PROC s3;
             s5 = MimArith ext (Img (MilZ m_ConvertedData)) (Const (WorldZ m_PCal))
                    (MilZ m_ConvertedData) M_ADD_CONST_FLOAT_PROC s4;
             m_ConvertedData' = m_ConvertedData\<lparr>MilValidMask := MilValidMask ConvertedData\<rparr>
         in (m_ConvertedData', CDataConversionToWorld prev' m_ConvertedData' m_PCal, s5)))"
| "Convert ext (CDataConversionToFlat prev m_ConvertedData) Data s =
     (case ConvertPrev ext prev Data s of (ConvertedData, prev', s1) \<Rightarrow>
        (let s2 = MbufGet_HostAddress (MilX ConvertedData) (MilX m_ConvertedData) s1;
             s3 = MbufGet_HostAddress (MilZ ConvertedData) (MilZ m_ConvertedData) s2;
             s4 = MbufGet_HostAddress (MilValidMask ConvertedData) (MilValidMask m_ConvertedData) s3
         in (m_ConvertedData, CDataConversionToFlat prev' m_ConvertedData, s4)))"
| "Convert ext (CDataConversionFlipXVal prev) Data s =
     (case ConvertPrev ext prev Data s of (ConvertedData, prev', s1) \<Rightarrow>
        (ConvertedData, CDataConversionFlipXVal prev',
         ConvertOp ext (CDataConversionFlipXVal prev') ConvertedData s1))"
| "Convert ext (CDataConversionFlipZVal prev) Data s =
     (case ConvertPrev ext prev Data s of (ConvertedData, prev', s1) \<Rightarrow>
        (ConvertedData, CDataConversionFlipZVal prev',
         ConvertOp ext (CDataConversionFlipZVal prev') ConvertedData s1))"
| "Convert ext (CDataConversionApplyInvalid prev) Data s =
     (case ConvertPrev ext prev Data s of (ConvertedData, prev', s1) \<Rightarrow>
        (ConvertedData, CDataConversionApplyInvalid prev',
         ConvertOp ext (CDataConversionApplyInvalid prev') ConvertedData s1))"

text \<open>
  The transform of a stage by itself: the statements of its \<^verbatim>\<open>Convert\<close> that follow the
  call of \<^verbatim>\<open>ConvertPrev\<close>, on the data \<open>ConvertedData\<close> that this call has returned. It is
  written with the calls of the library only, and gives the data that the stage returns,
  the object after the call and the store.
\<close>

fun Transform :: "External \<Rightarrow> CDataConversion \<Rightarrow> SPData \<Rightarrow> MilState \<Rightarrow> SPData \<times> CDataConversion \<times> MilState" where
  "Transform ext (CDataConversionAddMask prev m_MilValidMask m_InvalidValue) ConvertedData s =
     (ConvertedData\<lparr>MilValidMask := m_MilValidMask\<rparr>,
      CDataConversionAddMask prev m_MilValidMask m_InvalidValue,
      MimArith ext (Img (MilZ ConvertedData)) (Const m_InvalidValue) m_MilValidMask M_NOT_EQUAL_CONST s)"
| "Transform ext (CDataConversionToWorld prev m_ConvertedData m_PCal) ConvertedData s =
     (m_ConvertedData\<lparr>MilValidMask := MilValidMask ConvertedData\<rparr>,
      CDataConversionToWorld prev (m_ConvertedData\<lparr>MilValidMask := MilValidMask ConvertedData\<rparr>) m_PCal,
      MimArith ext (Img (MilZ m_ConvertedData)) (Const (WorldZ m_PCal))
        (MilZ m_ConvertedData) M_ADD_CONST_FLOAT_PROC
        (MimArith ext (Img (MilZ ConvertedData)) (Const (GrayLevelSZ m_PCal))
           (MilZ m_ConvertedData) M_MULT_CONST_FLOAT_PROC
           (MimArith ext (Img (MilX m_ConvertedData)) (Const (WorldX m_PCal))
              (MilX m_ConvertedData) M_ADD_CONST_FLOAT_PROC
              (MimArith ext (Img (MilX ConvertedData)) (Const (GrayLevelSX m_PCal))
                 (MilX m_ConvertedData) M_MULT_CONST_FLOAT_PROC s))))"
| "Transform ext (CDataConversionToFlat prev m_ConvertedData) ConvertedData s =
     (m_ConvertedData, CDataConversionToFlat prev m_ConvertedData,
      MbufGet_HostAddress (MilValidMask ConvertedData) (MilValidMask m_ConvertedData)
        (MbufGet_HostAddress (MilZ ConvertedData) (MilZ m_ConvertedData)
           (MbufGet_HostAddress (MilX ConvertedData) (MilX m_ConvertedData) s)))"
| "Transform ext (CDataConversionFlipXVal prev) ConvertedData s =
     (ConvertedData, CDataConversionFlipXVal prev,
      MimArith ext (Const 65535) (Img (MilX ConvertedData)) (MilX ConvertedData) M_CONST_SUB s)"
| "Transform ext (CDataConversionFlipZVal prev) ConvertedData s =
     (ConvertedData, CDataConversionFlipZVal prev,
      MimArith ext (Const 65535) (Img (MilZ ConvertedData)) (MilZ ConvertedData) M_CONST_SUB s)"
| "Transform ext (CDataConversionApplyInvalid prev) ConvertedData s =
     (ConvertedData, CDataConversionApplyInvalid prev,
      ApplyInvalidMask (MilZ ConvertedData) (MilValidMask ConvertedData)
        (ApplyInvalidMask (MilX ConvertedData) (MilValidMask ConvertedData) s))"

section \<open>ProfileProcess.h, ProfileProcess.cpp\<close>

text \<open>\<^verbatim>\<open>struct SPRange\<close>: the range of the sensor profile.\<close>

record SPRange =
  MinX :: real
  MinZ :: real
  MaxX :: real
  MaxZ :: real

text \<open>\<^verbatim>\<open>class CProfileProcess\<close>, and the constructor of \<^verbatim>\<open>CProfile3dPointsProcess\<close>,
  which builds the conversion to flat arrays of world coordinates.\<close>

record CProfileProcess =
  m_NbPoints :: nat
  m_PCal :: SPCal
  m_pProcessProfileDataConversion :: "CDataConversion option"

definition CProfileProcess_new :: "SPCal \<Rightarrow> nat \<Rightarrow> CProfileProcess" where
  "CProfileProcess_new PCal NbPoints =
     \<lparr>m_NbPoints = NbPoints, m_PCal = PCal, m_pProcessProfileDataConversion = None\<rparr>"

definition CProfile3dPointsProcess_new ::
  "SPCal \<Rightarrow> nat \<Rightarrow> nat \<Rightarrow> MilState \<Rightarrow> CProfileProcess \<times> MilState" where
  "CProfile3dPointsProcess_new PCal ProfileSize NbProfiles s =
     (let this = CProfileProcess_new PCal (ProfileSize * NbProfiles);
          (c1, s1) = CDataConversionToWorld_new (m_pProcessProfileDataConversion this)
                       ProfileSize NbProfiles PCal s;
          (c2, s2) = CDataConversionToFlat_new (Some c1) ProfileSize NbProfiles F32 s1;
          c3 = CDataConversionApplyInvalid (Some c2)
      in (this\<lparr>m_pProcessProfileDataConversion := Some c3\<rparr>, s2))"

text \<open>\<^verbatim>\<open>class CProfileDepthMapProcess\<close>. The display, its lookup table and the
  calibration of the depth map are library objects that the model names and does not
  describe further; the Direct3D display, which is compiled under Windows only and shows the
  depth map that the process has made, is left out.\<close>

record CProfileDepthMapProcess = CProfileProcess +
  m_MilDisplay :: MIL_ID
  m_MilPointCloudContainer :: MIL_ID
  m_MilDepthMap :: MIL_ID
  m_MilDisplayLut :: MIL_ID
  m_ConvertedY :: "real list"
  m_NbFramesProcessed :: nat

text \<open>An identifier for a library object that the model does not describe.\<close>

definition AllocOther :: "MilState \<Rightarrow> MIL_ID \<times> MilState" where
  "AllocOther s = (NextId s, s\<lparr>NextId := Suc (NextId s)\<rparr>)"

text \<open>\<^verbatim>\<open>MbufClear(Id, Value)\<close>.\<close>

definition MbufClear :: "MIL_ID \<Rightarrow> real \<Rightarrow> MilState \<Rightarrow> MilState" where
  "MbufClear i v s =
     (case Buffers s i of
        None \<Rightarrow> SetError s
      | Some b \<Rightarrow> WritePixels i (\<lambda>k. StoreCast (BufType b) v) s)"

text \<open>
  The loops of the constructor that create the Y coordinate data:
  \<^verbatim>\<open>for(y = 0; y < NbProfiles; y++) { CurY = WorldPosY + y * ConveyorSpeed;
      for(x = 0; x < ProfileSize; x++) m_ConvertedY[x + y*ProfileSize] = (MIL_FLOAT)CurY; }\<close>
  \<open>FillRow\<close> is the inner loop from \<open>x\<close> on, \<open>FillY\<close> the outer loop from \<open>y\<close> on.
\<close>

function FillRow :: "real \<Rightarrow> nat \<Rightarrow> nat \<Rightarrow> nat \<Rightarrow> real list \<Rightarrow> real list" where
  "FillRow v ProfileSize y x Y =
     (if x < ProfileSize then FillRow v ProfileSize y (Suc x) (Y[x + y * ProfileSize := v]) else Y)"
  by pat_completeness auto
termination
  by (relation "measure (\<lambda>(v, ProfileSize, y, x, Y). ProfileSize - x)") auto

function FillY :: "External \<Rightarrow> real \<Rightarrow> real \<Rightarrow> nat \<Rightarrow> nat \<Rightarrow> nat \<Rightarrow> real list \<Rightarrow> real list" where
  "FillY ext WorldPosY ConveyorSpeed ProfileSize NbProfiles y Y =
     (if y < NbProfiles
      then (let CurY = dadd ext WorldPosY (dmul ext (real y) ConveyorSpeed)
            in FillY ext WorldPosY ConveyorSpeed ProfileSize NbProfiles (Suc y)
                 (FillRow (tofloat ext CurY) ProfileSize y 0 Y))
      else Y)"
  by pat_completeness auto
termination
  by (relation "measure (\<lambda>(ext, WorldPosY, ConveyorSpeed, ProfileSize, NbProfiles, y, Y). NbProfiles - y)") auto

definition CProfileDepthMapProcess_new ::
  "External \<Rightarrow> SPCal \<Rightarrow> SPRange \<Rightarrow> real \<Rightarrow> real \<Rightarrow> nat \<Rightarrow> nat \<Rightarrow> MilState
     \<Rightarrow> CProfileDepthMapProcess \<times> MilState" where
  "CProfileDepthMapProcess_new ext ConvPCal DataRange WorldPosY ConveyorSpeed ProfileSize NbProfiles s =
     (let (base, s1) = CProfile3dPointsProcess_new ConvPCal ProfileSize NbProfiles s;
          Y0 = replicate (m_NbPoints base) 0;
          Y = FillY ext WorldPosY ConveyorSpeed ProfileSize NbProfiles 0 Y0;
          (pcc, s2) = M3dmapAllocResult s1;
          (dm, s3) = MbufAlloc2d ProfileSize NbProfiles U16 s2;
          s4 = MbufClear dm 65535 s3;
          (disp, s5) = AllocOther s4;
          (lut, s6) = AllocOther s5
      in (CProfileProcess.extend base
            (CProfileDepthMapProcess.fields disp pcc dm lut Y 0), s6))"

text \<open>\<^verbatim>\<open>(MIL_FLOAT*)MbufInquire(Id, M_HOST_ADDRESS, M_NULL)\<close>: the memory from the first
  pixel of the buffer on, or no address for an invalid identifier.\<close>

definition HostAddress :: "MilState \<Rightarrow> MIL_ID \<Rightarrow> real list option" where
  "HostAddress s i =
     (case Buffers s i of
        None \<Rightarrow> None
      | Some b \<Rightarrow>
          (case Buffers s (Root b) of
             None \<Rightarrow> None
           | Some rb \<Rightarrow> Some (drop (OffX b + OffY b * SizeX rb) (Pixels rb))))"

text \<open>\<^verbatim>\<open>CProfileDepthMapProcess::Process\<close>. The conversion is never null after the
  constructor; the model reports an error for a null one.\<close>

definition Process :: "External \<Rightarrow> CProfileDepthMapProcess \<Rightarrow> SPData \<Rightarrow> MilState
     \<Rightarrow> CProfileDepthMapProcess \<times> MilState" where
  "Process ext this Data s =
     (case m_pProcessProfileDataConversion this of
        None \<Rightarrow> (this, SetError s)
      | Some conv \<Rightarrow>
          (case Convert ext conv Data s of (ConvertedData, conv', s1) \<Rightarrow>
             (let pConvertedX = HostAddress s1 (MilX ConvertedData);
                  pConvertedZ = HostAddress s1 (MilZ ConvertedData);
                  s2 = M3dmapPut_M_POSITION (m_MilPointCloudContainer this) 1 (m_NbPoints this)
                         pConvertedX (m_ConvertedY this) pConvertedZ s1;
                  s3 = M3dmapExtract ext (m_MilPointCloudContainer this) (m_MilDepthMap this) s2
              in (this\<lparr>m_pProcessProfileDataConversion := Some conv',
                       m_NbFramesProcessed := m_NbFramesProcessed this + 1\<rparr>, s3))))"

text \<open>A sequence of calls to \<open>Process\<close>, one for each frame of a list, in order.\<close>

fun ProcessFrames :: "External \<Rightarrow> CProfileDepthMapProcess \<Rightarrow> SPData list \<Rightarrow> MilState
     \<Rightarrow> CProfileDepthMapProcess \<times> MilState" where
  "ProcessFrames ext this [] s = (this, s)"
| "ProcessFrames ext this (Data # frames) s =
     (case Process ext this Data s of (this', s') \<Rightarrow> ProcessFrames ext this' frames s')"

section \<open>Micro-EpsilonToMIL.h, Micro-EpsilonToMIL.cpp\<close>

definition INVALID_VALUE :: real where
  "INVALID_VALUE = 0"

text \<open>\<^verbatim>\<open>class CMicroEpsilonToMIL\<close>. The profile process is an object of an abstract
  class; the model takes the object and its virtual function \<^verbatim>\<open>Process\<close> as parameters
  of \<open>MilInterface\<close>.\<close>

record CMicroEpsilonToMIL =
  m_SizeX :: nat
  m_SizeY :: nat
  m_pDataConversion :: "CDataConversion option"

definition CMicroEpsilonToMIL_new :: "nat \<Rightarrow> nat \<Rightarrow> CMicroEpsilonToMIL" where
  "CMicroEpsilonToMIL_new SizeX' SizeY' =
     \<lparr>m_SizeX = SizeX', m_SizeY = SizeY', m_pDataConversion = None\<rparr>"

text \<open>\<^verbatim>\<open>BuildDigitizerDataConversion\<close>; the two features inquired from the digitizer are
  parameters.\<close>

definition BuildDigitizerDataConversion ::
  "CMicroEpsilonToMIL \<Rightarrow> bool \<Rightarrow> bool \<Rightarrow> MilState \<Rightarrow> CMicroEpsilonToMIL \<times> MilState" where
  "BuildDigitizerDataConversion this FlipPosition FlipDistance s =
     (let (c1, s1) = CDataConversionAddMask_new (m_pDataConversion this)
                       (m_SizeX this) (m_SizeY this) INVALID_VALUE s;
          c2 = (if FlipPosition then CDataConversionFlipXVal (Some c1) else c1);
          c3 = (if FlipDistance then CDataConversionFlipZVal (Some c2) else c2)
      in (this\<lparr>m_pDataConversion := Some c3\<rparr>, s1))"

text \<open>\<^verbatim>\<open>MilInterface\<close>; the grab buffer of the event is a parameter.\<close>

definition MilInterface ::
  "External \<Rightarrow> ('p \<Rightarrow> SPData \<Rightarrow> MilState \<Rightarrow> 'p \<times> MilState) \<Rightarrow> CMicroEpsilonToMIL \<Rightarrow> 'p
     \<Rightarrow> MIL_ID \<Rightarrow> MilState \<Rightarrow> int \<times> CMicroEpsilonToMIL \<times> 'p \<times> MilState" where
  "MilInterface ext process this pProfileProcess MilGrabBuffer s =
     (let (z, s1) = MbufChild2d MilGrabBuffer 0 0 (m_SizeX this) (m_SizeY this) s;
          (x, s2) = MbufChild2d MilGrabBuffer (m_SizeX this) 0 (m_SizeX this) (m_SizeY this) s1;
          Data = SPData_new\<lparr>MilZ := z, MilX := x\<rparr>;
          (ConvertedData, conv', s3) =
             (case m_pDataConversion this of
                Some c \<Rightarrow> (case Convert ext c Data s2 of (d, c', s') \<Rightarrow> (d, Some c', s'))
              | None \<Rightarrow> (Data, None, s2));
          (pProfileProcess', s4) = process pProfileProcess ConvertedData s3;
          s5 = ReleaseData Data s4
      in (0, this\<lparr>m_pDataConversion := conv'\<rparr>, pProfileProcess', s5))"

text \<open>The store after the four image operations of \<^verbatim>\<open>CDataConversionToWorld::Convert\<close>, for
  a stage with the buffers \<open>m\<close> and the calibration \<open>PCal\<close> and for the upstream data \<open>Data\<close>.\<close>

definition ToWorldStore :: "External \<Rightarrow> SPData \<Rightarrow> SPCal \<Rightarrow> SPData \<Rightarrow> MilState \<Rightarrow> MilState" where
  "ToWorldStore ext m PCal Data s =
     ArithConst ext M_ADD_CONST_FLOAT_PROC (MilZ m) (WorldZ PCal) (MilZ m)
       (ArithConst ext M_MULT_CONST_FLOAT_PROC (MilZ Data) (GrayLevelSZ PCal) (MilZ m)
          (ArithConst ext M_ADD_CONST_FLOAT_PROC (MilX m) (WorldX PCal) (MilX m)
             (ArithConst ext M_MULT_CONST_FLOAT_PROC (MilX Data) (GrayLevelSX PCal) (MilX m) s)))"

section \<open>Properties of a store\<close>

text \<open>A buffer is well formed when it and the buffer that owns its pixels exist under
  identifiers that the store has given out, its window lies within the owner, and the owner
  has a pixel for every position.\<close>

definition ValidBuf :: "MilState \<Rightarrow> MIL_ID \<Rightarrow> bool" where
  "ValidBuf s i =
     (case Buffers s i of
        None \<Rightarrow> False
      | Some b \<Rightarrow>
          (case Buffers s (Root b) of
             None \<Rightarrow> False
           | Some rb \<Rightarrow>
               i < NextId s \<and> Root b < NextId s \<and>
               0 < SizeX b \<and> OffX b + SizeX b \<le> SizeX rb \<and> OffY b + SizeY b \<le> SizeY rb \<and>
               length (Pixels rb) = SizeX rb * SizeY rb))"

text \<open>Two buffers share no pixel: other owners, or windows that do not meet.\<close>

definition Separate :: "MilState \<Rightarrow> MIL_ID \<Rightarrow> MIL_ID \<Rightarrow> bool" where
  "Separate s i j =
     (case (Buffers s i, Buffers s j) of
        (Some a, Some b) \<Rightarrow>
           Root a \<noteq> Root b \<or> OffX a + SizeX a \<le> OffX b \<or> OffX b + SizeX b \<le> OffX a \<or>
           OffY a + SizeY a \<le> OffY b \<or> OffY b + SizeY b \<le> OffY a
      | _ \<Rightarrow> False)"

text \<open>What a buffer is, apart from the values of its pixels.\<close>

definition Shape :: "MilState \<Rightarrow> MIL_ID \<Rightarrow> (MilType \<times> nat \<times> nat \<times> MIL_ID \<times> nat \<times> nat \<times> nat) option" where
  "Shape s i =
     map_option (\<lambda>b. (BufType b, SizeX b, SizeY b, Root b, OffX b, OffY b, length (Pixels b)))
       (Buffers s i)"

text \<open>The type and the two sizes of a buffer.\<close>

definition Dim :: "MilState \<Rightarrow> MIL_ID \<Rightarrow> (MilType \<times> nat \<times> nat) option" where
  "Dim s i = map_option (\<lambda>b. (BufType b, SizeX b, SizeY b)) (Buffers s i)"

text \<open>
  The state in which the constructor leaves a depth map process, and every call of \<open>Process\<close>
  after it: the conversion is the chain to world units, to flat buffers \<open>mf\<close> and to invalid
  values; the flat X and Z buffers own \<open>N\<close> float pixels each; there are \<open>N\<close> Y coordinates;
  the depth map is a third buffer that owns its pixels; and the container exists.
\<close>

definition FlatChain :: "CDataConversion option \<Rightarrow> SPData \<Rightarrow> bool" where
  "FlatChain conv mf =
     (\<exists>mw pcal. conv = Some (CDataConversionApplyInvalid (Some (CDataConversionToFlat
                       (Some (CDataConversionToWorld None mw pcal)) mf))))"

definition Ready :: "nat \<Rightarrow> SPData \<Rightarrow> CProfileDepthMapProcess \<Rightarrow> MilState \<Rightarrow> bool" where
  "Ready N mf this s =
     (FlatChain (m_pProcessProfileDataConversion this) mf \<and>
      m_NbPoints this = N \<and> length (m_ConvertedY this) = N \<and>
      Shape s (MilX mf) = Some (F32, N, 1, MilX mf, 0, 0, N) \<and>
      Shape s (MilZ mf) = Some (F32, N, 1, MilZ mf, 0, 0, N) \<and>
      (\<exists>t sx sy n. Shape s (m_MilDepthMap this) = Some (t, sx, sy, m_MilDepthMap this, 0, 0, n)) \<and>
      m_MilDepthMap this \<noteq> MilX mf \<and> m_MilDepthMap this \<noteq> MilZ mf \<and>
      (\<exists>cs. Containers s (m_MilPointCloudContainer this) = Some cs))"

section \<open>Micro-Epsilon\_scanCONTROL\_M10PP3.cpp: the tables of the example\<close>

text \<open>\<^verbatim>\<open>CONV_S\<close>, \<^verbatim>\<open>CONV_OFF\<close>, \<^verbatim>\<open>CONVPCAL\<close> and \<^verbatim>\<open>PRANGE\<close>, by the index of the range
  (indices from 4 on are outside the arrays).\<close>

definition CONV_S :: "nat \<Rightarrow> real" where
  "CONV_S m = [5 / 1000, 2 / 1000, 1 / 1000, 5 / 10000] ! m"

definition CONV_OFF :: "nat \<Rightarrow> real" where
  "CONV_OFF m = [250, 95, 65, 55] ! m"

definition CONVPCAL :: "nat \<Rightarrow> SPCal" where
  "CONVPCAL m = \<lparr>WorldX = - 32768 * CONV_S m, WorldZ = - 32768 * CONV_S m + CONV_OFF m,
                  GrayLevelSX = CONV_S m, GrayLevelSZ = CONV_S m\<rparr>"

definition PRANGE :: "nat \<Rightarrow> SPRange" where
  "PRANGE m =
     [\<lparr>MinX = - (1435 / 10) / 2, MinZ = 125, MaxX = (1435 / 10) / 2, MaxZ = 390\<rparr>,
      \<lparr>MinX = - 60 / 2, MinZ = 65, MaxX = 60 / 2, MaxZ = 125\<rparr>,
      \<lparr>MinX = - (293 / 10) / 2, MinZ = 53, MaxX = (293 / 10) / 2, MaxZ = 79\<rparr>,
      \<lparr>MinX = - (107 / 10) / 2, MinZ = 525 / 10, MaxX = (107 / 10) / 2, MaxZ = 605 / 10\<rparr>] ! m"

definition CONVEYOR_SPEED :: real where
  "CONVEYOR_SPEED = 5 / 100"

section \<open>Stores for the examples\<close>

text \<open>A store with no object, and a store with one grab buffer of two profiles of two points:
  in each row of the 16 bit image, the Z values in the left half and the X values in the
  right half.\<close>

definition EmptyStore :: MilState where
  "EmptyStore = \<lparr>Buffers = (\<lambda>i. None), Containers = (\<lambda>i. None), NextId = 1, MilError = False\<rparr>"

definition GrabStore :: MilState where
  "GrabStore =
     \<lparr>Buffers = (\<lambda>i. None)(1 \<mapsto>
        \<lparr>BufType = U16, SizeX = 4, SizeY = 2, Root = 1, OffX = 0, OffY = 0,
         Pixels = [0, 65535, 0, 65535, 50, 300, 100, 200]\<rparr>),
      Containers = (\<lambda>i. None), NextId = 2, MilError = False\<rparr>"

text \<open>The same store with the two child buffers that \<open>MilInterface\<close> makes, and the profile
  data that names them.\<close>

definition ProfileStore :: MilState where
  "ProfileStore = snd (MbufChild2d 1 2 0 2 2 (snd (MbufChild2d 1 0 0 2 2 GrabStore)))"

definition ProfileData :: SPData where
  "ProfileData = \<lparr>MilX = 3, MilZ = 2, MilValidMask = M_NULL\<rparr>"

text \<open>The store after the constructor of the stage that adds a mask, the store after the
  conversion of the profile data by this stage, and the data that the stage returns.\<close>

definition MaskStore :: MilState where
  "MaskStore = snd (CDataConversionAddMask_new None 2 2 INVALID_VALUE ProfileStore)"

definition MaskedStore :: MilState where
  "MaskedStore =
     snd (snd (Convert ExactArith (CDataConversionAddMask None 4 INVALID_VALUE) ProfileData MaskStore))"

definition MaskedData :: SPData where
  "MaskedData = \<lparr>MilX = 3, MilZ = 2, MilValidMask = 4\<rparr>"

text \<open>The store after the constructor of the stage that converts to world units, there, and
  the two buffers of the stage.\<close>

definition WorldStore :: MilState where
  "WorldStore = snd (CDataConversionToWorld_new None 2 2 (CONVPCAL 2) MaskedStore)"

definition WorldBuffers :: SPData where
  "WorldBuffers = \<lparr>MilX = 5, MilZ = 6, MilValidMask = M_NULL\<rparr>"

text \<open>A calibration with no scale.\<close>

definition ZeroScale :: SPCal where
  "ZeroScale = \<lparr>WorldX = 7, WorldZ = 9, GrayLevelSX = 0, GrayLevelSZ = 0\<rparr>"

text \<open>The calibration that leaves the gray levels as they are, and a conveyor speed that
  a float holds.\<close>

definition IdentityCal :: SPCal where
  "IdentityCal = \<lparr>WorldX = 0, WorldZ = 0, GrayLevelSX = 1, GrayLevelSZ = 1\<rparr>"

definition HalfSpeed :: real where
  "HalfSpeed = 1 / 2"

text \<open>A depth map process for frames of two profiles of two points, made in the store of
  the masked profile data, and the store after its constructor.\<close>

definition DepthProcess :: CProfileDepthMapProcess where
  "DepthProcess =
     fst (CProfileDepthMapProcess_new ExactArith IdentityCal (PRANGE 2) 0 HalfSpeed 2 2 MaskedStore)"

definition DepthStore :: MilState where
  "DepthStore =
     snd (CProfileDepthMapProcess_new ExactArith IdentityCal (PRANGE 2) 0 HalfSpeed 2 2 MaskedStore)"

text \<open>The process and the store after a first call of \<open>Process\<close>, for the masked profile
  data; and a second frame, which has the two channels of the first one exchanged.\<close>

definition DepthProcess1 :: CProfileDepthMapProcess where
  "DepthProcess1 =
     DepthProcess\<lparr>m_pProcessProfileDataConversion :=
        Some (CDataConversionApplyInvalid (Some (CDataConversionToFlat
          (Some (CDataConversionToWorld None \<lparr>MilX = 5, MilZ = 6, MilValidMask = 4\<rparr> IdentityCal))
          \<lparr>MilX = 7, MilZ = 8, MilValidMask = 9\<rparr>))),
        m_NbFramesProcessed := 1\<rparr>"

definition FrameStore :: MilState where
  "FrameStore =
     \<lparr>Buffers = (\<lambda>i. None)(1 \<mapsto>
        \<lparr>BufType = U16, SizeX = 4, SizeY = 2, Root = 1, OffX = 0, OffY = 0,
         Pixels = [0, 65535, 0, 65535, 50, 300, 100, 200]\<rparr>,
        2 \<mapsto> \<lparr>BufType = U16, SizeX = 2, SizeY = 2, Root = 1, OffX = 0, OffY = 0, Pixels = []\<rparr>,
        3 \<mapsto> \<lparr>BufType = U16, SizeX = 2, SizeY = 2, Root = 1, OffX = 2, OffY = 0, Pixels = []\<rparr>,
        4 \<mapsto> \<lparr>BufType = U8, SizeX = 2, SizeY = 2, Root = 4, OffX = 0, OffY = 0,
               Pixels = [0, 255, 255, 255]\<rparr>,
        5 \<mapsto> \<lparr>BufType = F32, SizeX = 2, SizeY = 2, Root = 5, OffX = 0, OffY = 0,
               Pixels = [0, 65535, 100, 200]\<rparr>,
        6 \<mapsto> \<lparr>BufType = F32, SizeX = 2, SizeY = 2, Root = 6, OffX = 0, OffY = 0,
               Pixels = [0, 65535, 50, 300]\<rparr>,
        9 \<mapsto> \<lparr>BufType = U8, SizeX = 4, SizeY = 1, Root = 9, OffX = 0, OffY = 0,
               Pixels = [0, 255, 255, 255]\<rparr>,
        7 \<mapsto> \<lparr>BufType = F32, SizeX = 4, SizeY = 1, Root = 7, OffX = 0, OffY = 0,
               Pixels = [TypeMax F32, 65535, 100, 200]\<rparr>,
        8 \<mapsto> \<lparr>BufType = F32, SizeX = 4, SizeY = 1, Root = 8, OffX = 0, OffY = 0,
               Pixels = [TypeMax F32, 65535, 50, 300]\<rparr>,
        11 \<mapsto> \<lparr>BufType = U16, SizeX = 2, SizeY = 2, Root = 11, OffX = 0, OffY = 0,
               Pixels = [0, 0, 0, 0]\<rparr>),
      Containers = (\<lambda>i. None)(10 \<mapsto>
        [(1, [(TypeMax F32, 0, TypeMax F32), (65535, 0, 65535),
              (100, 1 / 2, 50), (200, 1 / 2, 300)])]),
      NextId = 14, MilError = False\<rparr>"

definition SwappedData :: SPData where
  "SwappedData = \<lparr>MilX = 2, MilZ = 3, MilValidMask = 4\<rparr>"

section \<open>Lemmas on reading and writing pixels\<close>

lemma Shape_SetError [simp]: "Shape (SetError s) j = Shape s j"
  by (simp add: Shape_def SetError_def)

lemma Shape_WritePixels [simp]: "Shape (WritePixels i f s) j = Shape s j"
  by (auto simp: Shape_def WritePixels_def SetError_def split: option.splits)

lemma ValidBuf_Shape:
  "ValidBuf s i =
     (case Shape s i of
        None \<Rightarrow> False
      | Some (t, sx, sy, r, ox, oy, n) \<Rightarrow>
          (case Shape s r of
             None \<Rightarrow> False
           | Some (t', W, H, r', ox', oy', n') \<Rightarrow>
               i < NextId s \<and> r < NextId s \<and>
               0 < sx \<and> ox + sx \<le> W \<and> oy + sy \<le> H \<and> n' = W * H))"
  by (auto simp: ValidBuf_def Shape_def split: option.splits)

lemma Separate_Shape:
  "Separate s i j =
     (case (Shape s i, Shape s j) of
        (Some (t, sx, sy, r, ox, oy, n), Some (t', sx', sy', r', ox', oy', n')) \<Rightarrow>
           r \<noteq> r' \<or> ox + sx \<le> ox' \<or> ox' + sx' \<le> ox \<or> oy + sy \<le> oy' \<or> oy' + sy' \<le> oy
      | _ \<Rightarrow> False)"
  by (auto simp: Separate_def Shape_def split: option.splits)

lemma Dim_Shape:
  "Dim s i = map_option (\<lambda>(t, sx, sy, r). (t, sx, sy)) (Shape s i)"
  by (cases "Buffers s i") (auto simp: Dim_def Shape_def)

lemma PixelIndex_Pixels_update [simp]: "PixelIndex (b\<lparr>Pixels := P\<rparr>) W k = PixelIndex b W k"
  by (simp add: PixelIndex_def)

lemma pixel_index_mod:
  fixes k :: nat
  assumes "ox + sx \<le> W" "0 < sx"
  shows "((ox + k mod sx) + y * W) mod W = ox + k mod sx"
proof -
  have "k mod sx < sx" using assms by simp
  then have "ox + k mod sx < W" using assms by linarith
  then show ?thesis by simp
qed

lemma pixel_index_div:
  fixes k :: nat
  assumes "ox + sx \<le> W" "0 < sx"
  shows "((ox + k mod sx) + y * W) div W = y"
proof -
  have "k mod sx < sx" using assms by simp
  then have "ox + k mod sx < W" using assms by linarith
  then show ?thesis by simp
qed

lemma pixel_index_less:
  fixes k :: nat
  assumes "ox + sx \<le> W" "0 < sx" "oy + sy \<le> H" "k < sx * sy"
  shows "(ox + k mod sx) + (oy + k div sx) * W < W * H"
proof -
  have "k mod sx < sx" using assms by simp
  then have a: "ox + k mod sx < W" using assms by linarith
  have "k div sx < sy" using assms by (simp add: less_mult_imp_div_less mult.commute)
  then have "oy + k div sx < H" using assms by linarith
  then have "Suc (oy + k div sx) \<le> H" by simp
  then have "Suc (oy + k div sx) * W \<le> H * W" by (rule mult_le_mono1)
  then show ?thesis using a by (simp add: mult.commute)
qed

lemma MbufData_WritePixels_same:
  assumes "ValidBuf s i" "Buffers s i = Some b"
  shows "MbufData (WritePixels i f s) i = Some (map f [0..<SizeX b * SizeY b])"
proof -
  obtain rb where rb: "Buffers s (Root b) = Some rb"
    using assms by (auto simp: ValidBuf_def split: option.splits)
  have v: "0 < SizeX b" "OffX b + SizeX b \<le> SizeX rb" "OffY b + SizeY b \<le> SizeY rb"
      "length (Pixels rb) = SizeX rb * SizeY rb"
    using assms rb by (auto simp: ValidBuf_def)
  have br: "i = Root b \<Longrightarrow> rb = b" using assms rb by simp
  let ?P = "map (\<lambda>p. if InWindow b (p mod SizeX rb) (p div SizeX rb)
                      then f ((p mod SizeX rb - OffX b) + (p div SizeX rb - OffY b) * SizeX b)
                      else Pixels rb ! p) [0..<length (Pixels rb)]"
  have px: "?P ! PixelIndex b (SizeX rb) k = f k" if "k < SizeX b * SizeY b" for k
  proof -
    have lt: "PixelIndex b (SizeX rb) k < length (Pixels rb)"
      unfolding PixelIndex_def using pixel_index_less [OF v(2) v(1) v(3) that] v(4) by simp
    have m: "PixelIndex b (SizeX rb) k mod SizeX rb = OffX b + k mod SizeX b"
      unfolding PixelIndex_def by (rule pixel_index_mod [OF v(2) v(1)])
    have d: "PixelIndex b (SizeX rb) k div SizeX rb = OffY b + k div SizeX b"
      unfolding PixelIndex_def by (rule pixel_index_div [OF v(2) v(1)])
    have "k div SizeX b < SizeY b" using that v(1) by (simp add: less_mult_imp_div_less mult.commute)
    then have w: "InWindow b (OffX b + k mod SizeX b) (OffY b + k div SizeX b)"
      using v(1) by (simp add: InWindow_def)
    show ?thesis using lt m d w by simp
  qed
  have "MbufData (WritePixels i f s) i
          = Some (map (\<lambda>k. ?P ! PixelIndex b (SizeX rb) k) [0..<SizeX b * SizeY b])"
    using assms(2) rb br by (auto simp: MbufData_def WritePixels_def)
  also have "map (\<lambda>k. ?P ! PixelIndex b (SizeX rb) k) [0..<SizeX b * SizeY b]
          = map f [0..<SizeX b * SizeY b]"
    using px by simp
  finally show ?thesis .
qed

lemma MbufData_WritePixels_other:
  assumes "ValidBuf s j" "Separate s i j"
  shows "MbufData (WritePixels i f s) j = MbufData s j"
proof -
  obtain a b where ab: "Buffers s i = Some a" "Buffers s j = Some b"
    using assms(2) by (auto simp: Separate_def split: option.splits)
  obtain rb where rb: "Buffers s (Root b) = Some rb"
    using assms(1) ab by (auto simp: ValidBuf_def split: option.splits)
  have v: "0 < SizeX b" "OffX b + SizeX b \<le> SizeX rb" "OffY b + SizeY b \<le> SizeY rb"
      "length (Pixels rb) = SizeX rb * SizeY rb"
    using assms(1) ab rb by (auto simp: ValidBuf_def)
  show ?thesis
  proof (cases "Buffers s (Root a)")
    case None
    then show ?thesis using ab by (simp add: WritePixels_def MbufData_def SetError_def)
  next
    case (Some ra)
    let ?P = "map (\<lambda>p. if InWindow a (p mod SizeX ra) (p div SizeX ra)
                      then f ((p mod SizeX ra - OffX a) + (p div SizeX ra - OffY a) * SizeX a)
                      else Pixels ra ! p) [0..<length (Pixels ra)]"
    have s': "WritePixels i f s = s\<lparr>Buffers := (Buffers s)(Root a \<mapsto> ra\<lparr>Pixels := ?P\<rparr>)\<rparr>"
      using ab Some by (simp add: WritePixels_def)
    show ?thesis
    proof (cases "Root a = Root b")
      case False
      have "j = Root a \<Longrightarrow> ra = b" using ab Some by simp
      then show ?thesis using False ab rb Some unfolding s'
        by (auto simp: MbufData_def)
    next
      case True
      then have rr: "ra = rb" using Some rb by simp
      have sep: "OffX a + SizeX a \<le> OffX b \<or> OffX b + SizeX b \<le> OffX a \<or>
           OffY a + SizeY a \<le> OffY b \<or> OffY b + SizeY b \<le> OffY a"
        using assms(2) ab True by (simp add: Separate_def)
      have px: "?P ! PixelIndex b (SizeX rb) k = Pixels rb ! PixelIndex b (SizeX rb) k"
        if "k < SizeX b * SizeY b" for k
      proof -
        have lt: "PixelIndex b (SizeX rb) k < length (Pixels rb)"
          unfolding PixelIndex_def using pixel_index_less [OF v(2) v(1) v(3) that] v(4) by simp
        have m: "PixelIndex b (SizeX rb) k mod SizeX rb = OffX b + k mod SizeX b"
          unfolding PixelIndex_def by (rule pixel_index_mod [OF v(2) v(1)])
        have d: "PixelIndex b (SizeX rb) k div SizeX rb = OffY b + k div SizeX b"
          unfolding PixelIndex_def by (rule pixel_index_div [OF v(2) v(1)])
        have kd: "k div SizeX b < SizeY b" using that v(1) by (simp add: less_mult_imp_div_less mult.commute)
        have km: "k mod SizeX b < SizeX b" using v(1) by simp
        have w: "\<not> InWindow a (OffX b + k mod SizeX b) (OffY b + k div SizeX b)"
          using sep kd km unfolding InWindow_def by linarith
        show ?thesis using lt m d w rr by simp
      qed
      have jr: "j = Root b \<Longrightarrow> rb = b" using ab rb by simp
      have "MbufData (WritePixels i f s) j
          = Some (map (\<lambda>k. ?P ! PixelIndex b (SizeX rb) k) [0..<SizeX b * SizeY b])"
        unfolding s' using ab rb True rr jr by (auto simp: MbufData_def)
      also have "map (\<lambda>k. ?P ! PixelIndex b (SizeX rb) k) [0..<SizeX b * SizeY b]
          = map (\<lambda>k. Pixels rb ! PixelIndex b (SizeX rb) k) [0..<SizeX b * SizeY b]"
        using px by simp
      also have "Some \<dots> = MbufData s j" using ab rb by (simp add: MbufData_def)
      finally show ?thesis .
    qed
  qed
qed


lemma layout_cong:
  assumes "\<And>j. Shape s' j = Shape s j" "NextId s' = NextId s"
  shows "ValidBuf s' i = ValidBuf s i" and "Separate s' i j = Separate s i j" and "Dim s' i = Dim s i"
  using assms by (simp_all add: ValidBuf_Shape Separate_Shape Dim_Shape cong: option.case_cong prod.case_cong)

lemma NextId_WritePixels [simp]: "NextId (WritePixels i f s) = NextId s"
  by (simp add: WritePixels_def SetError_def split: option.splits)

lemma Containers_WritePixels [simp]: "Containers (WritePixels i f s) = Containers s"
  by (simp add: WritePixels_def SetError_def split: option.splits)

lemma MilError_WritePixels: "ValidBuf s i \<Longrightarrow> MilError (WritePixels i f s) = MilError s"
  by (auto simp: WritePixels_def ValidBuf_def split: option.splits)

lemma MbufData_SetError [simp]: "MbufData (SetError s) j = MbufData s j"
  by (simp add: MbufData_def SetError_def cong: option.case_cong)

lemma MbufData_length:
  "MbufData s i = Some ps \<Longrightarrow> Dim s i = Some (t, sx, sy) \<Longrightarrow> length ps = sx * sy"
  by (auto simp: MbufData_def Dim_def split: option.splits)

lemma map_nth_fun: "length ps = n \<Longrightarrow> map (\<lambda>k. g (ps ! k)) [0..<n] = map g ps"
  by (auto simp: list_eq_iff_nth_eq)

subsection \<open>Arithmetic with a constant\<close>

lemma Shape_ArithConst [simp]: "Shape (ArithConst ext opr src c dst s) j = Shape s j"
  by (simp add: ArithConst_def split: option.splits)

lemma NextId_ArithConst [simp]: "NextId (ArithConst ext opr src c dst s) = NextId s"
  by (simp add: ArithConst_def SetError_def split: option.splits)

lemma Containers_ArithConst [simp]: "Containers (ArithConst ext opr src c dst s) = Containers s"
  by (simp add: ArithConst_def SetError_def split: option.splits)

lemma ArithConst_ok:
  assumes "ValidBuf s src" "ValidBuf s dst" "Dim s src = Some (t, sx, sy)" "Dim s dst = Some (t', sx, sy)"
    "MbufData s src = Some ps"
  shows "MbufData (ArithConst ext opr src c dst s) dst = Some (map (PixelOp ext opr t' c) ps)"
    and "MilError (ArithConst ext opr src c dst s) = MilError s"
proof -
  obtain sb db where b: "Buffers s src = Some sb" "Buffers s dst = Some db"
    using assms(3,4) by (auto simp: Dim_def)
  have d: "SizeX sb = sx" "SizeY sb = sy" "SizeX db = sx" "SizeY db = sy" "BufType db = t'"
    using assms(3,4) b by (auto simp: Dim_def)
  have e: "ArithConst ext opr src c dst s = WritePixels dst (\<lambda>k. PixelOp ext opr t' c (ps ! k)) s"
    using b d assms(5) by (simp add: ArithConst_def)
  have l: "length ps = sx * sy" using assms(5,3) by (rule MbufData_length)
  show "MbufData (ArithConst ext opr src c dst s) dst = Some (map (PixelOp ext opr t' c) ps)"
    unfolding e using MbufData_WritePixels_same [OF assms(2) b(2)] d l
    by (simp add: map_nth_fun)
  show "MilError (ArithConst ext opr src c dst s) = MilError s"
    unfolding e using assms(2) by (rule MilError_WritePixels)
qed

lemma ArithConst_other:
  assumes "ValidBuf s j" "Separate s dst j"
  shows "MbufData (ArithConst ext opr src c dst s) j = MbufData s j"
  using assms by (simp add: ArithConst_def MbufData_WritePixels_other split: option.splits)

subsection \<open>Conditional clear\<close>

lemma Shape_MbufClearCond [simp]: "Shape (MbufClearCond_M_EQUAL buf v cond low s) j = Shape s j"
  by (simp add: MbufClearCond_M_EQUAL_def split: option.splits)

lemma NextId_MbufClearCond [simp]: "NextId (MbufClearCond_M_EQUAL buf v cond low s) = NextId s"
  by (simp add: MbufClearCond_M_EQUAL_def SetError_def split: option.splits)

lemma Containers_MbufClearCond [simp]: "Containers (MbufClearCond_M_EQUAL buf v cond low s) = Containers s"
  by (simp add: MbufClearCond_M_EQUAL_def SetError_def split: option.splits)

lemma map_nth_fun2:
  "length ps = n \<Longrightarrow> length cs = n \<Longrightarrow> map (\<lambda>k. g (cs ! k) (ps ! k)) [0..<n] = map2 g cs ps"
  by (auto simp: list_eq_iff_nth_eq)

lemma MbufClearCond_ok:
  assumes "ValidBuf s buf" "ValidBuf s cond" "Dim s buf = Some (t, sx, sy)" "Dim s cond = Some (t', sx, sy)"
    "MbufData s buf = Some ps" "MbufData s cond = Some cs"
  shows "MbufData (MbufClearCond_M_EQUAL buf v cond low s) buf
           = Some (map2 (\<lambda>c p. if c = low then StoreCast t v else p) cs ps)"
    and "MilError (MbufClearCond_M_EQUAL buf v cond low s) = MilError s"
proof -
  obtain b cb where b: "Buffers s buf = Some b" "Buffers s cond = Some cb"
    using assms(3,4) by (auto simp: Dim_def)
  have d: "SizeX b = sx" "SizeY b = sy" "SizeX cb = sx" "SizeY cb = sy" "BufType b = t"
    using assms(3,4) b by (auto simp: Dim_def)
  have e: "MbufClearCond_M_EQUAL buf v cond low s
             = WritePixels buf (\<lambda>k. if cs ! k = low then StoreCast t v else ps ! k) s"
    using b d assms(5,6) by (simp add: MbufClearCond_M_EQUAL_def cong: if_cong)
  have l: "length ps = sx * sy" "length cs = sx * sy"
    using assms(5,3) assms(6,4) by (auto dest: MbufData_length)
  show "MbufData (MbufClearCond_M_EQUAL buf v cond low s) buf
           = Some (map2 (\<lambda>c p. if c = low then StoreCast t v else p) cs ps)"
    unfolding e using MbufData_WritePixels_same [OF assms(1) b(1)] d l
      map_nth_fun2 [of ps "sx * sy" cs "\<lambda>c p. if c = low then StoreCast t v else p"]
    by simp
  show "MilError (MbufClearCond_M_EQUAL buf v cond low s) = MilError s"
    unfolding e using assms(1) by (rule MilError_WritePixels)
qed

lemma MbufClearCond_other:
  assumes "ValidBuf s j" "Separate s buf j"
  shows "MbufData (MbufClearCond_M_EQUAL buf v cond low s) j = MbufData s j"
  using assms by (simp add: MbufClearCond_M_EQUAL_def MbufData_WritePixels_other split: option.splits)

section \<open>The chain of conversions\<close>

lemma Convert_Transform_None:
  "Convert ext (SetPrev None c) Data s = Transform ext (SetPrev None c) Data s"
  by (cases c) (simp_all add: Let_def)

lemma Convert_Transform_Some:
  "Convert ext (SetPrev (Some p) c) Data s =
     (case Convert ext p Data s of (d1, p', s1) \<Rightarrow>
        (case Transform ext c d1 s1 of (d2, c', s2) \<Rightarrow> (d2, SetPrev (Some p') c', s2)))"
  by (cases c) (simp_all add: Let_def split: prod.splits)

lemma Transform_SetPrev:
  "Transform ext (SetPrev q c) Data s =
     (case Transform ext c Data s of (d, c', s') \<Rightarrow> (d, SetPrev q c', s'))"
  by (cases c) simp_all

text \<open>
  Claim C1. Every stage calls the \<open>Convert\<close> of its predecessor before it applies its own
  transform, to the data that the predecessor has returned. So for a chain of three stages,
  \<open>S3\<close> built on \<open>S2\<close> built on \<open>S1\<close>, \<open>Convert\<close> on the head does the image operations of
  \<open>S1\<close> on the input and the store of the call, then the image operations of \<open>S2\<close> on the data
  and the store that those of \<open>S1\<close> have left, then the image operations of \<open>S3\<close> on the data
  and the store that those of \<open>S2\<close> have left, and returns what \<open>S3\<close> returns. The image
  operations of a stage are those of \<open>Transform\<close>, which does not call \<open>Convert\<close>.
\<close>

theorem Convert_chain_order:
  "Convert ext (SetPrev (Some p) c) Data s =
     (case Convert ext p Data s of (d1, p', s1) \<Rightarrow>
        (case Transform ext c d1 s1 of (d2, c', s2) \<Rightarrow> (d2, SetPrev (Some p') c', s2))) \<and>
   Convert ext (SetPrev (Some (SetPrev (Some (SetPrev None S1)) S2)) S3) Data s =
     (case Transform ext S1 Data s of (d1, S1', s1) \<Rightarrow>
        (case Transform ext S2 d1 s1 of (d2, S2', s2) \<Rightarrow>
           (case Transform ext S3 d2 s2 of (d3, S3', s3) \<Rightarrow>
              (d3, SetPrev (Some (SetPrev (Some (SetPrev None S1')) S2')) S3', s3))))"
  by (simp add: Convert_Transform_Some Convert_Transform_None Transform_SetPrev split: prod.splits)

text \<open>
  Claim C7. A conversion with no predecessor is the identity: \<open>ConvertPrev\<close> of a stage whose
  predecessor is null returns its input, the same three buffers, and changes nothing; and
  \<open>MilInterface\<close>, when its chain is null, hands the data of the grab buffer to the process as
  it is.
\<close>

theorem no_predecessor_identity:
  "ConvertPrev ext None Data s = (Data, None, s) \<and>
   MilInterface ext process (CMicroEpsilonToMIL_new sx sy) pProfileProcess MilGrabBuffer s =
     (let (z, s1) = MbufChild2d MilGrabBuffer 0 0 sx sy s;
          (x, s2) = MbufChild2d MilGrabBuffer sx 0 sx sy s1;
          Data' = \<lparr>MilX = x, MilZ = z, MilValidMask = M_NULL\<rparr>;
          (pProfileProcess', s4) = process pProfileProcess Data' s2
      in (0, CMicroEpsilonToMIL_new sx sy, pProfileProcess', ReleaseData Data' s4))"
  by (simp add: MilInterface_def CMicroEpsilonToMIL_new_def SPData_new_def Let_def split: prod.splits)

theorem no_predecessor_identity_witness:
  "ConvertPrev ExactArith None ProfileData GrabStore = (ProfileData, None, GrabStore) \<and>
   fst (snd (snd (MilInterface ExactArith (\<lambda>p d s. (d, s)) (CMicroEpsilonToMIL_new 2 2) SPData_new 1 GrabStore)))
     = ProfileData"
  using no_predecessor_identity [of ExactArith ProfileData GrabStore "\<lambda>p d s. (d, s)" 2 2 SPData_new 1]
  by (simp add: MbufChild2d_def GrabStore_def ProfileData_def Let_def)

section \<open>The Y coordinates of the depth map process\<close>

declare FillRow.simps [simp del] FillY.simps [simp del]

lemma length_FillRow [simp]: "length (FillRow v PS y x Y) = length Y"
proof (induction v PS y x Y rule: FillRow.induct)
  case (1 v PS y x Y)
  then show ?case by (subst FillRow.simps) simp
qed

lemma nth_FillRow:
  "i < length Y \<Longrightarrow>
   FillRow v PS y x Y ! i = (if x + y * PS \<le> i \<and> i < PS + y * PS then v else Y ! i)"
proof (induction v PS y x Y rule: FillRow.induct)
  case (1 v PS y x Y)
  show ?case
  proof (cases "x < PS")
    case True
    have "FillRow v PS y x Y ! i = FillRow v PS y (Suc x) (Y[x + y * PS := v]) ! i"
      using True by (subst FillRow.simps) simp
    also have "\<dots> = (if Suc x + y * PS \<le> i \<and> i < PS + y * PS then v else (Y[x + y * PS := v]) ! i)"
      using "1.IH" [OF True] "1.prems" by simp
    also have "\<dots> = (if x + y * PS \<le> i \<and> i < PS + y * PS then v else Y ! i)"
      using "1.prems" True by (auto simp: nth_list_update)
    finally show ?thesis .
  next
    case False
    then show ?thesis by (subst FillRow.simps) auto
  qed
qed

lemma length_FillY [simp]: "length (FillY ext W C PS NP y Y) = length Y"
proof (induction ext W C PS NP y Y rule: FillY.induct)
  case (1 ext W C PS NP y Y)
  show ?case
  proof (cases "y < NP")
    case True
    then show ?thesis using "1.IH" [OF True refl] by (subst FillY.simps) (simp add: Let_def)
  next
    case False
    then show ?thesis by (subst FillY.simps) simp
  qed
qed

lemma nth_FillY:
  "i < length Y \<Longrightarrow> 0 < PS \<Longrightarrow>
   FillY ext W C PS NP y Y ! i =
     (if y * PS \<le> i \<and> i < NP * PS then tofloat ext (dadd ext W (dmul ext (real (i div PS)) C))
      else Y ! i)"
proof (induction ext W C PS NP y Y rule: FillY.induct)
  case (1 ext W C PS NP y Y)
  show ?case
  proof (cases "y < NP")
    case True
    let ?v = "tofloat ext (dadd ext W (dmul ext (real y) C))"
    let ?Y = "FillRow ?v PS y 0 Y"
    have step: "FillY ext W C PS NP y Y ! i = FillY ext W C PS NP (Suc y) ?Y ! i"
      using True by (subst FillY.simps) (simp add: Let_def)
    have ih: "FillY ext W C PS NP (Suc y) ?Y ! i =
       (if Suc y * PS \<le> i \<and> i < NP * PS then tofloat ext (dadd ext W (dmul ext (real (i div PS)) C))
        else ?Y ! i)"
      using "1.IH" [OF True refl] "1.prems" by simp
    have row: "?Y ! i = (if y * PS \<le> i \<and> i < PS + y * PS then ?v else Y ! i)"
      using nth_FillRow [of i Y ?v PS y 0] "1.prems" by simp
    have inrow: "i div PS = y" if "y * PS \<le> i" "i < PS + y * PS"
    proof -
      have "i < Suc y * PS" using that by simp
      then have "i div PS < Suc y" using "1.prems"(2) by (simp add: less_mult_imp_div_less)
      moreover have "y \<le> i div PS" using that(1) "1.prems"(2)
        by (metis div_le_mono nonzero_mult_div_cancel_right less_numeral_extra(3))
      ultimately show ?thesis by simp
    qed
    have le: "Suc y * PS \<le> NP * PS" using True by (simp add: Suc_leI mult_le_mono1 del: mult_Suc)
    show ?thesis
    proof (cases "Suc y * PS \<le> i")
      case a: True
      then show ?thesis using step ih row by auto
    next
      case b: False
      show ?thesis
      proof (cases "y * PS \<le> i")
        case c: True
        have "i < PS + y * PS" using b by simp
        then show ?thesis using step ih row b c inrow le by auto
      next
        case c: False
        then show ?thesis using step ih row b by auto
      qed
    qed
  next
    case False
    have "\<not> (y * PS \<le> i \<and> i < NP * PS)"
    proof
      assume a: "y * PS \<le> i \<and> i < NP * PS"
      have "NP \<le> y" using False by simp
      then have "NP * PS \<le> y * PS" by (rule mult_le_mono1)
      then show False using a by linarith
    qed
    then have r: "(if y * PS \<le> i \<and> i < NP * PS
                    then tofloat ext (dadd ext W (dmul ext (real (i div PS)) C)) else Y ! i) = Y ! i"
      by (simp only: if_False)
    have "FillY ext W C PS NP y Y = Y" using False by (subst FillY.simps) simp
    then show ?thesis using r by simp
  qed
qed

lemma m_ConvertedY_new:
  "m_ConvertedY (fst (CProfileDepthMapProcess_new ext ConvPCal DataRange WorldPosY ConveyorSpeed ProfileSize NbProfiles s))
     = FillY ext WorldPosY ConveyorSpeed ProfileSize NbProfiles 0 (replicate (ProfileSize * NbProfiles) 0)"
  by (simp add: CProfileDepthMapProcess_new_def CProfile3dPointsProcess_new_def CProfileProcess_new_def
      Let_def CProfileProcess.extend_def CProfileDepthMapProcess.fields_def split: prod.splits)

text \<open>
  Claim C8. The constructor of the depth map process computes, for every point of a frame of
  \<open>NbProfiles\<close> profiles of \<open>ProfileSize\<close> points, the world Y coordinate
  \<open>WorldPosY + y * ConveyorSpeed\<close> of the row \<open>y\<close> of the point (in the arithmetic of
  \<^verbatim>\<open>MIL_DOUBLE\<close>, cast to \<^verbatim>\<open>MIL_FLOAT\<close>): one value for a row, the same at every column
  \<open>x\<close> of the row.
\<close>

theorem world_y_per_row:
  assumes "x < ProfileSize" "y < NbProfiles"
  shows "m_ConvertedY (fst (CProfileDepthMapProcess_new ext ConvPCal DataRange WorldPosY ConveyorSpeed
              ProfileSize NbProfiles s)) ! (x + y * ProfileSize)
           = tofloat ext (dadd ext WorldPosY (dmul ext (real y) ConveyorSpeed))
         \<and> length (m_ConvertedY (fst (CProfileDepthMapProcess_new ext ConvPCal DataRange WorldPosY
              ConveyorSpeed ProfileSize NbProfiles s))) = ProfileSize * NbProfiles"
proof -
  have ps: "0 < ProfileSize" using assms by simp
  have "Suc y * ProfileSize \<le> NbProfiles * ProfileSize" using assms(2) by (simp add: Suc_leI mult_le_mono1 del: mult_Suc)
  then have lt: "x + y * ProfileSize < NbProfiles * ProfileSize" using assms(1) by simp
  have d: "(x + y * ProfileSize) div ProfileSize = y" using assms(1) by simp
  show ?thesis
    unfolding m_ConvertedY_new
    using nth_FillY [of "x + y * ProfileSize" "replicate (ProfileSize * NbProfiles) 0" ProfileSize
        ext WorldPosY ConveyorSpeed NbProfiles 0] lt ps d
    by (simp add: mult.commute)
qed

theorem world_y_per_row_witness:
  "(1::nat) < 2 \<and> (2::nat) < 3 \<and>
   m_ConvertedY (fst (CProfileDepthMapProcess_new ExactArith (CONVPCAL 2) (PRANGE 2) 0 CONVEYOR_SPEED
       2 3 EmptyStore)) ! 5 = 0 + 2 * CONVEYOR_SPEED \<and>
   length (m_ConvertedY (fst (CProfileDepthMapProcess_new ExactArith (CONVPCAL 2) (PRANGE 2) 0
       CONVEYOR_SPEED 2 3 EmptyStore))) = 6"
  using world_y_per_row [of 1 2 2 3 ExactArith "CONVPCAL 2" "PRANGE 2" 0 CONVEYOR_SPEED EmptyStore]
  by (simp add: ExactArith_def)

section \<open>The stages that work in place\<close>

lemma ValidBuf_ArithConst [simp]: "ValidBuf (ArithConst ext opr src c dst s) j = ValidBuf s j"
  by (rule layout_cong) simp_all

lemma Separate_ArithConst [simp]: "Separate (ArithConst ext opr src c dst s) i j = Separate s i j"
  by (rule layout_cong) simp_all

lemma Dim_ArithConst [simp]: "Dim (ArithConst ext opr src c dst s) j = Dim s j"
  by (rule layout_cong) simp_all

lemma ValidBuf_MbufClearCond [simp]: "ValidBuf (MbufClearCond_M_EQUAL buf v cond low s) j = ValidBuf s j"
  by (rule layout_cong) simp_all

lemma Separate_MbufClearCond [simp]: "Separate (MbufClearCond_M_EQUAL buf v cond low s) i j = Separate s i j"
  by (rule layout_cong) simp_all

lemma Dim_MbufClearCond [simp]: "Dim (MbufClearCond_M_EQUAL buf v cond low s) j = Dim s j"
  by (rule layout_cong) simp_all

lemma Separate_sym: "Separate s i j = Separate s j i"
  by (auto simp: Separate_def split: option.splits)

lemma StoreCast_F32 [simp]: "StoreCast F32 r = r"
  by (simp add: StoreCast_def)

lemma StoreCast_TypeMax [simp]: "StoreCast t (TypeMax t) = TypeMax t"
  by (cases t) (simp_all add: StoreCast_def TypeMax_def)

lemma StoreCast_U16_flip:
  assumes "v \<in> \<int>" "0 \<le> v" "v \<le> 65535"
  shows "StoreCast U16 (65535 - v) = 65535 - v"
proof -
  obtain n :: int where n: "v = of_int n" using assms(1) by (auto elim: Ints_cases)
  have r: "0 \<le> n" "n \<le> 65535" using assms(2,3) n by simp_all
  have "65535 - v = of_int (65535 - n)" using n by simp
  then have "\<lfloor>65535 - v\<rfloor> = 65535 - n" by (simp only: floor_of_int)
  moreover have "(65535 - n) mod 65536 = 65535 - n" using r by simp
  ultimately show ?thesis using n by (simp add: StoreCast_def)
qed

text \<open>The flip of a 16 bit buffer in place.\<close>

lemma flip_buffer:
  assumes v: "ValidBuf s i" and d: "Dim s i = Some (U16, sx, sy)" and x: "MbufData s i = Some vs"
    and r: "\<forall>v\<in>set vs. v \<in> \<int> \<and> 0 \<le> v \<and> v \<le> 65535"
  shows "MbufData (ArithConst ext M_CONST_SUB i 65535 i s) i = Some (map (\<lambda>v. 65535 - v) vs)"
    and "MilError (ArithConst ext M_CONST_SUB i 65535 i s) = MilError s"
proof -
  have "map (PixelOp ext M_CONST_SUB U16 65535) vs = map (\<lambda>v. 65535 - v) vs"
    using r by (auto simp: PixelOp_def StoreCast_U16_flip)
  then show "MbufData (ArithConst ext M_CONST_SUB i 65535 i s) i = Some (map (\<lambda>v. 65535 - v) vs)"
    using ArithConst_ok(1) [OF v v d d x, of ext M_CONST_SUB 65535] by simp
  show "MilError (ArithConst ext M_CONST_SUB i 65535 i s) = MilError s"
    by (rule ArithConst_ok(2) [OF v v d d x])
qed

lemma flip_buffer_twice:
  assumes v: "ValidBuf s i" and d: "Dim s i = Some (U16, sx, sy)" and x: "MbufData s i = Some vs"
    and r: "\<forall>v\<in>set vs. v \<in> \<int> \<and> 0 \<le> v \<and> v \<le> 65535"
  shows "MbufData (ArithConst ext M_CONST_SUB i 65535 i (ArithConst ext M_CONST_SUB i 65535 i s)) i = Some vs"
    and "MilError (ArithConst ext M_CONST_SUB i 65535 i (ArithConst ext M_CONST_SUB i 65535 i s)) = MilError s"
proof -
  let ?s = "ArithConst ext M_CONST_SUB i 65535 i s"
  have v': "ValidBuf ?s i" using v by simp
  have d': "Dim ?s i = Some (U16, sx, sy)" using d by simp
  have x': "MbufData ?s i = Some (map (\<lambda>v. 65535 - v) vs)" by (rule flip_buffer(1) [OF v d x r])
  have r': "\<forall>v\<in>set (map (\<lambda>v. 65535 - v) vs). v \<in> \<int> \<and> 0 \<le> v \<and> v \<le> 65535"
    using r by auto
  have "MbufData (ArithConst ext M_CONST_SUB i 65535 i ?s) i
          = Some (map (\<lambda>v. 65535 - v) (map (\<lambda>v. 65535 - v) vs))"
    by (rule flip_buffer(1) [OF v' d' x' r'])
  then show "MbufData (ArithConst ext M_CONST_SUB i 65535 i ?s) i = Some vs"
    by (simp add: comp_def)
  show "MilError (ArithConst ext M_CONST_SUB i 65535 i ?s) = MilError s"
    using flip_buffer(2) [OF v' d' x' r'] flip_buffer(2) [OF v d x r] by simp
qed

text \<open>
  Claim C6. The flip stage of a channel (X for \<^verbatim>\<open>CDataConversionFlipXVal\<close>, Z for
  \<^verbatim>\<open>CDataConversionFlipZVal\<close>) replaces every value \<open>v\<close> of the 16 bit buffer of the channel
  by \<open>65535 - v\<close>, in place: it returns the data it was given, no buffer is allocated or
  changes its shape, and every buffer that shares no pixel with the channel keeps its
  pixels. Applying the stage a second time gives back the values of the beginning, for all
  values from 0 to 65535.
\<close>

theorem flip_stage:
  assumes vx: "ValidBuf s (MilX Data)" and vz: "ValidBuf s (MilZ Data)"
    and dx: "Dim s (MilX Data) = Some (U16, sx, sy)" and dz: "Dim s (MilZ Data) = Some (U16, sx, sy)"
    and xs: "MbufData s (MilX Data) = Some xs" and zs: "MbufData s (MilZ Data) = Some zs"
    and rx: "\<forall>v\<in>set xs. v \<in> \<int> \<and> 0 \<le> v \<and> v \<le> 65535"
    and rz: "\<forall>v\<in>set zs. v \<in> \<int> \<and> 0 \<le> v \<and> v \<le> 65535"
    and sep: "Separate s (MilX Data) (MilZ Data)"
  shows
    "(case Convert ext (CDataConversionFlipXVal None) Data s of (d, c, s') \<Rightarrow>
        d = Data \<and> c = CDataConversionFlipXVal None \<and>
        MbufData s' (MilX Data) = Some (map (\<lambda>v. 65535 - v) xs) \<and>
        MbufData s' (MilZ Data) = Some zs \<and>
        NextId s' = NextId s \<and> (\<forall>j. Shape s' j = Shape s j) \<and> MilError s' = MilError s \<and>
        (\<forall>j. ValidBuf s j \<and> Separate s (MilX Data) j \<longrightarrow> MbufData s' j = MbufData s j) \<and>
        (case Convert ext c d s' of (d2, c2, s2) \<Rightarrow>
           d2 = Data \<and> MbufData s2 (MilX Data) = Some xs \<and> MilError s2 = MilError s)) \<and>
     (case Convert ext (CDataConversionFlipZVal None) Data s of (d, c, s') \<Rightarrow>
        d = Data \<and> c = CDataConversionFlipZVal None \<and>
        MbufData s' (MilZ Data) = Some (map (\<lambda>v. 65535 - v) zs) \<and>
        MbufData s' (MilX Data) = Some xs \<and>
        NextId s' = NextId s \<and> (\<forall>j. Shape s' j = Shape s j) \<and> MilError s' = MilError s \<and>
        (\<forall>j. ValidBuf s j \<and> Separate s (MilZ Data) j \<longrightarrow> MbufData s' j = MbufData s j) \<and>
        (case Convert ext c d s' of (d2, c2, s2) \<Rightarrow>
           d2 = Data \<and> MbufData s2 (MilZ Data) = Some zs \<and> MilError s2 = MilError s))"
proof -
  have sep': "Separate s (MilZ Data) (MilX Data)" using sep by (simp add: Separate_sym)
  have x1: "MbufData (ArithConst ext M_CONST_SUB (MilX Data) 65535 (MilX Data) s) (MilZ Data) = Some zs"
    using ArithConst_other [OF vz sep] zs by simp
  have z1: "MbufData (ArithConst ext M_CONST_SUB (MilZ Data) 65535 (MilZ Data) s) (MilX Data) = Some xs"
    using ArithConst_other [OF vx sep'] xs by simp
  show ?thesis
    using flip_buffer [OF vx dx xs rx, of ext] flip_buffer_twice [OF vx dx xs rx, of ext]
      flip_buffer [OF vz dz zs rz, of ext] flip_buffer_twice [OF vz dz zs rz, of ext] x1 z1
    by (simp add: ArithConst_other)
qed

text \<open>
  Claim C4. The stage that adds the mask compares every value of the upstream Z buffer with
  the invalid value and writes the outcome to its mask buffer: the mask is set (255, not 0)
  exactly at the positions where Z differs from the invalid value. The data it returns names
  this mask, and the X and Z buffers of the upstream data themselves, whose pixels are as
  before.
\<close>

theorem add_mask_stage:
  assumes vz: "ValidBuf s (MilZ Data)" and vx: "ValidBuf s (MilX Data)" and vm: "ValidBuf s m"
    and dz: "Dim s (MilZ Data) = Some (t, sx, sy)" and dm: "Dim s m = Some (U8, sx, sy)"
    and zs: "MbufData s (MilZ Data) = Some zs" and xs: "MbufData s (MilX Data) = Some xs"
    and sz: "Separate s m (MilZ Data)" and sx: "Separate s m (MilX Data)"
  shows
    "(case Convert ext (CDataConversionAddMask None m InvalidValue) Data s of (d, c, s') \<Rightarrow>
        d = Data\<lparr>MilValidMask := m\<rparr> \<and> MilX d = MilX Data \<and> MilZ d = MilZ Data \<and>
        MbufData s' m = Some (map (\<lambda>z. if z \<noteq> InvalidValue then 255 else 0) zs) \<and>
        (\<forall>k<length zs. (the (MbufData s' m) ! k \<noteq> 0) = (zs ! k \<noteq> InvalidValue)) \<and>
        MbufData s' (MilX Data) = Some xs \<and> MbufData s' (MilZ Data) = Some zs \<and>
        MilError s' = MilError s)"
proof -
  let ?s = "ArithConst ext M_NOT_EQUAL_CONST (MilZ Data) InvalidValue m s"
  have p: "PixelOp ext M_NOT_EQUAL_CONST U8 InvalidValue = (\<lambda>z. if z \<noteq> InvalidValue then 255 else 0)"
    by (auto simp: PixelOp_def TypeMax_def fun_eq_iff)
  have m1: "MbufData ?s m = Some (map (\<lambda>z. if z \<noteq> InvalidValue then 255 else 0) zs)"
    using ArithConst_ok(1) [OF vz vm dz dm zs, of ext M_NOT_EQUAL_CONST InvalidValue] p by simp
  have e1: "MilError ?s = MilError s" by (rule ArithConst_ok(2) [OF vz vm dz dm zs])
  have x1: "MbufData ?s (MilX Data) = Some xs" using ArithConst_other [OF vx sx] xs by simp
  have z1: "MbufData ?s (MilZ Data) = Some zs" using ArithConst_other [OF vz sz] zs by simp
  show ?thesis using m1 e1 x1 z1 by simp
qed

text \<open>
  Claim C5. After the stage that applies the invalid mask, in the X buffer and in the Z
  buffer, a pixel at a position where the mask is 0 (not valid) is the greatest value that
  the type of its buffer represents, and a pixel at a position where the mask is not 0 is
  what the upstream data had there.
\<close>

theorem apply_invalid_stage:
  assumes vx: "ValidBuf s (MilX Data)" and vz: "ValidBuf s (MilZ Data)"
    and vm: "ValidBuf s (MilValidMask Data)"
    and dx: "Dim s (MilX Data) = Some (tx, sx, sy)" and dz: "Dim s (MilZ Data) = Some (tz, sx, sy)"
    and dm: "Dim s (MilValidMask Data) = Some (tm, sx, sy)"
    and xs: "MbufData s (MilX Data) = Some xs" and zs: "MbufData s (MilZ Data) = Some zs"
    and ms: "MbufData s (MilValidMask Data) = Some ms"
    and sxz: "Separate s (MilX Data) (MilZ Data)" and sxm: "Separate s (MilX Data) (MilValidMask Data)"
    and szm: "Separate s (MilZ Data) (MilValidMask Data)"
  shows
    "(case Convert ext (CDataConversionApplyInvalid None) Data s of (d, c, s') \<Rightarrow>
        d = Data \<and>
        MbufData s' (MilX Data) = Some (map2 (\<lambda>m x. if m = 0 then TypeMax tx else x) ms xs) \<and>
        MbufData s' (MilZ Data) = Some (map2 (\<lambda>m z. if m = 0 then TypeMax tz else z) ms zs) \<and>
        MbufData s' (MilValidMask Data) = Some ms \<and>
        length xs = length ms \<and> length zs = length ms \<and>
        MilError s' = MilError s)"
proof -
  obtain bx bz where b: "Buffers s (MilX Data) = Some bx" "Buffers s (MilZ Data) = Some bz"
    using dx dz by (auto simp: Dim_def)
  have t: "BufType bx = tx" "BufType bz = tz" using dx dz b by (auto simp: Dim_def)
  let ?s1 = "MbufClearCond_M_EQUAL (MilX Data) (TypeMax tx) (MilValidMask Data) 0 s"
  let ?s2 = "MbufClearCond_M_EQUAL (MilZ Data) (TypeMax tz) (MilValidMask Data) 0 ?s1"
  have a1: "ApplyInvalidMask (MilX Data) (MilValidMask Data) s = ?s1"
    using b t by (simp add: ApplyInvalidMask_def MbufInquire_M_MAX_def)
  have "Shape ?s1 (MilZ Data) = Shape s (MilZ Data)" by simp
  then obtain bz' where b': "Buffers ?s1 (MilZ Data) = Some bz'" "BufType bz' = tz"
    using b(2) t(2) by (auto simp: Shape_def)
  have a2: "ApplyInvalidMask (MilZ Data) (MilValidMask Data) ?s1 = ?s2"
    using b' by (simp add: ApplyInvalidMask_def MbufInquire_M_MAX_def)
  have x1: "MbufData ?s1 (MilX Data) = Some (map2 (\<lambda>m x. if m = 0 then TypeMax tx else x) ms xs)"
    using MbufClearCond_ok(1) [OF vx vm dx dm xs ms, of "TypeMax tx" 0] by simp
  have e1: "MilError ?s1 = MilError s" by (rule MbufClearCond_ok(2) [OF vx vm dx dm xs ms])
  have z1: "MbufData ?s1 (MilZ Data) = Some zs" using MbufClearCond_other [OF vz sxz] zs by simp
  have m1: "MbufData ?s1 (MilValidMask Data) = Some ms" using MbufClearCond_other [OF vm sxm] ms by simp
  have vz1: "ValidBuf ?s1 (MilZ Data)" "ValidBuf ?s1 (MilValidMask Data)" "ValidBuf ?s1 (MilX Data)"
    using vz vm vx by simp_all
  have dz1: "Dim ?s1 (MilZ Data) = Some (tz, sx, sy)" "Dim ?s1 (MilValidMask Data) = Some (tm, sx, sy)"
    using dz dm by simp_all
  have z2: "MbufData ?s2 (MilZ Data) = Some (map2 (\<lambda>m z. if m = 0 then TypeMax tz else z) ms zs)"
    using MbufClearCond_ok(1) [OF vz1(1) vz1(2) dz1 z1 m1, of "TypeMax tz" 0] by simp
  have e2: "MilError ?s2 = MilError s"
    using MbufClearCond_ok(2) [OF vz1(1) vz1(2) dz1 z1 m1, of "TypeMax tz" 0] e1 by simp
  have szx: "Separate ?s1 (MilZ Data) (MilX Data)" using sxz by (simp add: Separate_sym)
  have x2: "MbufData ?s2 (MilX Data) = Some (map2 (\<lambda>m x. if m = 0 then TypeMax tx else x) ms xs)"
    using MbufClearCond_other [OF vz1(3) szx] x1 by simp
  have szm1: "Separate ?s1 (MilZ Data) (MilValidMask Data)" using szm by simp
  have m2: "MbufData ?s2 (MilValidMask Data) = Some ms"
    using MbufClearCond_other [OF vz1(2) szm1] m1 by simp
  have l: "length xs = length ms" "length zs = length ms"
    using MbufData_length [OF xs dx] MbufData_length [OF zs dz] MbufData_length [OF ms dm] by simp_all
  show ?thesis using a1 a2 x2 z2 m2 e2 l by simp
qed

section \<open>The profile of the examples\<close>

lemma ProfileStore_eq:
  "ProfileStore =
     \<lparr>Buffers = (\<lambda>i. None)(1 \<mapsto>
        \<lparr>BufType = U16, SizeX = 4, SizeY = 2, Root = 1, OffX = 0, OffY = 0,
         Pixels = [0, 65535, 0, 65535, 50, 300, 100, 200]\<rparr>,
        2 \<mapsto> \<lparr>BufType = U16, SizeX = 2, SizeY = 2, Root = 1, OffX = 0, OffY = 0, Pixels = []\<rparr>,
        3 \<mapsto> \<lparr>BufType = U16, SizeX = 2, SizeY = 2, Root = 1, OffX = 2, OffY = 0, Pixels = []\<rparr>),
      Containers = (\<lambda>i. None), NextId = 4, MilError = False\<rparr>"
  by (simp add: ProfileStore_def MbufChild2d_def GrabStore_def Let_def eval_nat_numeral)

lemma upt4: "[0..<4] = [0, 1, 2, 3]"
  by (simp add: upt_rec)

lemma upt8: "[0..<8] = [0, 1, 2, 3, 4, 5, 6, 7]"
  by (simp add: upt_rec)

lemma ProfileStore_facts:
  "ValidBuf ProfileStore 3" "ValidBuf ProfileStore 2"
  "Dim ProfileStore 3 = Some (U16, 2, 2)" "Dim ProfileStore 2 = Some (U16, 2, 2)"
  "MbufData ProfileStore 3 = Some [0, 65535, 100, 200]"
  "MbufData ProfileStore 2 = Some [0, 65535, 50, 300]"
  "Separate ProfileStore 3 2"
  by (simp_all add: ProfileStore_eq ValidBuf_def Dim_def MbufData_def Separate_def PixelIndex_def upt4)

theorem flip_stage_witness:
  "ValidBuf ProfileStore (MilX ProfileData) \<and>
   MbufData ProfileStore (MilX ProfileData) = Some [0, 65535, 100, 200] \<and>
   (case Convert ExactArith (CDataConversionFlipXVal None) ProfileData ProfileStore of (d, c, s') \<Rightarrow>
      d = ProfileData \<and> MbufData s' (MilX ProfileData) = Some [65535, 0, 65435, 65335] \<and>
      MbufData s' (MilZ ProfileData) = Some [0, 65535, 50, 300] \<and>
      (case Convert ExactArith c d s' of (d2, c2, s2) \<Rightarrow>
         MbufData s2 (MilX ProfileData) = Some [0, 65535, 100, 200]))"
proof -
  have r: "\<forall>v\<in>set [0, 65535, 100, 200::real]. v \<in> \<int> \<and> 0 \<le> v \<and> v \<le> 65535"
    "\<forall>v\<in>set [0, 65535, 50, 300::real]. v \<in> \<int> \<and> 0 \<le> v \<and> v \<le> 65535"
    by simp_all
  have x: "MilX ProfileData = 3" "MilZ ProfileData = 2" by (simp_all add: ProfileData_def)
  show ?thesis
    using flip_stage [of ProfileStore ProfileData 2 2 "[0, 65535, 100, 200]" "[0, 65535, 50, 300]" ExactArith]
      ProfileStore_facts r
    unfolding x by (simp split: prod.splits)
qed

section \<open>The conversion to world units\<close>

lemma Convert_ToWorld:
  "Convert ext (CDataConversionToWorld None m PCal) Data s =
     (m\<lparr>MilValidMask := MilValidMask Data\<rparr>,
      CDataConversionToWorld None (m\<lparr>MilValidMask := MilValidMask Data\<rparr>) PCal,
      ToWorldStore ext m PCal Data s)"
  by (simp add: ToWorldStore_def Let_def)

lemma ToWorldStore_layout [simp]:
  "Shape (ToWorldStore ext m PCal Data s) j = Shape s j"
  "NextId (ToWorldStore ext m PCal Data s) = NextId s"
  "Containers (ToWorldStore ext m PCal Data s) = Containers s"
  by (simp_all add: ToWorldStore_def)

lemma ToWorldStore_other:
  assumes "ValidBuf s j" "Separate s (MilX m) j" "Separate s (MilZ m) j"
  shows "MbufData (ToWorldStore ext m PCal Data s) j = MbufData s j"
  using assms by (simp add: ToWorldStore_def ArithConst_other)

lemma ToWorldStore_ok:
  assumes vx: "ValidBuf s (MilX Data)" and vz: "ValidBuf s (MilZ Data)"
    and vmx: "ValidBuf s (MilX m)" and vmz: "ValidBuf s (MilZ m)"
    and dx: "Dim s (MilX Data) = Some (tx, sx, sy)" and dz: "Dim s (MilZ Data) = Some (tz, sx, sy)"
    and dmx: "Dim s (MilX m) = Some (F32, sx, sy)" and dmz: "Dim s (MilZ m) = Some (F32, sx, sy)"
    and xs: "MbufData s (MilX Data) = Some xs" and zs: "MbufData s (MilZ Data) = Some zs"
    and s1: "Separate s (MilX m) (MilX Data)" and s2: "Separate s (MilX m) (MilZ Data)"
    and s3: "Separate s (MilZ m) (MilX Data)" and s4: "Separate s (MilZ m) (MilZ Data)"
    and s5: "Separate s (MilX m) (MilZ m)"
  shows "MbufData (ToWorldStore ext m PCal Data s) (MilX m)
           = Some (map (\<lambda>r. fadd ext (fmul ext r (GrayLevelSX PCal)) (WorldX PCal)) xs)"
    and "MbufData (ToWorldStore ext m PCal Data s) (MilZ m)
           = Some (map (\<lambda>r. fadd ext (fmul ext r (GrayLevelSZ PCal)) (WorldZ PCal)) zs)"
    and "MilError (ToWorldStore ext m PCal Data s) = MilError s"
proof -
  let ?s1 = "ArithConst ext M_MULT_CONST_FLOAT_PROC (MilX Data) (GrayLevelSX PCal) (MilX m) s"
  let ?s2 = "ArithConst ext M_ADD_CONST_FLOAT_PROC (MilX m) (WorldX PCal) (MilX m) ?s1"
  let ?s3 = "ArithConst ext M_MULT_CONST_FLOAT_PROC (MilZ Data) (GrayLevelSZ PCal) (MilZ m) ?s2"
  let ?s4 = "ArithConst ext M_ADD_CONST_FLOAT_PROC (MilZ m) (WorldZ PCal) (MilZ m) ?s3"
  have e: "ToWorldStore ext m PCal Data s = ?s4" by (simp add: ToWorldStore_def)
  have pm: "PixelOp ext M_MULT_CONST_FLOAT_PROC F32 c = (\<lambda>r. fmul ext r c)" for c
    by (simp add: PixelOp_def fun_eq_iff)
  have pa: "PixelOp ext M_ADD_CONST_FLOAT_PROC F32 c = (\<lambda>r. fadd ext r c)" for c
    by (simp add: PixelOp_def fun_eq_iff)
  have x1: "MbufData ?s1 (MilX m) = Some (map (\<lambda>r. fmul ext r (GrayLevelSX PCal)) xs)"
    using ArithConst_ok(1) [OF vx vmx dx dmx xs, of ext M_MULT_CONST_FLOAT_PROC] pm by simp
  have e1: "MilError ?s1 = MilError s" by (rule ArithConst_ok(2) [OF vx vmx dx dmx xs])
  have z1: "MbufData ?s1 (MilZ Data) = Some zs" using ArithConst_other [OF vz s2] zs by simp
  have v1: "ValidBuf ?s1 (MilX m)" "ValidBuf ?s1 (MilZ Data)" "ValidBuf ?s1 (MilZ m)"
    using vmx vz vmz by simp_all
  have d1: "Dim ?s1 (MilX m) = Some (F32, sx, sy)" using dmx by simp
  have x2: "MbufData ?s2 (MilX m)
              = Some (map (\<lambda>r. fadd ext (fmul ext r (GrayLevelSX PCal)) (WorldX PCal)) xs)"
    using ArithConst_ok(1) [OF v1(1) v1(1) d1 d1 x1, of ext M_ADD_CONST_FLOAT_PROC] pa
    by (simp add: comp_def)
  have e2: "MilError ?s2 = MilError s"
    using ArithConst_ok(2) [OF v1(1) v1(1) d1 d1 x1, of ext M_ADD_CONST_FLOAT_PROC] e1 by simp
  have s2': "Separate ?s1 (MilX m) (MilZ Data)" using s2 by simp
  have z2: "MbufData ?s2 (MilZ Data) = Some zs" using ArithConst_other [OF v1(2) s2'] z1 by simp
  have v2: "ValidBuf ?s2 (MilX m)" "ValidBuf ?s2 (MilZ Data)" "ValidBuf ?s2 (MilZ m)"
    using vmx vz vmz by simp_all
  have d2: "Dim ?s2 (MilZ Data) = Some (tz, sx, sy)" "Dim ?s2 (MilZ m) = Some (F32, sx, sy)"
    using dz dmz by simp_all
  have z3: "MbufData ?s3 (MilZ m) = Some (map (\<lambda>r. fmul ext r (GrayLevelSZ PCal)) zs)"
    using ArithConst_ok(1) [OF v2(2) v2(3) d2 z2, of ext M_MULT_CONST_FLOAT_PROC] pm by simp
  have e3: "MilError ?s3 = MilError s"
    using ArithConst_ok(2) [OF v2(2) v2(3) d2 z2, of ext M_MULT_CONST_FLOAT_PROC] e2 by simp
  have s5': "Separate ?s2 (MilZ m) (MilX m)" using s5 by (simp add: Separate_sym)
  have x3: "MbufData ?s3 (MilX m)
              = Some (map (\<lambda>r. fadd ext (fmul ext r (GrayLevelSX PCal)) (WorldX PCal)) xs)"
    using ArithConst_other [OF v2(1) s5'] x2 by simp
  have v3: "ValidBuf ?s3 (MilX m)" "ValidBuf ?s3 (MilZ m)" using vmx vmz by simp_all
  have d3: "Dim ?s3 (MilZ m) = Some (F32, sx, sy)" using dmz by simp
  have z4: "MbufData ?s4 (MilZ m)
              = Some (map (\<lambda>r. fadd ext (fmul ext r (GrayLevelSZ PCal)) (WorldZ PCal)) zs)"
    using ArithConst_ok(1) [OF v3(2) v3(2) d3 d3 z3, of ext M_ADD_CONST_FLOAT_PROC] pa
    by (simp add: comp_def)
  have e4: "MilError ?s4 = MilError s"
    using ArithConst_ok(2) [OF v3(2) v3(2) d3 d3 z3, of ext M_ADD_CONST_FLOAT_PROC] e3 by simp
  have s5'': "Separate ?s3 (MilZ m) (MilX m)" using s5 by (simp add: Separate_sym)
  have x4: "MbufData ?s4 (MilX m)
              = Some (map (\<lambda>r. fadd ext (fmul ext r (GrayLevelSX PCal)) (WorldX PCal)) xs)"
    using ArithConst_other [OF v3(1) s5''] x3 by simp
  show "MbufData (ToWorldStore ext m PCal Data s) (MilX m)
           = Some (map (\<lambda>r. fadd ext (fmul ext r (GrayLevelSX PCal)) (WorldX PCal)) xs)"
    unfolding e by (rule x4)
  show "MbufData (ToWorldStore ext m PCal Data s) (MilZ m)
           = Some (map (\<lambda>r. fadd ext (fmul ext r (GrayLevelSZ PCal)) (WorldZ PCal)) zs)"
    unfolding e by (rule z4)
  show "MilError (ToWorldStore ext m PCal Data s) = MilError s"
    unfolding e by (rule e4)
qed

text \<open>
  Claim C2. The stage that converts to world units computes, for every pixel \<open>r\<close> of the
  upstream X buffer, \<open>r * GrayLevelSX + WorldX\<close>, and for every pixel of the upstream Z buffer
  \<open>r * GrayLevelSZ + WorldZ\<close>: the multiplication first, then the addition, each axis on its
  own and nothing clamped. The results are in the two float buffers of the stage, which the
  data it returns names; the mask of that data is the mask of the upstream data, the same
  buffer. When both scales are 0 (and a product by 0 is 0), every result is what the
  addition of the offset to 0 gives: the offset.
\<close>

theorem to_world_stage:
  assumes vx: "ValidBuf s (MilX Data)" and vz: "ValidBuf s (MilZ Data)"
    and vmx: "ValidBuf s (MilX m)" and vmz: "ValidBuf s (MilZ m)"
    and dx: "Dim s (MilX Data) = Some (tx, sx, sy)" and dz: "Dim s (MilZ Data) = Some (tz, sx, sy)"
    and dmx: "Dim s (MilX m) = Some (F32, sx, sy)" and dmz: "Dim s (MilZ m) = Some (F32, sx, sy)"
    and xs: "MbufData s (MilX Data) = Some xs" and zs: "MbufData s (MilZ Data) = Some zs"
    and s1: "Separate s (MilX m) (MilX Data)" and s2: "Separate s (MilX m) (MilZ Data)"
    and s3: "Separate s (MilZ m) (MilX Data)" and s4: "Separate s (MilZ m) (MilZ Data)"
    and s5: "Separate s (MilX m) (MilZ m)"
  shows
    "(case Convert ext (CDataConversionToWorld None m PCal) Data s of (d, c, s') \<Rightarrow>
        MilX d = MilX m \<and> MilZ d = MilZ m \<and> MilValidMask d = MilValidMask Data \<and>
        MbufData s' (MilX m)
          = Some (map (\<lambda>r. fadd ext (fmul ext r (GrayLevelSX PCal)) (WorldX PCal)) xs) \<and>
        MbufData s' (MilZ m)
          = Some (map (\<lambda>r. fadd ext (fmul ext r (GrayLevelSZ PCal)) (WorldZ PCal)) zs) \<and>
        Dim s' (MilX m) = Some (F32, sx, sy) \<and> Dim s' (MilZ m) = Some (F32, sx, sy) \<and>
        MilError s' = MilError s \<and>
        (ValidBuf s (MilValidMask Data) \<and> Separate s (MilX m) (MilValidMask Data) \<and>
         Separate s (MilZ m) (MilValidMask Data) \<longrightarrow>
           MbufData s' (MilValidMask Data) = MbufData s (MilValidMask Data)) \<and>
        (GrayLevelSX PCal = 0 \<and> GrayLevelSZ PCal = 0 \<and> (\<forall>r. fmul ext r 0 = 0) \<longrightarrow>
           MbufData s' (MilX m) = Some (replicate (sx * sy) (fadd ext 0 (WorldX PCal))) \<and>
           MbufData s' (MilZ m) = Some (replicate (sx * sy) (fadd ext 0 (WorldZ PCal)))))"
proof -
  note ok = ToWorldStore_ok [OF vx vz vmx vmz dx dz dmx dmz xs zs s1 s2 s3 s4 s5, of ext PCal]
  have l: "length xs = sx * sy" "length zs = sx * sy"
    using MbufData_length [OF xs dx] MbufData_length [OF zs dz] by simp_all
  have c: "map (\<lambda>r. c) ys = replicate (length ys) c" for c :: real and ys :: "real list"
    by (simp add: map_replicate_const)
  show ?thesis
    unfolding Convert_ToWorld
    using ok l dmx dmz
    by (auto simp: ToWorldStore_other layout_cong(3) [of "ToWorldStore ext m PCal Data s" s] c)
qed

text \<open>
  Claim C10. \<^verbatim>\<open>CDataConversionToWorld::Convert\<close> reads the X and Z buffers that it gets from
  upstream and does not write them: their pixels after the call are their pixels before it.
  It writes to the two buffers of the stage only: every buffer that shares no pixel with
  these two keeps its pixels, and no buffer changes its shape.
\<close>

theorem to_world_reads_upstream:
  assumes vx: "ValidBuf s (MilX Data)" and vz: "ValidBuf s (MilZ Data)"
    and xs: "MbufData s (MilX Data) = Some xs" and zs: "MbufData s (MilZ Data) = Some zs"
    and s1: "Separate s (MilX m) (MilX Data)" and s2: "Separate s (MilX m) (MilZ Data)"
    and s3: "Separate s (MilZ m) (MilX Data)" and s4: "Separate s (MilZ m) (MilZ Data)"
  shows
    "(case Convert ext (CDataConversionToWorld None m PCal) Data s of (d, c, s') \<Rightarrow>
        MbufData s' (MilX Data) = Some xs \<and> MbufData s' (MilZ Data) = Some zs \<and>
        (\<forall>j. ValidBuf s j \<and> Separate s (MilX m) j \<and> Separate s (MilZ m) j \<longrightarrow>
           MbufData s' j = MbufData s j) \<and>
        (\<forall>j. Shape s' j = Shape s j) \<and> NextId s' = NextId s)"
  unfolding Convert_ToWorld
  using ToWorldStore_other [OF vx s1 s3, of ext PCal Data] ToWorldStore_other [OF vz s2 s4, of ext PCal Data]
    xs zs
  by (simp add: ToWorldStore_other)

section \<open>The flatten stage\<close>

subsection \<open>Allocation\<close>

lemma MbufAlloc2d_eq:
  assumes "0 < sx" "0 < sy"
  shows "MbufAlloc2d sx sy ty s =
     (NextId s, s\<lparr>Buffers := (Buffers s)(NextId s \<mapsto>
                 \<lparr>BufType = ty, SizeX = sx, SizeY = sy, Root = NextId s, OffX = 0, OffY = 0,
                  Pixels = replicate (sx * sy) 0\<rparr>),
               NextId := Suc (NextId s)\<rparr>)"
  using assms by (simp add: MbufAlloc2d_def Let_def)

lemma MbufAlloc2d_new:
  assumes "0 < sx" "0 < sy"
  shows "fst (MbufAlloc2d sx sy ty s) = NextId s"
    and "NextId (snd (MbufAlloc2d sx sy ty s)) = Suc (NextId s)"
    and "MilError (snd (MbufAlloc2d sx sy ty s)) = MilError s"
    and "Containers (snd (MbufAlloc2d sx sy ty s)) = Containers s"
    and "Shape (snd (MbufAlloc2d sx sy ty s)) (NextId s) = Some (ty, sx, sy, NextId s, 0, 0, sx * sy)"
    and "ValidBuf (snd (MbufAlloc2d sx sy ty s)) (NextId s)"
    and "MbufData (snd (MbufAlloc2d sx sy ty s)) (NextId s) = Some (replicate (sx * sy) 0)"
proof -
  note e = MbufAlloc2d_eq [OF assms, of ty s]
  show "fst (MbufAlloc2d sx sy ty s) = NextId s" by (simp add: e)
  show "NextId (snd (MbufAlloc2d sx sy ty s)) = Suc (NextId s)" by (simp add: e)
  show "MilError (snd (MbufAlloc2d sx sy ty s)) = MilError s" by (simp add: e)
  show "Containers (snd (MbufAlloc2d sx sy ty s)) = Containers s" by (simp add: e)
  show "Shape (snd (MbufAlloc2d sx sy ty s)) (NextId s) = Some (ty, sx, sy, NextId s, 0, 0, sx * sy)"
    by (simp add: e Shape_def)
  show "ValidBuf (snd (MbufAlloc2d sx sy ty s)) (NextId s)"
    using assms by (simp add: e ValidBuf_def)
  have "k < sx * sy \<Longrightarrow> k mod sx + k div sx * sx < sx * sy" for k
    by (simp add: mult.commute)
  then show "MbufData (snd (MbufAlloc2d sx sy ty s)) (NextId s) = Some (replicate (sx * sy) 0)"
    by (auto simp: e MbufData_def PixelIndex_def list_eq_iff_nth_eq)
qed

lemma MbufAlloc2d_old:
  assumes "ValidBuf s j"
  shows "ValidBuf (snd (MbufAlloc2d sx sy ty s)) j"
    and "Shape (snd (MbufAlloc2d sx sy ty s)) j = Shape s j"
    and "MbufData (snd (MbufAlloc2d sx sy ty s)) j = MbufData s j"
    and "j < NextId s"
proof -
  obtain b rb where b: "Buffers s j = Some b" "Buffers s (Root b) = Some rb"
    using assms by (auto simp: ValidBuf_def split: option.splits)
  have lt: "j < NextId s" "Root b < NextId s" using assms b by (auto simp: ValidBuf_def)
  show "j < NextId s" by (rule lt)
  show "ValidBuf (snd (MbufAlloc2d sx sy ty s)) j"
    using assms b lt by (auto simp: MbufAlloc2d_def ValidBuf_def SetError_def Let_def)
  show "Shape (snd (MbufAlloc2d sx sy ty s)) j = Shape s j"
    using b lt by (auto simp: MbufAlloc2d_def Shape_def SetError_def Let_def)
  show "MbufData (snd (MbufAlloc2d sx sy ty s)) j = MbufData s j"
    using b lt by (auto simp: MbufAlloc2d_def MbufData_def SetError_def Let_def)
qed

lemma Separate_roots:
  assumes "Shape s i = Some (t, sx, sy, i, ox, oy, n)" "ValidBuf s j" "j < i" "Shape s j = Some (t', sx', sy', r, ox', oy', n')" "r < i"
  shows "Separate s i j"
  using assms by (auto simp: Separate_Shape)

subsection \<open>Copying to the memory of a buffer\<close>

lemma Shape_MbufGet [simp]: "Shape (MbufGet_HostAddress src dst s) j = Shape s j"
  by (auto simp: MbufGet_HostAddress_def Shape_def SetError_def split: option.splits)

lemma NextId_MbufGet [simp]: "NextId (MbufGet_HostAddress src dst s) = NextId s"
  by (simp add: MbufGet_HostAddress_def SetError_def split: option.splits)

lemma Containers_MbufGet [simp]: "Containers (MbufGet_HostAddress src dst s) = Containers s"
  by (simp add: MbufGet_HostAddress_def SetError_def split: option.splits)

lemma ValidBuf_MbufGet [simp]: "ValidBuf (MbufGet_HostAddress src dst s) j = ValidBuf s j"
  by (rule layout_cong) simp_all

lemma Separate_MbufGet [simp]: "Separate (MbufGet_HostAddress src dst s) i j = Separate s i j"
  by (rule layout_cong) simp_all

lemma Dim_MbufGet [simp]: "Dim (MbufGet_HostAddress src dst s) j = Dim s j"
  by (rule layout_cong) simp_all

lemma root_window: "((p::nat) mod n < n \<and> p div n < Suc 0) = (p < n)"
  by (cases "n = 0") (auto simp: div_eq_0_iff)

lemma MbufGet_WritePixels:
  assumes vs: "ValidBuf s src" and ds: "Dim s src = Some (t, sx, sy)"
    and sd: "Shape s dst = Some (t, sx * sy, 1, dst, 0, 0, sx * sy)"
    and ps: "MbufData s src = Some ps"
  shows "MbufGet_HostAddress src dst s = WritePixels dst (\<lambda>k. ps ! k) s"
proof -
  obtain sb where sb: "Buffers s src = Some sb" "BufType sb = t"
    using ds by (auto simp: Dim_def)
  obtain db where db: "Buffers s dst = Some db" "BufType db = t" "SizeX db = sx * sy" "SizeY db = 1"
      "Root db = dst" "OffX db = 0" "OffY db = 0" "length (Pixels db) = sx * sy"
    using sd by (auto simp: Shape_def)
  have l: "length ps = sx * sy" using ps ds by (rule MbufData_length)
  have w: "InWindow db (p mod (sx * sy)) (p div (sx * sy)) = (p < sx * sy)" for p
    using db root_window [of p "sx * sy"] by (simp add: InWindow_def)
  have "map (\<lambda>p. if InWindow db (p mod SizeX db) (p div SizeX db)
                  then ps ! ((p mod SizeX db - OffX db) + (p div SizeX db - OffY db) * SizeX db)
                  else Pixels db ! p) [0..<length (Pixels db)] = ps"
    using db l w by (auto simp: list_eq_iff_nth_eq)
  then have "WritePixels dst (\<lambda>k. ps ! k) s
                = s\<lparr>Buffers := (Buffers s)(dst \<mapsto> db\<lparr>Pixels := ps\<rparr>)\<rparr>"
    using db by (simp add: WritePixels_def)
  moreover have "MbufGet_HostAddress src dst s = s\<lparr>Buffers := (Buffers s)(dst \<mapsto> db\<lparr>Pixels := ps\<rparr>)\<rparr>"
    using sb db ps l by (simp add: MbufGet_HostAddress_def)
  ultimately show ?thesis by simp
qed

lemma MbufGet_ok:
  assumes vs: "ValidBuf s src" and vd: "ValidBuf s dst" and ds: "Dim s src = Some (t, sx, sy)"
    and sd: "Shape s dst = Some (t, sx * sy, 1, dst, 0, 0, sx * sy)"
    and ps: "MbufData s src = Some ps"
  shows "MbufData (MbufGet_HostAddress src dst s) dst = Some ps"
    and "MilError (MbufGet_HostAddress src dst s) = MilError s"
    and "ValidBuf s j \<Longrightarrow> Separate s dst j \<Longrightarrow> MbufData (MbufGet_HostAddress src dst s) j = MbufData s j"
proof -
  note e = MbufGet_WritePixels [OF vs ds sd ps]
  obtain db where db: "Buffers s dst = Some db" "SizeX db = sx * sy" "SizeY db = 1"
    using sd by (auto simp: Shape_def)
  have l: "length ps = sx * sy" using ps ds by (rule MbufData_length)
  show "MbufData (MbufGet_HostAddress src dst s) dst = Some ps"
    unfolding e using MbufData_WritePixels_same [OF vd db(1), of "\<lambda>k. ps ! k"] db l map_nth [of ps]
    by simp
  show "MilError (MbufGet_HostAddress src dst s) = MilError s"
    unfolding e using vd by (rule MilError_WritePixels)
  show "ValidBuf s j \<Longrightarrow> Separate s dst j \<Longrightarrow> MbufData (MbufGet_HostAddress src dst s) j = MbufData s j"
    unfolding e by (rule MbufData_WritePixels_other)
qed

text \<open>Whatever the source is, the copy writes to the destination only.\<close>

lemma MbufGet_keeps:
  assumes "Shape s j = Some (t, sx, sy, r, ox, oy, n)" "r \<noteq> dst" "j \<noteq> dst"
  shows "MbufData (MbufGet_HostAddress src dst s) j = MbufData s j"
  using assms
  by (auto simp: MbufGet_HostAddress_def MbufData_def Shape_def SetError_def split: option.splits)

lemma Convert_ToFlat:
  "Convert ext (CDataConversionToFlat None m) Data s =
     (m, CDataConversionToFlat None m,
      MbufGet_HostAddress (MilValidMask Data) (MilValidMask m)
        (MbufGet_HostAddress (MilZ Data) (MilZ m)
           (MbufGet_HostAddress (MilX Data) (MilX m) s)))"
  by (simp add: Let_def)

lemma ToFlat_ok:
  assumes vx: "ValidBuf s X" and vz: "ValidBuf s Z" and vm: "ValidBuf s M"
    and vfx: "ValidBuf s fx" and vfz: "ValidBuf s fz" and vfm: "ValidBuf s fm"
    and dx: "Dim s X = Some (ty, sx, sy)" and dz: "Dim s Z = Some (ty, sx, sy)"
    and dm: "Dim s M = Some (U8, sx, sy)"
    and sfx: "Shape s fx = Some (ty, sx * sy, 1, fx, 0, 0, sx * sy)"
    and sfz: "Shape s fz = Some (ty, sx * sy, 1, fz, 0, 0, sx * sy)"
    and sfm: "Shape s fm = Some (U8, sx * sy, 1, fm, 0, 0, sx * sy)"
    and xs: "MbufData s X = Some xs" and zs: "MbufData s Z = Some zs" and ms: "MbufData s M = Some ms"
    and sep: "Separate s fx X" "Separate s fx Z" "Separate s fx M"
             "Separate s fz X" "Separate s fz Z" "Separate s fz M"
             "Separate s fm X" "Separate s fm Z" "Separate s fm M"
             "Separate s fz fx" "Separate s fm fx" "Separate s fm fz"
  shows "MbufData (MbufGet_HostAddress M fm (MbufGet_HostAddress Z fz (MbufGet_HostAddress X fx s))) fx = Some xs"
    and "MbufData (MbufGet_HostAddress M fm (MbufGet_HostAddress Z fz (MbufGet_HostAddress X fx s))) fz = Some zs"
    and "MbufData (MbufGet_HostAddress M fm (MbufGet_HostAddress Z fz (MbufGet_HostAddress X fx s))) fm = Some ms"
    and "MbufData (MbufGet_HostAddress M fm (MbufGet_HostAddress Z fz (MbufGet_HostAddress X fx s))) X = Some xs"
    and "MbufData (MbufGet_HostAddress M fm (MbufGet_HostAddress Z fz (MbufGet_HostAddress X fx s))) Z = Some zs"
    and "MbufData (MbufGet_HostAddress M fm (MbufGet_HostAddress Z fz (MbufGet_HostAddress X fx s))) M = Some ms"
    and "MilError (MbufGet_HostAddress M fm (MbufGet_HostAddress Z fz (MbufGet_HostAddress X fx s))) = MilError s"
proof -
  let ?s1 = "MbufGet_HostAddress X fx s"
  let ?s2 = "MbufGet_HostAddress Z fz ?s1"
  let ?s3 = "MbufGet_HostAddress M fm ?s2"
  note g1 = MbufGet_ok [OF vx vfx dx sfx xs]
  have x1: "MbufData ?s1 X = Some xs" "MbufData ?s1 Z = Some zs" "MbufData ?s1 M = Some ms"
    using g1(3) [OF vx sep(1)] g1(3) [OF vz sep(2)] g1(3) [OF vm sep(3)] xs zs ms by simp_all
  have v1: "ValidBuf ?s1 Z" "ValidBuf ?s1 fz" "ValidBuf ?s1 X" "ValidBuf ?s1 M" "ValidBuf ?s1 fx" "ValidBuf ?s1 fm"
    using vz vfz vx vm vfx vfm by simp_all
  have d1: "Dim ?s1 Z = Some (ty, sx, sy)" using dz by simp
  have sh1: "Shape ?s1 fz = Some (ty, sx * sy, 1, fz, 0, 0, sx * sy)" using sfz by simp
  note g2 = MbufGet_ok [OF v1(1) v1(2) d1 sh1 x1(2)]
  have sp1: "Separate ?s1 fz X" "Separate ?s1 fz Z" "Separate ?s1 fz M" "Separate ?s1 fz fx"
    using sep by simp_all
  have x2: "MbufData ?s2 X = Some xs" "MbufData ?s2 Z = Some zs" "MbufData ?s2 M = Some ms"
      "MbufData ?s2 fx = Some xs"
    using g2(3) [OF v1(3) sp1(1)] g2(3) [OF v1(1) sp1(2)] g2(3) [OF v1(4) sp1(3)]
      g2(3) [OF v1(5) sp1(4)] x1 g1(1) by simp_all
  have v2: "ValidBuf ?s2 M" "ValidBuf ?s2 fm" "ValidBuf ?s2 X" "ValidBuf ?s2 Z" "ValidBuf ?s2 fx" "ValidBuf ?s2 fz"
    using vm vfm vx vz vfx vfz by simp_all
  have d2: "Dim ?s2 M = Some (U8, sx, sy)" using dm by simp
  have sh2: "Shape ?s2 fm = Some (U8, sx * sy, 1, fm, 0, 0, sx * sy)" using sfm by simp
  note g3 = MbufGet_ok [OF v2(1) v2(2) d2 sh2 x2(3)]
  have sp2: "Separate ?s2 fm X" "Separate ?s2 fm Z" "Separate ?s2 fm M" "Separate ?s2 fm fx"
      "Separate ?s2 fm fz"
    using sep by simp_all
  show "MbufData ?s3 fx = Some xs" using g3(3) [OF v2(5) sp2(4)] x2(4) by simp
  show "MbufData ?s3 fz = Some zs" using g3(3) [OF v2(6) sp2(5)] g2(1) by simp
  show "MbufData ?s3 fm = Some ms" by (rule g3(1))
  show "MbufData ?s3 X = Some xs" using g3(3) [OF v2(3) sp2(1)] x2(1) by simp
  show "MbufData ?s3 Z = Some zs" using g3(3) [OF v2(4) sp2(2)] x2(2) by simp
  show "MbufData ?s3 M = Some ms" using g3(3) [OF v2(1) sp2(3)] x2(3) by simp
  show "MilError ?s3 = MilError s" using g1(2) g2(2) g3(2) by simp
qed

text \<open>The two channels are copied whatever the mask is.\<close>

lemma ToFlat_xz:
  assumes vx: "ValidBuf s X" and vz: "ValidBuf s Z"
    and vfx: "ValidBuf s fx" and vfz: "ValidBuf s fz"
    and dx: "Dim s X = Some (ty, sx, sy)" and dz: "Dim s Z = Some (ty, sx, sy)"
    and sfx: "Shape s fx = Some (ty, sx * sy, 1, fx, 0, 0, sx * sy)"
    and sfz: "Shape s fz = Some (ty, sx * sy, 1, fz, 0, 0, sx * sy)"
    and xs: "MbufData s X = Some xs" and zs: "MbufData s Z = Some zs"
    and sep: "Separate s fx X" "Separate s fx Z" "Separate s fz X" "Separate s fz Z" "Separate s fz fx"
    and ne: "fx \<noteq> fm" "fz \<noteq> fm" "X \<noteq> fm" "Z \<noteq> fm"
    and rx: "\<exists>t sx sy r ox oy n. Shape s X = Some (t, sx, sy, r, ox, oy, n) \<and> r \<noteq> fm"
    and rz: "\<exists>t sx sy r ox oy n. Shape s Z = Some (t, sx, sy, r, ox, oy, n) \<and> r \<noteq> fm"
  shows "MbufData (MbufGet_HostAddress M fm (MbufGet_HostAddress Z fz (MbufGet_HostAddress X fx s))) fx = Some xs"
    and "MbufData (MbufGet_HostAddress M fm (MbufGet_HostAddress Z fz (MbufGet_HostAddress X fx s))) fz = Some zs"
    and "MbufData (MbufGet_HostAddress M fm (MbufGet_HostAddress Z fz (MbufGet_HostAddress X fx s))) X = Some xs"
    and "MbufData (MbufGet_HostAddress M fm (MbufGet_HostAddress Z fz (MbufGet_HostAddress X fx s))) Z = Some zs"
proof -
  let ?s1 = "MbufGet_HostAddress X fx s"
  let ?s2 = "MbufGet_HostAddress Z fz ?s1"
  let ?s3 = "MbufGet_HostAddress M fm ?s2"
  note g1 = MbufGet_ok [OF vx vfx dx sfx xs]
  have x1: "MbufData ?s1 X = Some xs" "MbufData ?s1 Z = Some zs"
    using g1(3) [OF vx sep(1)] g1(3) [OF vz sep(2)] xs zs by simp_all
  have v1: "ValidBuf ?s1 Z" "ValidBuf ?s1 fz" "ValidBuf ?s1 X" "ValidBuf ?s1 fx"
    using vz vfz vx vfx by simp_all
  have d1: "Dim ?s1 Z = Some (ty, sx, sy)" using dz by simp
  have sh1: "Shape ?s1 fz = Some (ty, sx * sy, 1, fz, 0, 0, sx * sy)" using sfz by simp
  note g2 = MbufGet_ok [OF v1(1) v1(2) d1 sh1 x1(2)]
  have sp1: "Separate ?s1 fz X" "Separate ?s1 fz Z" "Separate ?s1 fz fx"
    using sep by simp_all
  have x2: "MbufData ?s2 X = Some xs" "MbufData ?s2 Z = Some zs" "MbufData ?s2 fx = Some xs"
      "MbufData ?s2 fz = Some zs"
    using g2(3) [OF v1(3) sp1(1)] g2(3) [OF v1(1) sp1(2)] g2(3) [OF v1(4) sp1(3)] x1 g1(1) g2(1)
    by simp_all
  have k: "Shape ?s2 fx = Some (ty, sx * sy, 1, fx, 0, 0, sx * sy)"
      "Shape ?s2 fz = Some (ty, sx * sy, 1, fz, 0, 0, sx * sy)"
    using sfx sfz by simp_all
  obtain t1 a1 b1 r1 o1 p1 n1 where kx: "Shape ?s2 X = Some (t1, a1, b1, r1, o1, p1, n1)" "r1 \<noteq> fm"
    using rx by auto
  obtain t2 a2 b2 r2 o2 p2 n2 where kz: "Shape ?s2 Z = Some (t2, a2, b2, r2, o2, p2, n2)" "r2 \<noteq> fm"
    using rz by auto
  show "MbufData ?s3 fx = Some xs" using MbufGet_keeps [OF k(1) ne(1) ne(1)] x2(3) by simp
  show "MbufData ?s3 fz = Some zs" using MbufGet_keeps [OF k(2) ne(2) ne(2)] x2(4) by simp
  show "MbufData ?s3 X = Some xs" using MbufGet_keeps [OF kx ne(3)] x2(1) by simp
  show "MbufData ?s3 Z = Some zs" using MbufGet_keeps [OF kz ne(4)] x2(2) by simp
qed

text \<open>The store after the constructor of the flatten stage.\<close>

lemma ValidBuf_root: "ValidBuf s j \<Longrightarrow> \<exists>t sx sy r ox oy n. Shape s j = Some (t, sx, sy, r, ox, oy, n) \<and> r < NextId s \<and> j < NextId s"
  by (auto simp: ValidBuf_def Shape_def split: option.splits)

lemma Separate_fresh:
  assumes "ValidBuf s j" "Shape s i = Some (t, sx, sy, i, ox, oy, n)" "k \<le> i"
    "\<exists>t sx sy r ox oy n. Shape s j = Some (t, sx, sy, r, ox, oy, n) \<and> r < k"
  shows "Separate s i j"
  using assms by (auto simp: Separate_Shape)

lemma ToFlat_new:
  assumes n: "0 < ProfileSize * NbProfiles"
  shows "CDataConversionToFlat_new None ProfileSize NbProfiles Type s =
     (CDataConversionToFlat None
        \<lparr>MilX = NextId s, MilZ = Suc (NextId s), MilValidMask = Suc (Suc (NextId s))\<rparr>,
      snd (MbufAlloc2d (ProfileSize * NbProfiles) 1 U8
        (snd (MbufAlloc2d (ProfileSize * NbProfiles) 1 Type
          (snd (MbufAlloc2d (ProfileSize * NbProfiles) 1 Type s))))))"
  using n by (simp add: CDataConversionToFlat_new_def MbufAlloc1d_def MbufAlloc2d_eq SPData_new_def
      Let_def split: prod.splits)

lemma alloc_old:
  assumes "ValidBuf s j"
  shows "ValidBuf (snd (MbufAlloc2d sx sy ty s)) j \<and>
         Shape (snd (MbufAlloc2d sx sy ty s)) j = Shape s j \<and>
         MbufData (snd (MbufAlloc2d sx sy ty s)) j = MbufData s j"
  using MbufAlloc2d_old [OF assms] by simp

lemma three_allocs:
  assumes n: "0 < N"
  shows "ValidBuf s j \<Longrightarrow>
           ValidBuf (snd (MbufAlloc2d N 1 t3 (snd (MbufAlloc2d N 1 t2 (snd (MbufAlloc2d N 1 t1 s)))))) j \<and>
           Shape (snd (MbufAlloc2d N 1 t3 (snd (MbufAlloc2d N 1 t2 (snd (MbufAlloc2d N 1 t1 s)))))) j = Shape s j \<and>
           MbufData (snd (MbufAlloc2d N 1 t3 (snd (MbufAlloc2d N 1 t2 (snd (MbufAlloc2d N 1 t1 s)))))) j = MbufData s j"
    and "ValidBuf (snd (MbufAlloc2d N 1 t3 (snd (MbufAlloc2d N 1 t2 (snd (MbufAlloc2d N 1 t1 s)))))) (NextId s)"
    and "ValidBuf (snd (MbufAlloc2d N 1 t3 (snd (MbufAlloc2d N 1 t2 (snd (MbufAlloc2d N 1 t1 s)))))) (Suc (NextId s))"
    and "ValidBuf (snd (MbufAlloc2d N 1 t3 (snd (MbufAlloc2d N 1 t2 (snd (MbufAlloc2d N 1 t1 s)))))) (Suc (Suc (NextId s)))"
    and "Shape (snd (MbufAlloc2d N 1 t3 (snd (MbufAlloc2d N 1 t2 (snd (MbufAlloc2d N 1 t1 s)))))) (NextId s)
           = Some (t1, N, 1, NextId s, 0, 0, N)"
    and "Shape (snd (MbufAlloc2d N 1 t3 (snd (MbufAlloc2d N 1 t2 (snd (MbufAlloc2d N 1 t1 s)))))) (Suc (NextId s))
           = Some (t2, N, 1, Suc (NextId s), 0, 0, N)"
    and "Shape (snd (MbufAlloc2d N 1 t3 (snd (MbufAlloc2d N 1 t2 (snd (MbufAlloc2d N 1 t1 s)))))) (Suc (Suc (NextId s)))
           = Some (t3, N, 1, Suc (Suc (NextId s)), 0, 0, N)"
    and "MilError (snd (MbufAlloc2d N 1 t3 (snd (MbufAlloc2d N 1 t2 (snd (MbufAlloc2d N 1 t1 s)))))) = MilError s"
    and "NextId (snd (MbufAlloc2d N 1 t3 (snd (MbufAlloc2d N 1 t2 (snd (MbufAlloc2d N 1 t1 s)))))) = Suc (Suc (Suc (NextId s)))"
proof -
  let ?a1 = "snd (MbufAlloc2d N 1 t1 s)"
  let ?a2 = "snd (MbufAlloc2d N 1 t2 ?a1)"
  let ?a3 = "snd (MbufAlloc2d N 1 t3 ?a2)"
  have o: "0 < (1::nat)" by simp
  note n1 = MbufAlloc2d_new [OF n o, of t1 s]
  note n2 = MbufAlloc2d_new [OF n o, of t2 ?a1]
  note n3 = MbufAlloc2d_new [OF n o, of t3 ?a2]
  show "ValidBuf s j \<Longrightarrow> ValidBuf ?a3 j \<and> Shape ?a3 j = Shape s j \<and> MbufData ?a3 j = MbufData s j"
    using alloc_old [of s j N 1 t1] alloc_old [of ?a1 j N 1 t2] alloc_old [of ?a2 j N 1 t3] by simp
  have v1: "ValidBuf ?a1 (NextId s)" by (rule n1(6))
  have v12: "ValidBuf ?a2 (NextId s)" using alloc_old [OF v1] by simp
  show "ValidBuf ?a3 (NextId s)" using alloc_old [OF v12] by simp
  have v2: "ValidBuf ?a2 (Suc (NextId s))" using n2(6) n1(2) by simp
  show "ValidBuf ?a3 (Suc (NextId s))" using alloc_old [OF v2] by simp
  show "ValidBuf ?a3 (Suc (Suc (NextId s)))" using n3(6) n2(2) n1(2) by simp
  show "Shape ?a3 (NextId s) = Some (t1, N, 1, NextId s, 0, 0, N)"
    using alloc_old [OF v12, of N 1 t3] alloc_old [OF v1, of N 1 t2] n1(5) by simp
  show "Shape ?a3 (Suc (NextId s)) = Some (t2, N, 1, Suc (NextId s), 0, 0, N)"
    using alloc_old [OF v2, of N 1 t3] n2(5) n1(2) by simp
  show "Shape ?a3 (Suc (Suc (NextId s))) = Some (t3, N, 1, Suc (Suc (NextId s)), 0, 0, N)"
    using n3(5) n2(2) n1(2) by simp
  show "MilError ?a3 = MilError s" using n1(3) n2(3) n3(3) by simp
  show "NextId ?a3 = Suc (Suc (Suc (NextId s)))" using n1(2) n2(2) n3(2) by simp
qed

text \<open>
  Claim C9. For every input, the flatten stage copies the pixels of the upstream X buffer and of
  the upstream Z buffer, which may be windows of a wider image, row after row into buffers of
  its own: the constructor of the stage allocates them, under identifiers that the store had
  not given out, as buffers of one row of \<open>ProfileSize * NbProfiles\<close> pixels that own their
  pixels, which is the number of pixels upstream; the upstream buffers keep their pixels.
  This holds whether the upstream data has a validity mask or not. When it has one, an 8 bit
  buffer of the size of the frame, the stage copies the mask in the same way into a third
  such buffer, and the library reports no error.
\<close>

theorem flatten_stage:
  assumes n: "0 < ProfileSize" "0 < NbProfiles"
    and vx: "ValidBuf s (MilX Data)" and vz: "ValidBuf s (MilZ Data)"
    and dx: "Dim s (MilX Data) = Some (Type, ProfileSize, NbProfiles)"
    and dz: "Dim s (MilZ Data) = Some (Type, ProfileSize, NbProfiles)"
    and xs: "MbufData s (MilX Data) = Some xs" and zs: "MbufData s (MilZ Data) = Some zs"
  shows
    "(case CDataConversionToFlat_new None ProfileSize NbProfiles Type s of (conv, s1) \<Rightarrow>
        (case Convert ext conv Data s1 of (d, c, s2) \<Rightarrow>
           NextId s \<le> MilX d \<and> NextId s \<le> MilZ d \<and> NextId s \<le> MilValidMask d \<and>
           MilX d \<noteq> MilZ d \<and> MilX d \<noteq> MilValidMask d \<and> MilZ d \<noteq> MilValidMask d \<and>
           Shape s2 (MilX d)
             = Some (Type, ProfileSize * NbProfiles, 1, MilX d, 0, 0, ProfileSize * NbProfiles) \<and>
           Shape s2 (MilZ d)
             = Some (Type, ProfileSize * NbProfiles, 1, MilZ d, 0, 0, ProfileSize * NbProfiles) \<and>
           Shape s2 (MilValidMask d)
             = Some (U8, ProfileSize * NbProfiles, 1, MilValidMask d, 0, 0, ProfileSize * NbProfiles) \<and>
           MbufData s2 (MilX d) = Some xs \<and> MbufData s2 (MilZ d) = Some zs \<and>
           length xs = ProfileSize * NbProfiles \<and> length zs = ProfileSize * NbProfiles \<and>
           MbufData s2 (MilX Data) = Some xs \<and> MbufData s2 (MilZ Data) = Some zs \<and>
           (\<forall>ms. ValidBuf s (MilValidMask Data) \<and>
                 Dim s (MilValidMask Data) = Some (U8, ProfileSize, NbProfiles) \<and>
                 MbufData s (MilValidMask Data) = Some ms \<longrightarrow>
                 MbufData s2 (MilValidMask d) = Some ms \<and> length ms = ProfileSize * NbProfiles \<and>
                 MbufData s2 (MilValidMask Data) = Some ms \<and> MilError s2 = MilError s)))"
proof -
  let ?N = "ProfileSize * NbProfiles"
  let ?a = "snd (MbufAlloc2d ?N 1 U8 (snd (MbufAlloc2d ?N 1 Type (snd (MbufAlloc2d ?N 1 Type s)))))"
  let ?fx = "NextId s" let ?fz = "Suc (NextId s)" let ?fm = "Suc (Suc (NextId s))"
  let ?M = "MilValidMask Data"
  let ?s2 = "MbufGet_HostAddress ?M ?fm
               (MbufGet_HostAddress (MilZ Data) ?fz (MbufGet_HostAddress (MilX Data) ?fx ?a))"
  have N: "0 < ?N" using n by simp
  note a = three_allocs [OF N]
  have ox: "ValidBuf ?a (MilX Data)" "Shape ?a (MilX Data) = Shape s (MilX Data)"
      "MbufData ?a (MilX Data) = Some xs"
    using a(1) [OF vx] xs by simp_all
  have oz: "ValidBuf ?a (MilZ Data)" "Shape ?a (MilZ Data) = Shape s (MilZ Data)"
      "MbufData ?a (MilZ Data) = Some zs"
    using a(1) [OF vz] zs by simp_all
  have d: "Dim ?a (MilX Data) = Some (Type, ProfileSize, NbProfiles)"
      "Dim ?a (MilZ Data) = Some (Type, ProfileSize, NbProfiles)"
    using dx dz ox(2) oz(2) by (simp_all add: Dim_Shape)
  have rx: "\<exists>t sx sy r ox oy n. Shape ?a (MilX Data) = Some (t, sx, sy, r, ox, oy, n) \<and> r < NextId s"
    using ValidBuf_root [OF vx] ox(2) by auto
  have rz: "\<exists>t sx sy r ox oy n. Shape ?a (MilZ Data) = Some (t, sx, sy, r, ox, oy, n) \<and> r < NextId s"
    using ValidBuf_root [OF vz] oz(2) by auto
  have sepx: "Separate ?a ?fx (MilX Data)" "Separate ?a ?fx (MilZ Data)"
      "Separate ?a ?fz (MilX Data)" "Separate ?a ?fz (MilZ Data)"
      "Separate ?a ?fm (MilX Data)" "Separate ?a ?fm (MilZ Data)"
    using Separate_fresh [OF ox(1) a(5) _ rx] Separate_fresh [OF oz(1) a(5) _ rz]
      Separate_fresh [OF ox(1) a(6) _ rx] Separate_fresh [OF oz(1) a(6) _ rz]
      Separate_fresh [OF ox(1) a(7) _ rx] Separate_fresh [OF oz(1) a(7) _ rz]
    by simp_all
  have own: "Separate ?a ?fz ?fx" "Separate ?a ?fm ?fx" "Separate ?a ?fm ?fz"
    using a(5,6,7) by (simp_all add: Separate_Shape)
  have lt: "MilX Data < NextId s" "MilZ Data < NextId s"
    using ValidBuf_root [OF vx] ValidBuf_root [OF vz] by auto
  have ne: "?fx \<noteq> ?fm" "?fz \<noteq> ?fm" "MilX Data \<noteq> ?fm" "MilZ Data \<noteq> ?fm"
    using lt by simp_all
  have rx': "\<exists>t sx sy r ox oy n. Shape ?a (MilX Data) = Some (t, sx, sy, r, ox, oy, n) \<and> r \<noteq> ?fm"
    using rx by fastforce
  have rz': "\<exists>t sx sy r ox oy n. Shape ?a (MilZ Data) = Some (t, sx, sy, r, ox, oy, n) \<and> r \<noteq> ?fm"
    using rz by fastforce
  note f = ToFlat_xz [OF ox(1) oz(1) a(2) a(3) d a(5) a(6) ox(3) oz(3) sepx(1,2,3,4) own(1) ne rx' rz',
      where M = ?M]
  have l: "length xs = ?N" "length zs = ?N"
    using MbufData_length [OF xs dx] MbufData_length [OF zs dz] by simp_all
  have m: "MbufData ?s2 ?fm = Some ms \<and> length ms = ?N \<and> MbufData ?s2 ?M = Some ms \<and>
           MilError ?s2 = MilError s"
    if vm: "ValidBuf s ?M" and dm: "Dim s ?M = Some (U8, ProfileSize, NbProfiles)"
      and ms: "MbufData s ?M = Some ms" for ms
  proof -
    have om: "ValidBuf ?a ?M" "Shape ?a ?M = Shape s ?M" "MbufData ?a ?M = Some ms"
      using a(1) [OF vm] ms by simp_all
    have dm': "Dim ?a ?M = Some (U8, ProfileSize, NbProfiles)"
      using dm om(2) by (simp add: Dim_Shape)
    have rm: "\<exists>t sx sy r ox oy n. Shape ?a ?M = Some (t, sx, sy, r, ox, oy, n) \<and> r < NextId s"
      using ValidBuf_root [OF vm] om(2) by auto
    have sepm: "Separate ?a ?fx ?M" "Separate ?a ?fz ?M" "Separate ?a ?fm ?M"
      using Separate_fresh [OF om(1) a(5) _ rm] Separate_fresh [OF om(1) a(6) _ rm]
        Separate_fresh [OF om(1) a(7) _ rm]
      by simp_all
    note g = ToFlat_ok [OF ox(1) oz(1) om(1) a(2) a(3) a(4) d dm' a(5) a(6) a(7) ox(3) oz(3) om(3)
        sepx(1,2) sepm(1) sepx(3,4) sepm(2) sepx(5,6) sepm(3) own]
    show ?thesis
      using g(3,6,7) MbufData_length [OF ms dm] a(8) by simp
  qed
  show ?thesis
    unfolding ToFlat_new [OF N] Convert_ToFlat
    using f l a(5,6,7) m by simp
qed

section \<open>The stages on the profile of the examples\<close>

lemma MaskStore_eq:
  "MaskStore =
     \<lparr>Buffers = (\<lambda>i. None)(1 \<mapsto>
        \<lparr>BufType = U16, SizeX = 4, SizeY = 2, Root = 1, OffX = 0, OffY = 0,
         Pixels = [0, 65535, 0, 65535, 50, 300, 100, 200]\<rparr>,
        2 \<mapsto> \<lparr>BufType = U16, SizeX = 2, SizeY = 2, Root = 1, OffX = 0, OffY = 0, Pixels = []\<rparr>,
        3 \<mapsto> \<lparr>BufType = U16, SizeX = 2, SizeY = 2, Root = 1, OffX = 2, OffY = 0, Pixels = []\<rparr>,
        4 \<mapsto> \<lparr>BufType = U8, SizeX = 2, SizeY = 2, Root = 4, OffX = 0, OffY = 0,
               Pixels = [0, 0, 0, 0]\<rparr>),
      Containers = (\<lambda>i. None), NextId = 5, MilError = False\<rparr>"
  by (simp add: MaskStore_def CDataConversionAddMask_new_def MbufAlloc2d_def ProfileStore_eq Let_def
      eval_nat_numeral)

lemma MaskStore_facts:
  "ValidBuf MaskStore 3" "ValidBuf MaskStore 2" "ValidBuf MaskStore 4"
  "Dim MaskStore 2 = Some (U16, 2, 2)" "Dim MaskStore 4 = Some (U8, 2, 2)"
  "MbufData MaskStore 3 = Some [0, 65535, 100, 200]"
  "MbufData MaskStore 2 = Some [0, 65535, 50, 300]"
  "Separate MaskStore 4 2" "Separate MaskStore 4 3"
  by (simp_all add: MaskStore_eq ValidBuf_def Dim_def MbufData_def Separate_def PixelIndex_def upt4)

theorem add_mask_stage_witness:
  "ValidBuf MaskStore (MilZ ProfileData) \<and>
   MbufData MaskStore (MilZ ProfileData) = Some [0, 65535, 50, 300] \<and>
   (case Convert ExactArith (CDataConversionAddMask None 4 INVALID_VALUE) ProfileData MaskStore of
      (d, c, s') \<Rightarrow>
        d = MaskedData \<and> MbufData s' 4 = Some [0, 255, 255, 255] \<and>
        MbufData s' (MilX ProfileData) = Some [0, 65535, 100, 200] \<and>
        MbufData s' (MilZ ProfileData) = Some [0, 65535, 50, 300] \<and> \<not> MilError s')"
proof -
  have x: "MilX ProfileData = 3" "MilZ ProfileData = 2" by (simp_all add: ProfileData_def)
  have e: "\<not> MilError MaskStore" by (simp add: MaskStore_eq)
  show ?thesis
    using add_mask_stage [where s = MaskStore and Data = ProfileData and m = 4 and t = U16 and sx = 2
        and sy = 2 and zs = "[0, 65535, 50, 300]" and xs = "[0, 65535, 100, 200]"
        and ext = ExactArith and InvalidValue = INVALID_VALUE]
      MaskStore_facts e
    unfolding x
    by (simp add: INVALID_VALUE_def MaskedData_def ProfileData_def M_NULL_def split: prod.splits)
qed

lemma MaskedStore_eq:
  "MaskedStore =
     \<lparr>Buffers = (\<lambda>i. None)(1 \<mapsto>
        \<lparr>BufType = U16, SizeX = 4, SizeY = 2, Root = 1, OffX = 0, OffY = 0,
         Pixels = [0, 65535, 0, 65535, 50, 300, 100, 200]\<rparr>,
        2 \<mapsto> \<lparr>BufType = U16, SizeX = 2, SizeY = 2, Root = 1, OffX = 0, OffY = 0, Pixels = []\<rparr>,
        3 \<mapsto> \<lparr>BufType = U16, SizeX = 2, SizeY = 2, Root = 1, OffX = 2, OffY = 0, Pixels = []\<rparr>,
        4 \<mapsto> \<lparr>BufType = U8, SizeX = 2, SizeY = 2, Root = 4, OffX = 0, OffY = 0,
               Pixels = [0, 255, 255, 255]\<rparr>),
      Containers = (\<lambda>i. None), NextId = 5, MilError = False\<rparr>"
  by (simp add: MaskedStore_def MaskStore_eq ArithConst_def MbufData_def WritePixels_def PixelIndex_def
      InWindow_def PixelOp_def TypeMax_def INVALID_VALUE_def ProfileData_def upt4 Let_def)

lemma MaskedStore_facts:
  "ValidBuf MaskedStore 3" "ValidBuf MaskedStore 2" "ValidBuf MaskedStore 4"
  "Dim MaskedStore 3 = Some (U16, 2, 2)" "Dim MaskedStore 2 = Some (U16, 2, 2)"
  "Dim MaskedStore 4 = Some (U8, 2, 2)"
  "MbufData MaskedStore 3 = Some [0, 65535, 100, 200]"
  "MbufData MaskedStore 2 = Some [0, 65535, 50, 300]"
  "MbufData MaskedStore 4 = Some [0, 255, 255, 255]"
  "Separate MaskedStore 3 2" "Separate MaskedStore 3 4" "Separate MaskedStore 2 4"
  "\<not> MilError MaskedStore" "NextId MaskedStore = 5"
  by (simp_all add: MaskedStore_eq ValidBuf_def Dim_def MbufData_def Separate_def PixelIndex_def upt4)

lemma MaskedData_simps [simp]:
  "MilX MaskedData = 3" "MilZ MaskedData = 2" "MilValidMask MaskedData = 4"
  by (simp_all add: MaskedData_def)

theorem apply_invalid_stage_witness:
  "ValidBuf MaskedStore (MilValidMask MaskedData) \<and>
   MbufData MaskedStore (MilValidMask MaskedData) = Some [0, 255, 255, 255] \<and>
   (case Convert ExactArith (CDataConversionApplyInvalid None) MaskedData MaskedStore of
      (d, c, s') \<Rightarrow>
        d = MaskedData \<and> MbufData s' 3 = Some [65535, 65535, 100, 200] \<and>
        MbufData s' 2 = Some [65535, 65535, 50, 300] \<and> MbufData s' 4 = Some [0, 255, 255, 255] \<and>
        \<not> MilError s')"
  using apply_invalid_stage [where s = MaskedStore and Data = MaskedData and tx = U16 and tz = U16
      and tm = U8 and sx = 2 and sy = 2 and xs = "[0, 65535, 100, 200]" and zs = "[0, 65535, 50, 300]"
      and ms = "[0, 255, 255, 255]" and ext = ExactArith]
    MaskedStore_facts
  by (simp add: TypeMax_def split: prod.splits)

lemma WorldStore_eq:
  "WorldStore =
     \<lparr>Buffers = (\<lambda>i. None)(1 \<mapsto>
        \<lparr>BufType = U16, SizeX = 4, SizeY = 2, Root = 1, OffX = 0, OffY = 0,
         Pixels = [0, 65535, 0, 65535, 50, 300, 100, 200]\<rparr>,
        2 \<mapsto> \<lparr>BufType = U16, SizeX = 2, SizeY = 2, Root = 1, OffX = 0, OffY = 0, Pixels = []\<rparr>,
        3 \<mapsto> \<lparr>BufType = U16, SizeX = 2, SizeY = 2, Root = 1, OffX = 2, OffY = 0, Pixels = []\<rparr>,
        4 \<mapsto> \<lparr>BufType = U8, SizeX = 2, SizeY = 2, Root = 4, OffX = 0, OffY = 0,
               Pixels = [0, 255, 255, 255]\<rparr>,
        5 \<mapsto> \<lparr>BufType = F32, SizeX = 2, SizeY = 2, Root = 5, OffX = 0, OffY = 0,
               Pixels = [0, 0, 0, 0]\<rparr>,
        6 \<mapsto> \<lparr>BufType = F32, SizeX = 2, SizeY = 2, Root = 6, OffX = 0, OffY = 0,
               Pixels = [0, 0, 0, 0]\<rparr>),
      Containers = (\<lambda>i. None), NextId = 7, MilError = False\<rparr>"
  by (simp add: WorldStore_def CDataConversionToWorld_new_def MbufAlloc2d_def MaskedStore_eq Let_def
      eval_nat_numeral)

lemma WorldStore_facts:
  "ValidBuf WorldStore 3" "ValidBuf WorldStore 2" "ValidBuf WorldStore 5" "ValidBuf WorldStore 6"
  "Dim WorldStore 3 = Some (U16, 2, 2)" "Dim WorldStore 2 = Some (U16, 2, 2)"
  "Dim WorldStore 5 = Some (F32, 2, 2)" "Dim WorldStore 6 = Some (F32, 2, 2)"
  "MbufData WorldStore 3 = Some [0, 65535, 100, 200]"
  "MbufData WorldStore 2 = Some [0, 65535, 50, 300]"
  "Separate WorldStore 5 3" "Separate WorldStore 5 2" "Separate WorldStore 6 3" "Separate WorldStore 6 2"
  "Separate WorldStore 5 6"
  "ValidBuf WorldStore 4" "Separate WorldStore 5 4" "Separate WorldStore 6 4"
  "MbufData WorldStore 4 = Some [0, 255, 255, 255]"
  "\<not> MilError WorldStore"
  by (simp_all add: WorldStore_eq ValidBuf_def Dim_def MbufData_def Separate_def PixelIndex_def upt4)

lemma WorldBuffers_simps [simp]:
  "MilX WorldBuffers = 5" "MilZ WorldBuffers = 6"
  by (simp_all add: WorldBuffers_def)

lemma ExactArith_simps [simp]:
  "fmul ExactArith a b = a * b" "fadd ExactArith a b = a + b"
  by (simp_all add: ExactArith_def)

theorem to_world_stage_witness:
  "ValidBuf WorldStore (MilX MaskedData) \<and>
   MbufData WorldStore (MilX MaskedData) = Some [0, 65535, 100, 200] \<and>
   (case Convert ExactArith (CDataConversionToWorld None WorldBuffers (CONVPCAL 2)) MaskedData WorldStore of
      (d, c, s') \<Rightarrow>
        MilValidMask d = 4 \<and>
        MbufData s' 5 = Some [- 32768 / 1000, 32767 / 1000, - 32668 / 1000, - 32568 / 1000] \<and>
        MbufData s' 6 = Some [32232 / 1000, 97767 / 1000, 32282 / 1000, 32532 / 1000] \<and>
        MbufData s' 4 = Some [0, 255, 255, 255] \<and> \<not> MilError s') \<and>
   (case Convert ExactArith (CDataConversionToWorld None WorldBuffers ZeroScale) MaskedData WorldStore of
      (d, c, s') \<Rightarrow> MbufData s' 5 = Some [7, 7, 7, 7] \<and> MbufData s' 6 = Some [9, 9, 9, 9])"
  using to_world_stage [where s = WorldStore and Data = MaskedData and m = WorldBuffers and tx = U16
      and tz = U16 and sx = 2 and sy = 2 and xs = "[0, 65535, 100, 200]" and zs = "[0, 65535, 50, 300]"
      and ext = ExactArith and PCal = "CONVPCAL 2"]
    to_world_stage [where s = WorldStore and Data = MaskedData and m = WorldBuffers and tx = U16
      and tz = U16 and sx = 2 and sy = 2 and xs = "[0, 65535, 100, 200]" and zs = "[0, 65535, 50, 300]"
      and ext = ExactArith and PCal = ZeroScale]
    WorldStore_facts
  by (simp add: CONVPCAL_def CONV_S_def CONV_OFF_def ZeroScale_def eval_nat_numeral split: prod.splits)

theorem to_world_reads_upstream_witness:
  "ValidBuf WorldStore (MilX MaskedData) \<and> Separate WorldStore (MilX WorldBuffers) (MilX MaskedData) \<and>
   (case Convert ExactArith (CDataConversionToWorld None WorldBuffers (CONVPCAL 2)) MaskedData WorldStore of
      (d, c, s') \<Rightarrow>
        MbufData s' 3 = Some [0, 65535, 100, 200] \<and> MbufData s' 2 = Some [0, 65535, 50, 300] \<and>
        MbufData s' 4 = Some [0, 255, 255, 255] \<and> NextId s' = 7)"
proof -
  have n: "NextId WorldStore = 7" by (simp add: WorldStore_eq)
  show ?thesis
    using to_world_reads_upstream [where s = WorldStore and Data = MaskedData and m = WorldBuffers
        and xs = "[0, 65535, 100, 200]" and zs = "[0, 65535, 50, 300]" and ext = ExactArith
        and PCal = "CONVPCAL 2"]
      WorldStore_facts n
    by (auto simp del: Convert.simps split: prod.splits)
qed

lemma ProfileData_simps [simp]:
  "MilX ProfileData = 3" "MilZ ProfileData = 2" "MilValidMask ProfileData = M_NULL"
  by (simp_all add: ProfileData_def)

theorem flatten_stage_witness:
  "ValidBuf MaskedStore (MilX MaskedData) \<and> Dim MaskedStore (MilX MaskedData) = Some (U16, 2, 2) \<and>
   ValidBuf MaskedStore (MilValidMask MaskedData) \<and>
   MbufData MaskedStore (MilValidMask MaskedData) = Some [0, 255, 255, 255] \<and>
   (case CDataConversionToFlat_new None 2 2 U16 MaskedStore of (conv, s1) \<Rightarrow>
      (case Convert ExactArith conv MaskedData s1 of (d, c, s2) \<Rightarrow>
         d = \<lparr>MilX = 5, MilZ = 6, MilValidMask = 7\<rparr> \<and>
         Dim s2 5 = Some (U16, 4, 1) \<and>
         MbufData s2 5 = Some [0, 65535, 100, 200] \<and> MbufData s2 6 = Some [0, 65535, 50, 300] \<and>
         MbufData s2 7 = Some [0, 255, 255, 255] \<and> \<not> MilError s2)) \<and>
   ValidBuf ProfileStore (MilX ProfileData) \<and> Dim ProfileStore (MilX ProfileData) = Some (U16, 2, 2) \<and>
   MilValidMask ProfileData = M_NULL \<and> Buffers ProfileStore M_NULL = None \<and>
   (case CDataConversionToFlat_new None 2 2 U16 ProfileStore of (conv, s1) \<Rightarrow>
      (case Convert ExactArith conv ProfileData s1 of (d, c, s2) \<Rightarrow>
         d = \<lparr>MilX = 4, MilZ = 5, MilValidMask = 6\<rparr> \<and>
         Dim s2 4 = Some (U16, 4, 1) \<and> Dim s2 5 = Some (U16, 4, 1) \<and>
         MbufData s2 4 = Some [0, 65535, 100, 200] \<and> MbufData s2 5 = Some [0, 65535, 50, 300] \<and>
         MbufData s2 3 = Some [0, 65535, 100, 200] \<and> MbufData s2 2 = Some [0, 65535, 50, 300]))"
proof -
  obtain s1 where c: "CDataConversionToFlat_new None 2 2 U16 MaskedStore =
     (CDataConversionToFlat None \<lparr>MilX = 5, MilZ = 6, MilValidMask = 7\<rparr>, s1)"
    using ToFlat_new [of 2 2 U16 MaskedStore] MaskedStore_facts by (simp add: eval_nat_numeral)
  have h: "case Convert ExactArith (CDataConversionToFlat None \<lparr>MilX = 5, MilZ = 6, MilValidMask = 7\<rparr>)
                  MaskedData s1 of
             (d, c, s2) \<Rightarrow>
               Shape s2 (MilX d) = Some (U16, 2 * 2, 1, MilX d, 0, 0, 2 * 2) \<and>
               MbufData s2 (MilX d) = Some [0, 65535, 100, 200] \<and>
               MbufData s2 (MilZ d) = Some [0, 65535, 50, 300] \<and>
               MbufData s2 (MilValidMask d) = Some [0, 255, 255, 255] \<and>
               MilError s2 = MilError MaskedStore"
    using flatten_stage [where s = MaskedStore and Data = MaskedData and Type = U16 and ProfileSize = 2
        and NbProfiles = 2 and xs = "[0, 65535, 100, 200]" and zs = "[0, 65535, 50, 300]"
        and ext = ExactArith]
      MaskedStore_facts
    unfolding c by (simp del: Convert.simps split: prod.splits)
  have n: "NextId ProfileStore = 4" "Buffers ProfileStore M_NULL = None"
    by (simp_all add: ProfileStore_eq M_NULL_def)
  obtain s3 where c2: "CDataConversionToFlat_new None 2 2 U16 ProfileStore =
     (CDataConversionToFlat None \<lparr>MilX = 4, MilZ = 5, MilValidMask = 6\<rparr>, s3)"
    using ToFlat_new [of 2 2 U16 ProfileStore] n by (simp add: eval_nat_numeral)
  have h2: "case Convert ExactArith (CDataConversionToFlat None \<lparr>MilX = 4, MilZ = 5, MilValidMask = 6\<rparr>)
                  ProfileData s3 of
             (d, c, s2) \<Rightarrow>
               Shape s2 (MilX d) = Some (U16, 2 * 2, 1, MilX d, 0, 0, 2 * 2) \<and>
               Shape s2 (MilZ d) = Some (U16, 2 * 2, 1, MilZ d, 0, 0, 2 * 2) \<and>
               MbufData s2 (MilX d) = Some [0, 65535, 100, 200] \<and>
               MbufData s2 (MilZ d) = Some [0, 65535, 50, 300] \<and>
               MbufData s2 3 = Some [0, 65535, 100, 200] \<and>
               MbufData s2 2 = Some [0, 65535, 50, 300]"
    using flatten_stage [where s = ProfileStore and Data = ProfileData and Type = U16 and ProfileSize = 2
        and NbProfiles = 2 and xs = "[0, 65535, 100, 200]" and zs = "[0, 65535, 50, 300]"
        and ext = ExactArith]
      ProfileStore_facts
    unfolding c2 by (simp del: Convert.simps split: prod.splits)
  show ?thesis
    using h h2 MaskedStore_facts ProfileStore_facts n unfolding c c2 by (simp add: Dim_Shape)
qed

text \<open>The chain that \<open>BuildDigitizerDataConversion\<close> makes with the two flips, on the profile
  of the examples; and the same three stages in the other order, where the mask is made
  from the Z values after the flip.\<close>

theorem Convert_chain_order_witness:
  "BuildDigitizerDataConversion (CMicroEpsilonToMIL_new 2 2) True True ProfileStore =
     (\<lparr>m_SizeX = 2, m_SizeY = 2, m_pDataConversion =
          Some (CDataConversionFlipZVal (Some (CDataConversionFlipXVal
            (Some (CDataConversionAddMask None 4 INVALID_VALUE)))))\<rparr>, MaskStore) \<and>
   MbufData MaskStore 3 = Some [0, 65535, 100, 200] \<and>
   MbufData MaskStore 2 = Some [0, 65535, 50, 300] \<and>
   (case Convert ExactArith
           (CDataConversionFlipZVal (Some (CDataConversionFlipXVal
              (Some (CDataConversionAddMask None 4 INVALID_VALUE))))) ProfileData MaskStore of
      (d, c, s') \<Rightarrow>
        d = MaskedData \<and> MbufData s' 4 = Some [0, 255, 255, 255] \<and>
        MbufData s' 3 = Some [65535, 0, 65435, 65335] \<and>
        MbufData s' 2 = Some [65535, 0, 65485, 65235] \<and> \<not> MilError s') \<and>
   (case Convert ExactArith
           (CDataConversionAddMask (Some (CDataConversionFlipXVal
              (Some (CDataConversionFlipZVal None)))) 4 INVALID_VALUE) ProfileData MaskStore of
      (d, c, s') \<Rightarrow>
        d = MaskedData \<and> MbufData s' 4 = Some [255, 0, 255, 255] \<and>
        MbufData s' 3 = Some [65535, 0, 65435, 65335] \<and>
        MbufData s' 2 = Some [65535, 0, 65485, 65235] \<and> \<not> MilError s')"
proof -
  have b: "BuildDigitizerDataConversion (CMicroEpsilonToMIL_new 2 2) True True ProfileStore =
     (\<lparr>m_SizeX = 2, m_SizeY = 2, m_pDataConversion =
          Some (CDataConversionFlipZVal (Some (CDataConversionFlipXVal
            (Some (CDataConversionAddMask None 4 INVALID_VALUE)))))\<rparr>, MaskStore)"
    by (simp add: BuildDigitizerDataConversion_def CMicroEpsilonToMIL_new_def MaskStore_def
        CDataConversionAddMask_new_def MbufAlloc2d_def ProfileStore_eq Let_def)
  have e1: "Convert ExactArith
           (CDataConversionFlipZVal (Some (CDataConversionFlipXVal
              (Some (CDataConversionAddMask None 4 INVALID_VALUE))))) ProfileData MaskStore =
     (case Transform ExactArith (CDataConversionAddMask None 4 INVALID_VALUE) ProfileData MaskStore of
        (d1, S1', s1) \<Rightarrow>
        (case Transform ExactArith (CDataConversionFlipXVal None) d1 s1 of (d2, S2', s2) \<Rightarrow>
           (case Transform ExactArith (CDataConversionFlipZVal None) d2 s2 of (d3, S3', s3) \<Rightarrow>
              (d3, SetPrev (Some (SetPrev (Some (SetPrev None S1')) S2')) S3', s3))))"
    using Convert_chain_order [where ?S1.0 = "CDataConversionAddMask None 4 INVALID_VALUE"
        and ?S2.0 = "CDataConversionFlipXVal None" and ?S3.0 = "CDataConversionFlipZVal None"
        and ext = ExactArith and Data = ProfileData and s = MaskStore]
    by (simp del: Convert.simps Transform.simps)
  have e2: "Convert ExactArith
           (CDataConversionAddMask (Some (CDataConversionFlipXVal
              (Some (CDataConversionFlipZVal None)))) 4 INVALID_VALUE) ProfileData MaskStore =
     (case Transform ExactArith (CDataConversionFlipZVal None) ProfileData MaskStore of
        (d1, S1', s1) \<Rightarrow>
        (case Transform ExactArith (CDataConversionFlipXVal None) d1 s1 of (d2, S2', s2) \<Rightarrow>
           (case Transform ExactArith (CDataConversionAddMask None 4 INVALID_VALUE) d2 s2 of (d3, S3', s3) \<Rightarrow>
              (d3, SetPrev (Some (SetPrev (Some (SetPrev None S1')) S2')) S3', s3))))"
    using Convert_chain_order [where ?S1.0 = "CDataConversionFlipZVal None"
        and ?S2.0 = "CDataConversionFlipXVal None"
        and ?S3.0 = "CDataConversionAddMask None 4 INVALID_VALUE"
        and ext = ExactArith and Data = ProfileData and s = MaskStore]
    by (simp del: Convert.simps Transform.simps)
  show ?thesis
    unfolding b e1 e2
    by (simp add: MaskStore_eq ArithConst_def MbufData_def WritePixels_def PixelIndex_def
        InWindow_def PixelOp_def StoreCast_def TypeMax_def INVALID_VALUE_def ProfileData_def
        MaskedData_def ExactArith_def upt4 upt8 Let_def)
qed

section \<open>The depth map process\<close>

text \<open>What no conversion changes: the shapes of the buffers, the identifiers given out, the
  point cloud containers.\<close>

lemma SetError_layout [simp]:
  "NextId (SetError s) = NextId s" "Containers (SetError s) = Containers s"
  by (simp_all add: SetError_def)

lemma MimArith_layout [simp]:
  "Shape (MimArith ext a b dst opr s) j = Shape s j"
  "NextId (MimArith ext a b dst opr s) = NextId s"
  "Containers (MimArith ext a b dst opr s) = Containers s"
  by (cases a; cases b; cases opr; simp)+

lemma ApplyInvalidMask_layout [simp]:
  "Shape (ApplyInvalidMask i m s) j = Shape s j"
  "NextId (ApplyInvalidMask i m s) = NextId s"
  "Containers (ApplyInvalidMask i m s) = Containers s"
  by (simp_all add: ApplyInvalidMask_def MbufInquire_M_MAX_def split: option.splits)

lemma ConvertOp_layout [simp]:
  "Shape (ConvertOp ext c d s) j = Shape s j"
  "NextId (ConvertOp ext c d s) = NextId s"
  "Containers (ConvertOp ext c d s) = Containers s"
  by (cases c; simp)+

lemma Convert_layout:
  "(\<forall>j. Shape (snd (snd (Convert ext c d s))) j = Shape s j) \<and>
   NextId (snd (snd (Convert ext c d s))) = NextId s \<and>
   Containers (snd (snd (Convert ext c d s))) = Containers s"
  "(\<forall>j. Shape (snd (snd (ConvertPrev ext p d s))) j = Shape s j) \<and>
   NextId (snd (snd (ConvertPrev ext p d s))) = NextId s \<and>
   Containers (snd (snd (ConvertPrev ext p d s))) = Containers s"
  by (induction ext c d s and ext p d s rule: Convert_ConvertPrev.induct)
     (auto simp: Let_def split: prod.splits)

lemma Shape_host:
  assumes "Shape s i = Some (t, sx, sy, i, 0, 0, n)"
  shows "\<exists>xs. HostAddress s i = Some xs \<and> length xs = n"
  using assms by (auto simp: Shape_def HostAddress_def)

lemma HostAddress_WritePixels_other:
  assumes "Shape s i = Some (t, sx, sy, i, 0, 0, n)" "Shape s j = Some (t', sx', sy', j, 0, 0, n')" "i \<noteq> j"
  shows "HostAddress (WritePixels j f s) i = HostAddress s i"
  using assms by (auto simp: Shape_def HostAddress_def WritePixels_def)

lemma chain_Convert:
  "Convert ext (CDataConversionApplyInvalid (Some (CDataConversionToFlat
       (Some (CDataConversionToWorld None mw pcal)) mf))) Data s =
     (mf,
      CDataConversionApplyInvalid (Some (CDataConversionToFlat
        (Some (CDataConversionToWorld None (mw\<lparr>MilValidMask := MilValidMask Data\<rparr>) pcal)) mf)),
      snd (snd (Convert ext (CDataConversionApplyInvalid (Some (CDataConversionToFlat
       (Some (CDataConversionToWorld None mw pcal)) mf))) Data s)))"
  by (simp add: Let_def)

lemma Process_step:
  assumes r: "Ready N mf this s"
  shows "case Process ext this Data s of (this', s') \<Rightarrow>
           Ready N mf this' s' \<and>
           m_MilPointCloudContainer this' = m_MilPointCloudContainer this \<and>
           m_ConvertedY this' = m_ConvertedY this \<and>
           m_NbFramesProcessed this' = Suc (m_NbFramesProcessed this) \<and>
           (\<exists>xs zs cs. HostAddress s' (MilX mf) = Some xs \<and> HostAddress s' (MilZ mf) = Some zs \<and>
              length xs = N \<and> length zs = N \<and>
              Containers s (m_MilPointCloudContainer this) = Some cs \<and>
              Containers s' (m_MilPointCloudContainer this)
                = Some (cs @ [(1, zip xs (zip (m_ConvertedY this) zs))]))"
proof -
  obtain mw pcal where conv: "m_pProcessProfileDataConversion this =
      Some (CDataConversionApplyInvalid (Some (CDataConversionToFlat
        (Some (CDataConversionToWorld None mw pcal)) mf)))"
    using r by (auto simp: Ready_def FlatChain_def)
  let ?c = "CDataConversionApplyInvalid (Some (CDataConversionToFlat
        (Some (CDataConversionToWorld None mw pcal)) mf))"
  let ?c' = "CDataConversionApplyInvalid (Some (CDataConversionToFlat
        (Some (CDataConversionToWorld None (mw\<lparr>MilValidMask := MilValidMask Data\<rparr>) pcal)) mf))"
  define s1 where "s1 = snd (snd (Convert ext ?c Data s))"
  have cv: "Convert ext ?c Data s = (mf, ?c', s1)" unfolding s1_def by (rule chain_Convert)
  have lay: "\<And>j. Shape s1 j = Shape s j" "Containers s1 = Containers s"
    unfolding s1_def using Convert_layout(1) [of ext ?c Data s] by blast+
  have shx: "Shape s1 (MilX mf) = Some (F32, N, 1, MilX mf, 0, 0, N)"
    and shz: "Shape s1 (MilZ mf) = Some (F32, N, 1, MilZ mf, 0, 0, N)"
    using r lay by (simp_all add: Ready_def)
  obtain xs zs where h: "HostAddress s1 (MilX mf) = Some xs" "length xs = N"
      "HostAddress s1 (MilZ mf) = Some zs" "length zs = N"
    using Shape_host [OF shx] Shape_host [OF shz] by auto
  obtain cs where cs0: "Containers s (m_MilPointCloudContainer this) = Some cs"
    using r by (auto simp: Ready_def)
  have cs: "Containers s1 (m_MilPointCloudContainer this) = Some cs"
    using cs0 lay by simp
  have np: "m_NbPoints this = N" "length (m_ConvertedY this) = N" using r by (simp_all add: Ready_def)
  let ?pts = "zip xs (zip (m_ConvertedY this) zs)"
  let ?s2 = "s1\<lparr>Containers := (Containers s1)(m_MilPointCloudContainer this \<mapsto> cs @ [(1, ?pts)])\<rparr>"
  have put: "M3dmapPut_M_POSITION (m_MilPointCloudContainer this) 1 (m_NbPoints this)
               (HostAddress s1 (MilX mf)) (m_ConvertedY this) (HostAddress s1 (MilZ mf)) s1 = ?s2"
    using h cs np by (simp add: M3dmapPut_M_POSITION_def)
  obtain t sx sy n where dm: "Shape s (m_MilDepthMap this) = Some (t, sx, sy, m_MilDepthMap this, 0, 0, n)"
      "m_MilDepthMap this \<noteq> MilX mf" "m_MilDepthMap this \<noteq> MilZ mf"
    using r by (auto simp: Ready_def)
  have sh2: "\<And>j. Shape ?s2 j = Shape s j" using lay by (simp add: Shape_def)
  obtain b where b: "Buffers ?s2 (m_MilDepthMap this) = Some b"
    using dm(1) sh2 [of "m_MilDepthMap this"] by (auto simp: Shape_def)
  let ?s3 = "WritePixels (m_MilDepthMap this)
               (\<lambda>k. StoreCast (BufType b) (Extract ext (concat (map snd (cs @ [(1::nat, ?pts)]))) k)) ?s2"
  have ex: "M3dmapExtract ext (m_MilPointCloudContainer this) (m_MilDepthMap this) ?s2 = ?s3"
    using b by (simp add: M3dmapExtract_def)
  have sh3: "\<And>j. Shape ?s3 j = Shape s j" using sh2 by simp
  have c3: "Containers ?s3 (m_MilPointCloudContainer this) = Some (cs @ [(1, ?pts)])" by simp
  have hx2: "HostAddress ?s2 (MilX mf) = Some xs" "HostAddress ?s2 (MilZ mf) = Some zs"
    using h by (simp_all add: HostAddress_def cong: option.case_cong)
  have d2: "Shape ?s2 (m_MilDepthMap this) = Some (t, sx, sy, m_MilDepthMap this, 0, 0, n)"
    "Shape ?s2 (MilX mf) = Some (F32, N, 1, MilX mf, 0, 0, N)"
    "Shape ?s2 (MilZ mf) = Some (F32, N, 1, MilZ mf, 0, 0, N)"
    using dm(1) sh2 r by (simp_all add: Ready_def)
  have hx3: "HostAddress ?s3 (MilX mf) = Some xs" "HostAddress ?s3 (MilZ mf) = Some zs"
    using HostAddress_WritePixels_other [OF d2(2) d2(1)] HostAddress_WritePixels_other [OF d2(3) d2(1)]
      dm(2,3) hx2 by simp_all
  let ?this' = "this\<lparr>m_pProcessProfileDataConversion := Some ?c',
                       m_NbFramesProcessed := m_NbFramesProcessed this + 1\<rparr>"
  have p: "Process ext this Data s = (?this', ?s3)"
    unfolding Process_def conv using cv put ex by (simp add: Let_def del: Convert.simps)
  have r': "Ready N mf ?this' ?s3"
    using r sh3 c3 by (auto simp: Ready_def FlatChain_def)
  show ?thesis
    unfolding p using r' hx3 h(2,4) c3 cs0 by simp
qed

text \<open>Every call of a sequence adds one batch of \<open>N\<close> points, with the label 1, after the
  batches that the container held.\<close>

lemma ProcessFrames_step:
  assumes "Ready N mf this s"
  shows "case ProcessFrames ext this frames s of (this', s') \<Rightarrow>
           Ready N mf this' s' \<and>
           m_MilPointCloudContainer this' = m_MilPointCloudContainer this \<and>
           m_ConvertedY this' = m_ConvertedY this \<and>
           m_NbFramesProcessed this' = m_NbFramesProcessed this + length frames \<and>
           (\<exists>cs bs. Containers s (m_MilPointCloudContainer this) = Some cs \<and>
              Containers s' (m_MilPointCloudContainer this) = Some (cs @ bs) \<and>
              length bs = length frames \<and> (\<forall>b\<in>set bs. fst b = 1 \<and> length (snd b) = N))"
  using assms
proof (induction frames arbitrary: this s)
  case Nil
  then show ?case by (auto simp: Ready_def)
next
  case (Cons Data frames)
  obtain this1 s1 where p: "Process ext this Data s = (this1, s1)" by (cases "Process ext this Data s")
  note st = Process_step [OF Cons.prems(1), of ext Data, unfolded p, simplified]
  have r1: "Ready N mf this1 s1" using st by simp
  obtain this2 s2 where q: "ProcessFrames ext this1 frames s1 = (this2, s2)"
    by (cases "ProcessFrames ext this1 frames s1")
  note ih = Cons.IH [OF r1, unfolded q, simplified]
  have y: "length (m_ConvertedY this) = N" using Cons.prems by (simp add: Ready_def)
  obtain xs zs cs where a: "length xs = N" "length zs = N"
      "Containers s (m_MilPointCloudContainer this) = Some cs"
      "Containers s1 (m_MilPointCloudContainer this)
         = Some (cs @ [(1, zip xs (zip (m_ConvertedY this) zs))])"
    using st by auto
  obtain bs where b: "Containers s2 (m_MilPointCloudContainer this)
         = Some ((cs @ [(1, zip xs (zip (m_ConvertedY this) zs))]) @ bs)"
      "length bs = length frames" "\<forall>b\<in>set bs. fst b = 1 \<and> length (snd b) = N"
    using ih st a(4) by auto
  have "Containers s2 (m_MilPointCloudContainer this)
          = Some (cs @ ((1, zip xs (zip (m_ConvertedY this) zs)) # bs)) \<and>
        length ((1::nat, zip xs (zip (m_ConvertedY this) zs)) # bs) = length (Data # frames) \<and>
        (\<forall>b\<in>set ((1::nat, zip xs (zip (m_ConvertedY this) zs)) # bs). fst b = 1 \<and> length (snd b) = N)"
    using b a(1,2) y by simp
  then have e: "\<exists>cs bs. Containers s (m_MilPointCloudContainer this) = Some cs \<and>
              Containers s2 (m_MilPointCloudContainer this) = Some (cs @ bs) \<and>
              length bs = length (Data # frames) \<and> (\<forall>b\<in>set bs. fst b = 1 \<and> length (snd b) = N)"
    using a(3) by blast
  show ?case
    using e ih st p q by simp
qed

lemma ProcessFrames_append:
  "ProcessFrames ext this (fs1 @ fs2) s =
     (case ProcessFrames ext this fs1 s of (this1, s1) \<Rightarrow> ProcessFrames ext this1 fs2 s1)"
  by (induction fs1 arbitrary: this s) (simp_all split: prod.splits)

lemma length_batches:
  "\<forall>b\<in>set bs. fst b = l \<and> length (snd b) = N \<Longrightarrow> length (concat (map snd bs)) = length bs * N"
  by (induction bs) simp_all

lemma MbufClear_layout [simp]:
  "Shape (MbufClear i v s) j = Shape s j"
  "Containers (MbufClear i v s) = Containers s"
  "NextId (MbufClear i v s) = NextId s"
  by (simp_all add: MbufClear_def split: option.splits)

lemma AllocOther_layout [simp]:
  "Shape (snd (AllocOther s)) j = Shape s j"
  "Containers (snd (AllocOther s)) = Containers s"
  "fst (AllocOther s) = NextId s"
  by (simp_all add: AllocOther_def Shape_def)

lemma M3dmapAllocResult_layout [simp]:
  "Shape (snd (M3dmapAllocResult s)) j = Shape s j"
  "Containers (snd (M3dmapAllocResult s)) = (Containers s)(NextId s \<mapsto> [])"
  "fst (M3dmapAllocResult s) = NextId s"
  "NextId (snd (M3dmapAllocResult s)) = Suc (NextId s)"
  by (simp_all add: M3dmapAllocResult_def Shape_def Let_def)

lemma MbufAlloc2d_layout:
  assumes "0 < sx" "0 < sy"
  shows "Shape (snd (MbufAlloc2d sx sy ty s)) j =
           (if j = NextId s then Some (ty, sx, sy, NextId s, 0, 0, sx * sy) else Shape s j)"
    and "Containers (snd (MbufAlloc2d sx sy ty s)) = Containers s"
    and "NextId (snd (MbufAlloc2d sx sy ty s)) = Suc (NextId s)"
    and "fst (MbufAlloc2d sx sy ty s) = NextId s"
  using assms by (simp_all add: MbufAlloc2d_eq Shape_def)

lemma DepthMap_new_Ready:
  assumes n: "0 < ProfileSize" "0 < NbProfiles"
  shows "case CProfileDepthMapProcess_new ext ConvPCal DataRange WorldPosY ConveyorSpeed
                ProfileSize NbProfiles s of
           (this, s1) \<Rightarrow>
             Ready (ProfileSize * NbProfiles)
               \<lparr>MilX = Suc (Suc (NextId s)), MilZ = Suc (Suc (Suc (NextId s))),
                MilValidMask = Suc (Suc (Suc (Suc (NextId s))))\<rparr> this s1 \<and>
             m_NbFramesProcessed this = 0 \<and>
             m_MilPointCloudContainer this = Suc (Suc (Suc (Suc (Suc (NextId s))))) \<and>
             Containers s1 (m_MilPointCloudContainer this) = Some []"
proof -
  have N: "0 < ProfileSize * NbProfiles" using n by simp
  have o: "0 < Suc 0" by simp
  note a = MbufAlloc2d_layout [OF n] MbufAlloc2d_layout [OF N o]
  show ?thesis
    by (simp add: CProfileDepthMapProcess_new_def CProfile3dPointsProcess_new_def CProfileProcess_new_def
        CDataConversionToWorld_new_def CDataConversionToFlat_new_def MbufAlloc1d_def a
        Ready_def FlatChain_def SPData_new_def Let_def CProfileProcess.extend_def
        CProfileDepthMapProcess.fields_def case_prod_beta)
qed

lemma frames_points:
  assumes r: "Ready N mf this s"
  shows "case ProcessFrames ext this frames s of (this', s') \<Rightarrow>
           Ready N mf this' s' \<and>
           m_MilPointCloudContainer this' = m_MilPointCloudContainer this \<and>
           m_NbFramesProcessed this' = m_NbFramesProcessed this + length frames \<and>
           (\<exists>ps. ContainerPoints s' (m_MilPointCloudContainer this)
                    = ContainerPoints s (m_MilPointCloudContainer this) @ ps \<and>
                  length ps = length frames * N)"
proof -
  obtain this' s' where p: "ProcessFrames ext this frames s = (this', s')"
    by (cases "ProcessFrames ext this frames s")
  note st = ProcessFrames_step [OF r, where ext = ext and frames = frames, unfolded p, simplified]
  obtain cs bs where c: "Containers s (m_MilPointCloudContainer this) = Some cs"
      "Containers s' (m_MilPointCloudContainer this) = Some (cs @ bs)"
      "length bs = length frames" "\<forall>b\<in>set bs. fst b = 1 \<and> length (snd b) = N"
    using st by auto
  have "ContainerPoints s' (m_MilPointCloudContainer this)
          = ContainerPoints s (m_MilPointCloudContainer this) @ concat (map snd bs) \<and>
        length (concat (map snd bs)) = length frames * N"
    using c length_batches [OF c(4)] by (simp add: ContainerPoints_def)
  then show ?thesis
    unfolding p using st by auto
qed

text \<open>
  Claim C3. After the constructor and any sequence of calls of \<open>Process\<close>, one for each frame
  of a list, the point cloud container holds \<open>N * P\<close> points, where \<open>N\<close> is the number of calls
  and \<open>P = ProfileSize * NbProfiles\<close> the number of points of a frame, and the counter of
  frames is \<open>N\<close>. The accumulation is append-only: after any first part of the sequence, the
  points that the container holds then are still there, in their places, at the end, before
  the points that the calls of the second part have added, \<open>P\<close> for each call; no point is
  removed or replaced. The put of the library is the one that the specification describes.
\<close>

theorem container_accumulates:
  assumes n: "0 < ProfileSize" "0 < NbProfiles"
  shows "case CProfileDepthMapProcess_new ext ConvPCal DataRange WorldPosY ConveyorSpeed
                ProfileSize NbProfiles s of
           (this, s1) \<Rightarrow>
             (case ProcessFrames ext this frames s1 of
                (this', s') \<Rightarrow>
                  length (ContainerPoints s' (m_MilPointCloudContainer this))
                    = length frames * (ProfileSize * NbProfiles) \<and>
                  m_NbFramesProcessed this' = length frames \<and>
                  (\<forall>fs1 fs2. frames = fs1 @ fs2 \<longrightarrow>
                     (\<exists>ps. ContainerPoints s' (m_MilPointCloudContainer this)
                              = ContainerPoints (snd (ProcessFrames ext this fs1 s1))
                                  (m_MilPointCloudContainer this) @ ps \<and>
                            length ps = length fs2 * (ProfileSize * NbProfiles))))"
proof -
  let ?N = "ProfileSize * NbProfiles"
  obtain this s1 where c: "CProfileDepthMapProcess_new ext ConvPCal DataRange WorldPosY ConveyorSpeed
                ProfileSize NbProfiles s = (this, s1)"
    by (cases "CProfileDepthMapProcess_new ext ConvPCal DataRange WorldPosY ConveyorSpeed
                ProfileSize NbProfiles s")
  note r = DepthMap_new_Ready [OF n, where ext = ext and ConvPCal = ConvPCal and DataRange = DataRange
      and WorldPosY = WorldPosY and ConveyorSpeed = ConveyorSpeed and s = s, unfolded c, simplified]
  let ?mf = "\<lparr>MilX = Suc (Suc (NextId s)), MilZ = Suc (Suc (Suc (NextId s))),
              MilValidMask = Suc (Suc (Suc (Suc (NextId s))))\<rparr>"
  let ?c = "m_MilPointCloudContainer this"
  have rd: "Ready ?N ?mf this s1" using r by simp
  have z: "m_NbFramesProcessed this = 0" using r by simp
  have "Containers s1 ?c = Some []" using r by blast
  then have e: "ContainerPoints s1 ?c = []" by (simp add: ContainerPoints_def)
  obtain this' s' where p: "ProcessFrames ext this frames s1 = (this', s')"
    by (cases "ProcessFrames ext this frames s1")
  note all = frames_points [OF rd, where ext = ext and frames = frames, unfolded p, simplified]
  have count: "length (ContainerPoints s' ?c) = length frames * ?N"
    using all e by auto
  have cnt: "m_NbFramesProcessed this' = length frames"
    using all z by simp
  have pre: "\<exists>ps. ContainerPoints s' ?c = ContainerPoints (snd (ProcessFrames ext this fs1 s1)) ?c @ ps \<and>
                  length ps = length fs2 * ?N"
    if f: "frames = fs1 @ fs2" for fs1 fs2
  proof -
    obtain this1 sA where p1: "ProcessFrames ext this fs1 s1 = (this1, sA)"
      by (cases "ProcessFrames ext this fs1 s1")
    note a1 = frames_points [OF rd, where ext = ext and frames = fs1, unfolded p1, simplified]
    have r1: "Ready ?N ?mf this1 sA" and c1: "m_MilPointCloudContainer this1 = ?c"
      using a1 by simp_all
    have p2: "ProcessFrames ext this1 fs2 sA = (this', s')"
      using p f p1 by (simp add: ProcessFrames_append)
    note a2 = frames_points [OF r1, where ext = ext and frames = fs2, unfolded p2, simplified]
    show ?thesis
      using a2 c1 p1 by simp
  qed
  show ?thesis
    unfolding c using p count cnt pre by simp
qed

section \<open>Two frames through the depth map process\<close>

lemma FillY_example:
  "FillY ExactArith 0 HalfSpeed 2 2 0 [0, 0, 0, 0] = [0, 0, 1 / 2, 1 / 2]"
  by (simp add: FillY.simps FillRow.simps ExactArith_def HalfSpeed_def Let_def eval_nat_numeral)

lemma replicate4: "replicate 4 x = [x, x, x, x]"
  by (simp add: eval_nat_numeral)

lemma DepthStore_eq:
  "DepthStore =
     \<lparr>Buffers = (\<lambda>i. None)(1 \<mapsto>
        \<lparr>BufType = U16, SizeX = 4, SizeY = 2, Root = 1, OffX = 0, OffY = 0,
         Pixels = [0, 65535, 0, 65535, 50, 300, 100, 200]\<rparr>,
        2 \<mapsto> \<lparr>BufType = U16, SizeX = 2, SizeY = 2, Root = 1, OffX = 0, OffY = 0, Pixels = []\<rparr>,
        3 \<mapsto> \<lparr>BufType = U16, SizeX = 2, SizeY = 2, Root = 1, OffX = 2, OffY = 0, Pixels = []\<rparr>,
        4 \<mapsto> \<lparr>BufType = U8, SizeX = 2, SizeY = 2, Root = 4, OffX = 0, OffY = 0,
               Pixels = [0, 255, 255, 255]\<rparr>,
        5 \<mapsto> \<lparr>BufType = F32, SizeX = 2, SizeY = 2, Root = 5, OffX = 0, OffY = 0,
               Pixels = [0, 0, 0, 0]\<rparr>,
        6 \<mapsto> \<lparr>BufType = F32, SizeX = 2, SizeY = 2, Root = 6, OffX = 0, OffY = 0,
               Pixels = [0, 0, 0, 0]\<rparr>,
        7 \<mapsto> \<lparr>BufType = F32, SizeX = 4, SizeY = 1, Root = 7, OffX = 0, OffY = 0,
               Pixels = [0, 0, 0, 0]\<rparr>,
        8 \<mapsto> \<lparr>BufType = F32, SizeX = 4, SizeY = 1, Root = 8, OffX = 0, OffY = 0,
               Pixels = [0, 0, 0, 0]\<rparr>,
        9 \<mapsto> \<lparr>BufType = U8, SizeX = 4, SizeY = 1, Root = 9, OffX = 0, OffY = 0,
               Pixels = [0, 0, 0, 0]\<rparr>,
        11 \<mapsto> \<lparr>BufType = U16, SizeX = 2, SizeY = 2, Root = 11, OffX = 0, OffY = 0,
               Pixels = [65535, 65535, 65535, 65535]\<rparr>),
      Containers = (\<lambda>i. None)(10 \<mapsto> []), NextId = 14, MilError = False\<rparr>"
  by (simp add: DepthStore_def CProfileDepthMapProcess_new_def CProfile3dPointsProcess_new_def
      CProfileProcess_new_def CDataConversionToWorld_new_def CDataConversionToFlat_new_def
      MbufAlloc1d_def MbufAlloc2d_def M3dmapAllocResult_def MbufClear_def WritePixels_def AllocOther_def
      InWindow_def StoreCast_def SPData_new_def MaskedStore_eq Let_def upt4 replicate4
      case_prod_beta)

lemma DepthProcess_eq:
  "DepthProcess =
     \<lparr>m_NbPoints = 4, m_PCal = IdentityCal,
      m_pProcessProfileDataConversion =
        Some (CDataConversionApplyInvalid (Some (CDataConversionToFlat
          (Some (CDataConversionToWorld None \<lparr>MilX = 5, MilZ = 6, MilValidMask = 0\<rparr> IdentityCal))
          \<lparr>MilX = 7, MilZ = 8, MilValidMask = 9\<rparr>))),
      m_MilDisplay = 12, m_MilPointCloudContainer = 10, m_MilDepthMap = 11, m_MilDisplayLut = 13,
      m_ConvertedY = [0, 0, 1 / 2, 1 / 2], m_NbFramesProcessed = 0\<rparr>"
  by (simp add: DepthProcess_def CProfileDepthMapProcess_new_def CProfile3dPointsProcess_new_def
      CProfileProcess_new_def CDataConversionToWorld_new_def CDataConversionToFlat_new_def
      MbufAlloc1d_def MbufAlloc2d_def M3dmapAllocResult_def MbufClear_def AllocOther_def
      SPData_new_def M_NULL_def Let_def replicate4 FillY_example case_prod_beta
      CProfileProcess.extend_def CProfileDepthMapProcess.fields_def MaskedStore_facts)

lemma Process_example:
  "Process ExactArith DepthProcess MaskedData DepthStore = (DepthProcess1, FrameStore)"
  by (simp add: Process_def DepthProcess1_def FrameStore_def DepthProcess_eq DepthStore_eq MaskedData_def
      ArithConst_def
      MbufGet_HostAddress_def ApplyInvalidMask_def MbufInquire_M_MAX_def MbufClearCond_M_EQUAL_def
      M3dmapPut_M_POSITION_def M3dmapExtract_def HostAddress_def
      MbufData_def WritePixels_def PixelIndex_def InWindow_def PixelOp_def StoreCast_def TypeMax_def
      IdentityCal_def ExactArith_def upt4 Let_def)

lemma Process_example2:
  "(case Process ExactArith DepthProcess1 SwappedData FrameStore of
      (this', s') \<Rightarrow>
        Containers s' 10 =
          Some [(1, [(TypeMax F32, 0, TypeMax F32), (65535, 0, 65535),
                     (100, 1 / 2, 50), (200, 1 / 2, 300)]),
                (1, [(TypeMax F32, 0, TypeMax F32), (65535, 0, 65535),
                     (50, 1 / 2, 100), (300, 1 / 2, 200)])] \<and>
        \<not> MilError s' \<and> m_NbFramesProcessed this' = 2)"
  by (simp add: Process_def DepthProcess1_def FrameStore_def DepthProcess_eq SwappedData_def
      ArithConst_def
      MbufGet_HostAddress_def ApplyInvalidMask_def MbufInquire_M_MAX_def MbufClearCond_M_EQUAL_def
      M3dmapPut_M_POSITION_def M3dmapExtract_def HostAddress_def
      MbufData_def WritePixels_def PixelIndex_def InWindow_def PixelOp_def StoreCast_def TypeMax_def
      IdentityCal_def ExactArith_def upt4 Let_def)

lemma ProcessFrames_example:
  "ProcessFrames ExactArith DepthProcess [MaskedData] DepthStore = (DepthProcess1, FrameStore)"
  "ProcessFrames ExactArith DepthProcess [MaskedData, SwappedData] DepthStore
     = Process ExactArith DepthProcess1 SwappedData FrameStore"
  using Process_example by (simp_all split: prod.splits)

theorem container_accumulates_witness:
  "(0::nat) < 2 \<and> [MaskedData, SwappedData] = [MaskedData] @ [SwappedData] \<and>
   m_MilPointCloudContainer DepthProcess = 10 \<and>
   ContainerPoints DepthStore 10 = [] \<and>
   ContainerPoints (snd (ProcessFrames ExactArith DepthProcess [MaskedData] DepthStore)) 10
     = [(TypeMax F32, 0, TypeMax F32), (65535, 0, 65535), (100, 1 / 2, 50), (200, 1 / 2, 300)] \<and>
   ContainerPoints (snd (ProcessFrames ExactArith DepthProcess [MaskedData, SwappedData] DepthStore)) 10
     = ContainerPoints (snd (ProcessFrames ExactArith DepthProcess [MaskedData] DepthStore)) 10 @
       [(TypeMax F32, 0, TypeMax F32), (65535, 0, 65535), (50, 1 / 2, 100), (300, 1 / 2, 200)] \<and>
   length (ContainerPoints (snd (ProcessFrames ExactArith DepthProcess [MaskedData, SwappedData] DepthStore)) 10)
     = 2 * (2 * 2) \<and>
   m_NbFramesProcessed (fst (ProcessFrames ExactArith DepthProcess [MaskedData, SwappedData] DepthStore)) = 2 \<and>
   \<not> MilError (snd (ProcessFrames ExactArith DepthProcess [MaskedData, SwappedData] DepthStore))"
proof -
  have a: "length (ContainerPoints (snd (ProcessFrames ExactArith DepthProcess [MaskedData, SwappedData] DepthStore)) 10)
             = 2 * (2 * 2) \<and>
           m_NbFramesProcessed (fst (ProcessFrames ExactArith DepthProcess [MaskedData, SwappedData] DepthStore)) = 2 \<and>
           (\<exists>ps. ContainerPoints (snd (ProcessFrames ExactArith DepthProcess [MaskedData, SwappedData] DepthStore)) 10
                   = ContainerPoints (snd (ProcessFrames ExactArith DepthProcess [MaskedData] DepthStore)) 10 @ ps \<and>
                 length ps = 2 * 2)"
  proof -
    have c: "CProfileDepthMapProcess_new ExactArith IdentityCal (PRANGE 2) 0 HalfSpeed 2 2 MaskedStore
               = (DepthProcess, DepthStore)"
      by (simp add: DepthProcess_def DepthStore_def)
    have m: "m_MilPointCloudContainer DepthProcess = 10" by (simp add: DepthProcess_eq)
    obtain this' s' where
      p: "ProcessFrames ExactArith DepthProcess [MaskedData, SwappedData] DepthStore = (this', s')"
      by (cases "ProcessFrames ExactArith DepthProcess [MaskedData, SwappedData] DepthStore")
    have s: "[MaskedData, SwappedData] = [MaskedData] @ [SwappedData]" by simp
    have z: "(0::nat) < 2" by simp
    note t = container_accumulates [where ProfileSize = 2 and NbProfiles = 2
        and frames = "[MaskedData, SwappedData]" and ext = ExactArith and ConvPCal = IdentityCal
        and DataRange = "PRANGE 2" and WorldPosY = 0 and ConveyorSpeed = HalfSpeed and s = MaskedStore,
        OF z z, unfolded c p prod.case m]
    have h: "\<exists>ps. ContainerPoints s' 10
             = ContainerPoints (snd (ProcessFrames ExactArith DepthProcess [MaskedData] DepthStore)) 10 @ ps \<and>
           length ps = length [SwappedData] * (2 * 2)"
      using t s by blast
    show ?thesis
      unfolding p using t h by simp
  qed
  have b: "m_MilPointCloudContainer DepthProcess = 10" "ContainerPoints DepthStore 10 = []"
    "ContainerPoints FrameStore 10
       = [(TypeMax F32, 0, TypeMax F32), (65535, 0, 65535), (100, 1 / 2, 50), (200, 1 / 2, 300)]"
    by (simp_all add: DepthProcess_eq DepthStore_eq FrameStore_def ContainerPoints_def)
  show ?thesis
    unfolding ProcessFrames_example
    using a [unfolded ProcessFrames_example] b Process_example2
    by (simp add: ContainerPoints_def split: prod.splits)
qed

end
